(* ===== verification/Terrain_Prelude.thy ===== *)
theory Terrain_Prelude
  imports Complex_Main "HOL-Library.Word"
begin

text \<open>
  Shared vocabulary of the Terrain3D storage development: the names of the model's
  basic types, the collections of facts that the component theories extend, and the
  generic lemmas on lists that several components use (element removal by index,
  first-match search).
\<close>

section \<open>Fact collections\<close>

named_theorems storage_defs "definitions of the storage handlers, unfolded together"
named_theorems inv_simps "simplification rules for the storage invariants"

section \<open>Basic types\<close>

text \<open>
  \<open>Vector2i\<close> is a pair of integers; a rendering-server \<open>RID\<close> is a natural number,
  with \<open>0\<close> the invalid \<open>RID()\<close>.
\<close>

type_synonym vec2i = "int \<times> int"
type_synonym rid = nat

abbreviation rid_valid :: "rid \<Rightarrow> bool" where
  "rid_valid r \<equiv> r \<noteq> 0"

section \<open>Errors\<close>

text \<open>
  The failures of the storage's handlers. \<open>Duplicate_Region\<close>, \<open>Missing_Region\<close> and
  \<open>Invalid_Region_Size\<close> are Godot's \<open>ERR_FAIL_COND\<close>: the error is reported and the
  handler returns with the state unchanged. \<open>Index_Out_Of_Range\<close> (Godot's
  \<open>CRASH_BAD_INDEX\<close> on an unchecked array read) and \<open>Null_Reference\<close> (a method called
  through a null \<open>Ref\<close>) abort the program.
\<close>

datatype error =
    Duplicate_Region
  | Missing_Region
  | Invalid_Region_Size
  | Index_Out_Of_Range
  | Null_Reference

fun fatal :: "error \<Rightarrow> bool" where
  "fatal Index_Out_Of_Range = True"
| "fatal Null_Reference = True"
| "fatal _ = False"

text \<open>
  Sequencing of fallible steps: the first failure ends the handler (for an abort, the
  program).
\<close>

fun sbind :: "error + 'a \<Rightarrow> ('a \<Rightarrow> error + 'b) \<Rightarrow> error + 'b" where
  "sbind (Inl e) f = Inl e"
| "sbind (Inr a) f = f a"

lemma sbind_Inr_iff: "sbind m f = Inr b \<longleftrightarrow> (\<exists>a. m = Inr a \<and> f a = Inr b)"
  by (cases m) simp_all

lemma sbind_Inl_iff: "sbind m f = Inl e \<longleftrightarrow> m = Inl e \<or> (\<exists>a. m = Inr a \<and> f a = Inl e)"
  by (cases m) simp_all

section \<open>Removing the element at an index\<close>

text \<open>
  Removal of the element at position \<open>i\<close>, compacting the list: what both Godot's
  \<open>Array::remove_at\<close> and the region store do on a valid index.
\<close>

definition drop_nth :: "nat \<Rightarrow> 'a list \<Rightarrow> 'a list" where
  "drop_nth i xs = take i xs @ drop (Suc i) xs"

lemma length_drop_nth [simp]:
  "i < length xs \<Longrightarrow> length (drop_nth i xs) = length xs - 1"
  by (simp add: drop_nth_def)

lemma nth_drop_nth:
  "i < length xs \<Longrightarrow> j < length xs - 1 \<Longrightarrow>
   drop_nth i xs ! j = (if j < i then xs ! j else xs ! Suc j)"
  by (simp add: drop_nth_def nth_append min_def)

lemma set_drop_nth_subset: "set (drop_nth i xs) \<subseteq> set xs"
  by (auto simp: drop_nth_def dest: in_set_takeD in_set_dropD)

lemma distinct_drop_nth [simp]: "distinct xs \<Longrightarrow> distinct (drop_nth i xs)"
  by (simp add: drop_nth_def set_take_disj_set_drop_if_distinct)

lemma set_drop_nth_distinct:
  "distinct xs \<Longrightarrow> i < length xs \<Longrightarrow> set (drop_nth i xs) = set xs - {xs ! i}"
proof -
  assume d: "distinct xs" and i: "i < length xs"
  have xs: "xs = take i xs @ xs ! i # drop (Suc i) xs"
    using i by (simp add: id_take_nth_drop)
  have "distinct (take i xs @ xs ! i # drop (Suc i) xs)"
    using d xs by metis
  then show ?thesis
    by (subst (2) xs) (auto simp: drop_nth_def)
qed

lemma in_set_drop_nth:
  "i < length xs \<Longrightarrow> x \<noteq> xs ! i \<Longrightarrow> x \<in> set (drop_nth i xs) \<longleftrightarrow> x \<in> set xs"
proof -
  assume i: "i < length xs" and x: "x \<noteq> xs ! i"
  have xs: "set xs = set (take i xs) \<union> {xs ! i} \<union> set (drop (Suc i) xs)"
    using i by (subst id_take_nth_drop [OF i]) auto
  with x show ?thesis by (auto simp: drop_nth_def)
qed

lemma drop_nth_last:
  "i < length xs \<Longrightarrow> Suc i < length xs \<Longrightarrow>
   drop_nth i xs ! (length xs - 2) = xs ! (length xs - 1)"
proof -
  assume "i < length xs" and "Suc i < length xs"
  moreover have "Suc (length xs - 2) = length xs - 1" using \<open>Suc i < length xs\<close> by arith
  ultimately show ?thesis by (simp add: nth_drop_nth)
qed

text \<open>Association lists built by zipping keys with values, as the region store does.\<close>

lemma map_of_zip_snoc:
  "length xs = length ys \<Longrightarrow> x \<notin> set xs \<Longrightarrow>
     map_of (zip (xs @ [x]) (ys @ [y])) = (map_of (zip xs ys))(x \<mapsto> y)"
  by (simp add: zip_append map_add_upd_left dom_map_of_zip)

lemma drop_nth_Cons [simp]:
  "drop_nth 0 (x # xs) = xs" "drop_nth (Suc i) (x # xs) = x # drop_nth i xs"
  by (simp_all add: drop_nth_def)

lemma zip_drop_nth:
  "length xs = length ys \<Longrightarrow> zip (drop_nth i xs) (drop_nth i ys) = drop_nth i (zip xs ys)"
  by (simp add: drop_nth_def zip_append take_zip drop_zip)

lemma map_of_drop_nth:
  "distinct (map fst kvs) \<Longrightarrow> i < length kvs \<Longrightarrow>
     map_of (drop_nth i kvs) = (map_of kvs)(fst (kvs ! i) := None)"
proof (induction kvs arbitrary: i)
  case (Cons p kvs)
  obtain a v where p: "p = (a, v)" by fastforce
  show ?case
  proof (cases i)
    case 0
    have "a \<notin> fst ` set kvs" using Cons.prems(1) p by simp
    then show ?thesis using 0 p by (auto simp: map_of_eq_None_iff)
  next
    case (Suc j)
    then have j: "j < length kvs" using Cons.prems(2) by simp
    have a: "a \<notin> fst ` set kvs" and d: "distinct (map fst kvs)" using Cons.prems(1) p by simp_all
    have "fst (kvs ! j) \<in> fst ` set kvs" using nth_mem [OF j] by blast
    with a have ne: "fst (kvs ! j) \<noteq> a" by blast
    have "map_of (drop_nth i (p # kvs)) = (map_of (drop_nth j kvs))(a \<mapsto> v)" using Suc p by simp
    also have "\<dots> = ((map_of kvs)(fst (kvs ! j) := None))(a \<mapsto> v)" by (simp only: Cons.IH [OF d j])
    also have "\<dots> = ((map_of kvs)(a \<mapsto> v))(fst (kvs ! j) := None)" using ne by (rule fun_upd_twist)
    finally show ?thesis using Suc p by (simp del: fun_upd_apply)
  qed
qed simp
section \<open>First index of a key\<close>

text \<open>
  The reference reading of a linear search: the position of the first element equal
  to \<open>k\<close>, and \<open>length xs\<close> when there is none.
\<close>

primrec first_index :: "'a list \<Rightarrow> 'a \<Rightarrow> nat" where
  "first_index [] k = 0"
| "first_index (x # xs) k = (if x = k then 0 else Suc (first_index xs k))"

lemma first_index_less [simp]: "k \<in> set xs \<Longrightarrow> first_index xs k < length xs"
  by (induction xs) auto

lemma first_index_nth [simp]: "k \<in> set xs \<Longrightarrow> xs ! first_index xs k = k"
  by (induction xs) auto

lemma first_index_notin [simp]: "k \<notin> set xs \<Longrightarrow> first_index xs k = length xs"
  by (induction xs) auto

lemma first_index_append:
  "first_index (xs @ ys) k =
   (if k \<in> set xs then first_index xs k else length xs + first_index ys k)"
  by (induction xs) auto

lemma first_index_nth_distinct:
  "distinct xs \<Longrightarrow> i < length xs \<Longrightarrow> first_index xs (xs ! i) = i"
proof (induction xs arbitrary: i)
  case Nil
  then show ?case by simp
next
  case (Cons x xs)
  then show ?case by (cases i) auto
qed

lemma first_index_minimal:
  "j < first_index xs k \<Longrightarrow> j < length xs \<Longrightarrow> xs ! j \<noteq> k"
proof (induction xs arbitrary: j)
  case Nil
  then show ?case by simp
next
  case (Cons x xs)
  then show ?case by (cases j) (auto split: if_splits)
qed

section \<open>Lists of optional values\<close>

text \<open>
  \<^term>\<open>those\<close> collects a list of optional values, failing on the first \<open>None\<close>: a loop
  over a list of references that dereferences each one.
\<close>

lemma those_None_iff [simp]: "those xs = None \<longleftrightarrow> None \<in> set xs"
  by (induction xs) (auto split: option.splits)

lemma those_Some_iff: "those xs = Some ys \<longleftrightarrow> xs = map Some ys"
proof (induction xs arbitrary: ys)
  case (Cons x xs)
  then show ?case by (cases x; cases ys) auto
qed auto

lemma those_map_Some [simp]: "those (map Some ys) = Some ys"
  by (simp add: those_Some_iff)

section \<open>Exclusive ownership of handles\<close>

text \<open>
  A family of owners \<open>h\<close> holds handles (\<open>0\<close> for none); \<open>D\<close> is the set of live
  handles and \<open>n\<close> the next fresh one. \<^term>\<open>own_ok\<close>: no two owners share a live
  handle, the live handles are exactly the held ones, all below \<open>n\<close>.
  \<^term>\<open>freed_ok\<close>: the release log \<open>F\<close> names each handle at most once, never a
  live one.
\<close>

definition own_ok :: "('o \<Rightarrow> nat) \<Rightarrow> nat set \<Rightarrow> nat \<Rightarrow> bool" where
  "own_ok h D n \<longleftrightarrow>
     (\<forall>a b. h a \<noteq> 0 \<longrightarrow> h a = h b \<longrightarrow> a = b) \<and>
     D = {r. r \<noteq> 0 \<and> r \<in> range h} \<and> (\<forall>r\<in>D. r < n)"

definition freed_ok :: "nat list \<Rightarrow> nat set \<Rightarrow> nat \<Rightarrow> bool" where
  "freed_ok F D n \<longleftrightarrow> distinct F \<and> set F \<inter> D = {} \<and> (\<forall>r\<in>set F. r < n)"

lemma own_ok_release:
  assumes "own_ok h D n"
  shows "own_ok (h(a := 0)) (D - {h a}) n"
proof -
  from assms have inj: "\<forall>a b. h a \<noteq> 0 \<longrightarrow> h a = h b \<longrightarrow> a = b"
    and D: "D = {r. r \<noteq> 0 \<and> r \<in> range h}" and lt: "\<forall>r\<in>D. r < n"
    by (auto simp: own_ok_def)
  have "D - {h a} = {r. r \<noteq> 0 \<and> r \<in> range (h(a := 0))}"
  proof (intro set_eqI iffI)
    fix r assume "r \<in> D - {h a}"
    with D obtain b where "r = h b" "r \<noteq> 0" "r \<noteq> h a" by auto
    then have "b \<noteq> a" by auto
    with \<open>r = h b\<close> \<open>r \<noteq> 0\<close> show "r \<in> {r. r \<noteq> 0 \<and> r \<in> range (h(a := 0))}"
      by (auto intro!: image_eqI [where x = b])
  next
    fix r assume "r \<in> {r. r \<noteq> 0 \<and> r \<in> range (h(a := 0))}"
    then obtain b where b: "r = (h(a := 0)) b" "r \<noteq> 0" by blast
    then have "b \<noteq> a" and "r = h b" by (auto split: if_splits)
    with inj b(2) have "r \<noteq> h a" by metis
    with D \<open>r = h b\<close> b(2) show "r \<in> D - {h a}" by auto
  qed
  with inj lt show ?thesis by (auto simp: own_ok_def)
qed

lemma own_ok_acquire:
  assumes "own_ok h D n" and "h a = 0" and "0 < n"
  shows "own_ok (h(a := n)) (insert n D) (Suc n)"
proof -
  have inj: "\<forall>x y. h x \<noteq> 0 \<longrightarrow> h x = h y \<longrightarrow> x = y"
    and D: "D = {r. r \<noteq> 0 \<and> r \<in> range h}" and lt: "\<forall>r\<in>D. r < n"
    using assms(1) unfolding own_ok_def by blast+
  have fresh: "h b \<noteq> n" for b
  proof
    assume "h b = n"
    then have "n \<in> D" using D assms(3) by blast
    with lt show False by blast
  qed
  have inj': "\<forall>x y. (h(a := n)) x \<noteq> 0 \<longrightarrow> (h(a := n)) x = (h(a := n)) y \<longrightarrow> x = y"
  proof (intro allI impI)
    fix x y assume x: "(h(a := n)) x \<noteq> 0" and eq: "(h(a := n)) x = (h(a := n)) y"
    show "x = y"
    proof (cases "x = a")
      case True
      with eq fresh show ?thesis by (cases "y = a") auto
    next
      case False
      with eq fresh have "h x = h y" "y \<noteq> a" by (cases "y = a"; simp)+
      with x False inj show ?thesis by auto
    qed
  qed
  have eqD: "insert n D = {r. r \<noteq> 0 \<and> r \<in> range (h(a := n))}"
  proof (intro set_eqI iffI)
    fix r assume "r \<in> insert n D"
    then show "r \<in> {r. r \<noteq> 0 \<and> r \<in> range (h(a := n))}"
    proof
      assume "r = n"
      moreover have "(h(a := n)) a = n" by simp
      ultimately show ?thesis using assms(3) by (metis (mono_tags, lifting) mem_Collect_eq rangeI neq0_conv)
    next
      assume "r \<in> D"
      then obtain b where "r = h b" "r \<noteq> 0" using D by blast
      with assms(2) have "b \<noteq> a" by auto
      then have "(h(a := n)) b = r" using \<open>r = h b\<close> by simp
      with \<open>r \<noteq> 0\<close> show ?thesis by (metis (mono_tags, lifting) mem_Collect_eq rangeI)
    qed
  next
    fix r assume "r \<in> {r. r \<noteq> 0 \<and> r \<in> range (h(a := n))}"
    then obtain b where b: "r = (h(a := n)) b" "r \<noteq> 0" by blast
    show "r \<in> insert n D"
    proof (cases "b = a")
      case True with b show ?thesis by simp
    next
      case False
      with b have "r = h b" by simp
      with b(2) D show ?thesis by blast
    qed
  qed
  have lt': "\<forall>r\<in>insert n D. r < Suc n" using lt by auto
  from inj' eqD lt' show ?thesis unfolding own_ok_def by blast
qed

lemma own_ok_zero_notin: "own_ok h D n \<Longrightarrow> 0 \<notin> D"
  by (simp add: own_ok_def)

lemma own_ok_held_live: "own_ok h D n \<Longrightarrow> h a \<noteq> 0 \<Longrightarrow> h a \<in> D"
  by (auto simp: own_ok_def)

lemma own_ok_fresh: "own_ok h D n \<Longrightarrow> n \<notin> D"
  by (auto simp: own_ok_def)

lemma own_ok_unique:
  "own_ok h D n \<Longrightarrow> h a \<noteq> 0 \<Longrightarrow> h a = h b \<Longrightarrow> a = b"
  by (auto simp: own_ok_def)

lemma freed_ok_release:
  "freed_ok F D n \<Longrightarrow> r \<in> D \<Longrightarrow> (\<forall>x\<in>D. x < n) \<Longrightarrow> freed_ok (F @ [r]) (D - {r}) n"
  by (auto simp: freed_ok_def)

lemma freed_ok_acquire:
  "freed_ok F D n \<Longrightarrow> freed_ok F (insert n D) (Suc n)"
  by (auto simp: freed_ok_def)

end
