(* ===== verification/Godot_Model.thy ===== *)
theory Godot_Model
  imports Terrain_Prelude
begin

text \<open>
  The collaborators the storage calls and does not implement (spec, section 6): the
  pixel-grid abstraction (Godot's \<open>Image\<close>), the GPU resource backend (the
  \<open>RenderingServer\<close> singleton, modelled as an explicit state record that every
  handler threads), and Godot's \<open>Array\<close> accessors. They are modelled at their
  interface only: an image is its size, its format and its pixel colours; the backend
  is a table of live resources, a fresh-handle counter, the material parameters and
  the log of handles released.
\<close>

section \<open>Colours and images\<close>

text \<open>
  Godot's \<open>Color\<close> has four \<open>float\<close> channels, read here as real numbers (rounding
  is not modelled). An image stores the colour set at each pixel; the 8-bit quantisation
  of a channel is \<^term>\<open>rg8_byte\<close>, applied where a channel is read back.
\<close>

record color =
  c_r :: real
  c_g :: real
  c_b :: real
  c_a :: real

definition Color :: "real \<Rightarrow> real \<Rightarrow> real \<Rightarrow> real \<Rightarrow> color" where
  "Color r g b a = \<lparr>c_r = r, c_g = g, c_b = b, c_a = a\<rparr>"

datatype image_format = FORMAT_RH | FORMAT_RGBA8 | FORMAT_RG8

record image =
  img_width :: nat
  img_height :: nat
  img_format :: image_format
  img_pixels :: "vec2i \<Rightarrow> color"

text \<open>\<open>Image::create(w, h, false, format)\<close>: every pixel zero.\<close>

definition image_create :: "nat \<Rightarrow> nat \<Rightarrow> image_format \<Rightarrow> image" where
  "image_create w h f =
     \<lparr>img_width = w, img_height = h, img_format = f, img_pixels = (\<lambda>_. Color 0 0 0 0)\<rparr>"

text \<open>\<open>Image::fill(c)\<close>.\<close>

definition image_fill :: "color \<Rightarrow> image \<Rightarrow> image" where
  "image_fill c img = img\<lparr>img_pixels := (\<lambda>_. c)\<rparr>"

definition in_image :: "vec2i \<Rightarrow> image \<Rightarrow> bool" where
  "in_image p img \<longleftrightarrow>
     0 \<le> fst p \<and> fst p < int (img_width img) \<and> 0 \<le> snd p \<and> snd p < int (img_height img)"

text \<open>
  \<open>Image::set_pixelv(p, c)\<close> in a build with \<open>DEBUG_ENABLED\<close> (the editor, where the
  storage is edited): outside the image Godot reports an error (\<open>ERR_FAIL_INDEX\<close>) and
  writes nothing. Release builds skip the check and write at \<open>y * width + x\<close>; the
  properties about what the region map holds assume every offset lies inside the map,
  where both builds write the same pixel.
\<close>

definition image_set_pixelv :: "vec2i \<Rightarrow> color \<Rightarrow> image \<Rightarrow> image" where
  "image_set_pixelv p c img =
     (if in_image p img then img\<lparr>img_pixels := (img_pixels img)(p := c)\<rparr> else img)"

text \<open>
  An 8-bit channel stores \<open>uint8_t(CLAMP(v * 255.0, 0, 255))\<close>: the value scaled,
  clamped and truncated.
\<close>

definition rg8_byte :: "real \<Rightarrow> 8 word" where
  "rg8_byte v = word_of_int \<lfloor>min 255 (max 0 (v * 255))\<rfloor>"

section \<open>The rendering server\<close>

datatype rs_object =
    RS_Material
  | RS_Shader
  | RS_Texture2D image
  | RS_TextureLayered "image list"

datatype param = P_Rid rid | P_Int int | P_Real real

text \<open>
  The shader source text is identified by the one choice the storage makes in it:
  whether the noise-overlay block is included.
\<close>

datatype shader_source = Terrain_Shader bool

record server =
  rs_next :: nat
  rs_objects :: "rid \<rightharpoonup> rs_object"
  rs_params :: "rid \<times> string \<rightharpoonup> param"
  rs_code :: "rid \<rightharpoonup> shader_source"
  rs_material_shader :: "rid \<rightharpoonup> rid"
  rs_freed :: "rid list"

definition server_init :: server where
  "server_init =
     \<lparr>rs_next = 1, rs_objects = Map.empty, rs_params = Map.empty, rs_code = Map.empty,
      rs_material_shader = Map.empty, rs_freed = []\<rparr>"

text \<open>Every creation returns a fresh handle.\<close>

definition rs_alloc :: "rs_object \<Rightarrow> server \<Rightarrow> rid \<times> server" where
  "rs_alloc obj s =
     (rs_next s, s\<lparr>rs_next := Suc (rs_next s),
                   rs_objects := (rs_objects s)(rs_next s \<mapsto> obj)\<rparr>)"

definition material_create :: "server \<Rightarrow> rid \<times> server" where
  "material_create s = rs_alloc RS_Material s"

definition shader_create :: "server \<Rightarrow> rid \<times> server" where
  "shader_create s = rs_alloc RS_Shader s"

definition texture_2d_create :: "image \<Rightarrow> server \<Rightarrow> rid \<times> server" where
  "texture_2d_create img s = rs_alloc (RS_Texture2D img) s"

text \<open>
  \<open>texture_2d_layered_create\<close> refuses (returns \<open>RID()\<close>) an empty list and layers
  that differ in size or format from the first.
\<close>

definition layers_uniform :: "image list \<Rightarrow> bool" where
  "layers_uniform imgs \<longleftrightarrow>
     imgs \<noteq> [] \<and>
     (\<forall>i \<in> set imgs. img_width i = img_width (hd imgs) \<and> img_height i = img_height (hd imgs)
                     \<and> img_format i = img_format (hd imgs))"

definition texture_2d_layered_create :: "image list \<Rightarrow> server \<Rightarrow> rid \<times> server" where
  "texture_2d_layered_create imgs s =
     (if layers_uniform imgs then rs_alloc (RS_TextureLayered imgs) s else (0, s))"

text \<open>\<open>free_rid\<close> releases a live handle; every call is logged.\<close>

definition free_rid :: "rid \<Rightarrow> server \<Rightarrow> server" where
  "free_rid r s =
     s\<lparr>rs_objects := (rs_objects s)(r := None), rs_freed := rs_freed s @ [r]\<rparr>"

definition material_set_param :: "rid \<Rightarrow> string \<Rightarrow> param \<Rightarrow> server \<Rightarrow> server" where
  "material_set_param m name v s = s\<lparr>rs_params := (rs_params s)((m, name) \<mapsto> v)\<rparr>"

definition shader_set_code :: "rid \<Rightarrow> shader_source \<Rightarrow> server \<Rightarrow> server" where
  "shader_set_code sh code s = s\<lparr>rs_code := (rs_code s)(sh \<mapsto> code)\<rparr>"

definition material_set_shader :: "rid \<Rightarrow> rid \<Rightarrow> server \<Rightarrow> server" where
  "material_set_shader m sh s = s\<lparr>rs_material_shader := (rs_material_shader s)(m \<mapsto> sh)\<rparr>"

section \<open>Godot arrays\<close>

text \<open>
  \<open>Array::remove_at(i)\<close>: an index outside the array is reported
  (\<open>ERR_FAIL_INDEX\<close>) and nothing is removed.
\<close>

definition array_remove_at :: "int \<Rightarrow> 'a list \<Rightarrow> 'a list" where
  "array_remove_at i xs =
     (if 0 \<le> i \<and> i < int (length xs) then drop_nth (nat i) xs else xs)"

text \<open>
  \<open>Array::operator[](i)\<close> does not check its index beyond Godot's
  \<open>CRASH_BAD_INDEX\<close>, which aborts the program.
\<close>

definition array_get :: "'a list \<Rightarrow> int \<Rightarrow> error + 'a" where
  "array_get xs i =
     (if 0 \<le> i \<and> i < int (length xs) then Inr (xs ! nat i) else Inl Index_Out_Of_Range)"

definition array_set :: "'a list \<Rightarrow> int \<Rightarrow> 'a \<Rightarrow> error + 'a list" where
  "array_set xs i v =
     (if 0 \<le> i \<and> i < int (length xs) then Inr (xs[nat i := v]) else Inl Index_Out_Of_Range)"

section \<open>Lemmas on the collaborators\<close>

lemma rs_alloc_fresh [simp]:
  "fst (rs_alloc obj s) = rs_next s"
  "rs_next (snd (rs_alloc obj s)) = Suc (rs_next s)"
  "rs_objects (snd (rs_alloc obj s)) = (rs_objects s)(rs_next s \<mapsto> obj)"
  "rs_params (snd (rs_alloc obj s)) = rs_params s"
  "rs_freed (snd (rs_alloc obj s)) = rs_freed s"
  by (simp_all add: rs_alloc_def)

lemma img_dims_fill [simp]:
  "img_width (image_fill c img) = img_width img"
  "img_height (image_fill c img) = img_height img"
  "img_format (image_fill c img) = img_format img"
  by (simp_all add: image_fill_def)

lemma img_dims_set_pixelv [simp]:
  "img_width (image_set_pixelv p c img) = img_width img"
  "img_height (image_set_pixelv p c img) = img_height img"
  "img_format (image_set_pixelv p c img) = img_format img"
  by (simp_all add: image_set_pixelv_def)

lemma img_dims_create [simp]:
  "img_width (image_create w h f) = w"
  "img_height (image_create w h f) = h"
  "img_format (image_create w h f) = f"
  by (simp_all add: image_create_def)

lemma pixel_set_pixelv:
  "img_pixels (image_set_pixelv p c img) q =
     (if q = p \<and> in_image p img then c else img_pixels img q)"
  by (simp add: image_set_pixelv_def)

lemma array_remove_at_valid [simp]:
  "0 \<le> i \<Longrightarrow> i < int (length xs) \<Longrightarrow> array_remove_at i xs = drop_nth (nat i) xs"
  by (simp add: array_remove_at_def)

lemma rg8_byte_exact:
  "n \<le> 255 \<Longrightarrow> rg8_byte (real n / 255) = of_nat n"
proof -
  assume n: "n \<le> 255"
  have "min 255 (max 0 (real n / 255 * 255)) = real n" using n by simp
  then have "\<lfloor>min 255 (max 0 (real n / 255 * 255))\<rfloor> = int n" by simp
  then show ?thesis by (simp add: rg8_byte_def)
qed

lemma rg8_byte_saturates:
  "255 \<le> n \<Longrightarrow> rg8_byte (real n / 255) = 255"
proof -
  assume n: "255 \<le> n"
  have "min 255 (max 0 (real n / 255 * 255)) = 255" using n by simp
  then show ?thesis by (simp add: rg8_byte_def)
qed

end
