(* ===== verification/Generated.thy ===== *)
theory Generated
  imports Godot_Model
begin

text \<open>
  The derived-resource cache entry \<open>Terrain3DStorage::Generated\<close> (header lines 34--45,
  \<open>terrain_storage.cpp\<close> lines 9--33): a backend handle, the image it was built from
  (region map only) and a dirty flag. Each operation takes the backend state and returns
  it updated. The spec's three-state lifecycle (Empty, Dirty, Clean) is an abstraction
  \<^term>\<open>gen_status\<close> of the entry, and the operations are shown to be steps of the
  spec's lifecycle machine \<^term>\<open>gen_spec_step\<close>.
\<close>

section \<open>The cache entry and its operations\<close>

record generated =
  g_rid :: rid
  g_image :: "image option"
  g_dirty :: bool

text \<open>Default member initialisers: \<open>rid = RID()\<close>, null image, \<open>dirty = false\<close>.\<close>

definition gen_init :: generated where
  "gen_init = \<lparr>g_rid = 0, g_image = None, g_dirty = False\<rparr>"

text \<open>\<open>Generated::clear()\<close>: release a valid handle, drop the image, mark dirty.\<close>

definition gen_clear :: "generated \<Rightarrow> server \<Rightarrow> generated \<times> server" where
  "gen_clear g s =
     (let s' = (if rid_valid (g_rid g) then free_rid (g_rid g) s else s)
      in (g\<lparr>g_rid := 0, g_image := None, g_dirty := True\<rparr>, s'))"

text \<open>
  \<open>Generated::create(const TypedArray<Image> &)\<close>: a non-empty list becomes one
  layered texture and the entry is clean; an empty list clears the entry.
\<close>

definition gen_create_layers :: "image list \<Rightarrow> generated \<Rightarrow> server \<Rightarrow> generated \<times> server" where
  "gen_create_layers imgs g s =
     (if imgs \<noteq> [] then
        (let (r, s') = texture_2d_layered_create imgs s in (g\<lparr>g_rid := r, g_dirty := False\<rparr>, s'))
      else gen_clear g s)"

text \<open>\<open>Generated::create(const Ref<Image> &)\<close>: keep the image, make a 2D texture.\<close>

definition gen_create_image :: "image \<Rightarrow> generated \<Rightarrow> server \<Rightarrow> generated \<times> server" where
  "gen_create_image img g s =
     (let (r, s') = texture_2d_create img s
      in (g\<lparr>g_image := Some img, g_rid := r, g_dirty := False\<rparr>, s'))"

section \<open>The spec's lifecycle\<close>

datatype gen_state = Empty | Dirty | Clean

definition gen_status :: "generated \<Rightarrow> gen_state" where
  "gen_status g =
     (if g_dirty g then Dirty else if rid_valid (g_rid g) then Clean else Empty)"

text \<open>
  The lifecycle of spec section 4.3: any state may be invalidated to Dirty; building
  moves Dirty or Empty to Clean; building from an empty source releases the handle.
\<close>

inductive gen_spec_step :: "gen_state \<Rightarrow> gen_state \<Rightarrow> bool" where
  invalidate: "gen_spec_step st Dirty"
| build: "st \<noteq> Clean \<Longrightarrow> gen_spec_step st Clean"
| release: "gen_spec_step st Empty"

inductive_cases gen_spec_step_CleanE [elim!]: "gen_spec_step Clean Clean"

text \<open>
  The well-formedness of an entry against the backend: a dirty entry holds no handle,
  and a handle it holds is live in the backend.
\<close>

definition gen_wf :: "server \<Rightarrow> generated \<Rightarrow> bool" where
  "gen_wf s g \<longleftrightarrow>
     (g_dirty g \<longrightarrow> g_rid g = 0) \<and> (rid_valid (g_rid g) \<longrightarrow> g_rid g \<in> dom (rs_objects s))"

section \<open>Behaviour of the operations\<close>

lemma gen_clear_simps [simp]:
  "g_rid (fst (gen_clear g s)) = 0"
  "g_dirty (fst (gen_clear g s)) = True"
  "g_image (fst (gen_clear g s)) = None"
  "rs_next (snd (gen_clear g s)) = rs_next s"
  "rs_params (snd (gen_clear g s)) = rs_params s"
  "rs_objects (snd (gen_clear g s)) =
     (if rid_valid (g_rid g) then (rs_objects s)(g_rid g := None) else rs_objects s)"
  "rs_freed (snd (gen_clear g s)) =
     (if rid_valid (g_rid g) then rs_freed s @ [g_rid g] else rs_freed s)"
  by (simp_all add: gen_clear_def Let_def free_rid_def)

lemma gen_clear_status [simp]: "gen_status (fst (gen_clear g s)) = Dirty"
  by (simp add: gen_status_def)

lemma gen_create_layers_nonempty:
  assumes "imgs \<noteq> []"
  shows "gen_create_layers imgs g s =
           (let (r, s') = texture_2d_layered_create imgs s in (g\<lparr>g_rid := r, g_dirty := False\<rparr>, s'))"
  using assms by (simp add: gen_create_layers_def)

lemma gen_create_layers_uniform:
  assumes "layers_uniform imgs"
  shows "gen_create_layers imgs g s =
           (g\<lparr>g_rid := rs_next s, g_dirty := False\<rparr>, snd (rs_alloc (RS_TextureLayered imgs) s))"
proof -
  from assms have "imgs \<noteq> []" by (simp add: layers_uniform_def)
  with assms show ?thesis
    by (simp add: gen_create_layers_def texture_2d_layered_create_def rs_alloc_def)
qed

lemma gen_create_layers_empty [simp]: "gen_create_layers [] g s = gen_clear g s"
  by (simp add: gen_create_layers_def)

lemma gen_create_image_eq:
  "gen_create_image img g s =
     (g\<lparr>g_image := Some img, g_rid := rs_next s, g_dirty := False\<rparr>,
      snd (rs_alloc (RS_Texture2D img) s))"
  by (simp add: gen_create_image_def texture_2d_create_def rs_alloc_def)

text \<open>Each operation is a step of the spec's lifecycle.\<close>

lemma gen_clear_spec: "gen_spec_step (gen_status g) (gen_status (fst (gen_clear g s)))"
  by (simp add: gen_spec_step.invalidate)

lemma gen_create_image_spec:
  assumes "0 < rs_next s" and "gen_status g \<noteq> Clean"
  shows "gen_spec_step (gen_status g) (gen_status (fst (gen_create_image img g s)))"
proof -
  have "gen_status (fst (gen_create_image img g s)) = Clean"
    using assms(1) by (simp add: gen_create_image_eq gen_status_def)
  with assms(2) show ?thesis by (simp add: gen_spec_step.build)
qed

lemma gen_create_layers_spec:
  assumes "0 < rs_next s" and "gen_status g \<noteq> Clean"
  shows "gen_spec_step (gen_status g) (gen_status (fst (gen_create_layers imgs g s)))"
proof (cases "layers_uniform imgs")
  case True
  then have "gen_status (fst (gen_create_layers imgs g s)) = Clean"
    using assms(1) by (simp add: gen_create_layers_uniform gen_status_def)
  with assms(2) show ?thesis by (simp add: gen_spec_step.build)
next
  case False
  then have "gen_status (fst (gen_create_layers imgs g s)) \<in> {Empty, Dirty}"
    by (auto simp: gen_create_layers_def texture_2d_layered_create_def gen_status_def)
  then show ?thesis by (auto intro: gen_spec_step.intros)
qed

text \<open>A cleared entry: what \<open>clear()\<close> leaves; clearing it again changes nothing.\<close>

definition gen_cleared :: "generated \<Rightarrow> bool" where
  "gen_cleared g \<longleftrightarrow> g_dirty g \<and> g_rid g = 0 \<and> g_image g = None"

lemma gen_clear_cleared: "gen_cleared g \<Longrightarrow> gen_clear g s = (g, s)"
  by (cases g) (simp add: gen_cleared_def gen_clear_def)

lemma gen_clear_result_cleared [simp]: "gen_cleared (fst (gen_clear g s))"
  by (simp add: gen_cleared_def)

lemma gen_create_layers_dirty:
  "g_dirty (fst (gen_create_layers imgs g s)) \<longleftrightarrow> imgs = []"
  by (simp add: gen_create_layers_def split_def Let_def)

lemma gen_create_layers_dirty_cleared:
  "g_dirty (fst (gen_create_layers imgs g s)) \<Longrightarrow> gen_cleared (fst (gen_create_layers imgs g s))"
  by (simp add: gen_create_layers_dirty)

text \<open>Building a cache entry allocates and releases, and never sets a material parameter.\<close>

lemma gen_create_params [simp]:
  "rs_params (snd (gen_create_layers imgs g s)) = rs_params s"
  "rs_params (snd (gen_create_image img g s)) = rs_params s"
  by (simp_all add: gen_create_layers_def gen_create_image_eq texture_2d_layered_create_def
                    rs_alloc_def Let_def split_def)

end
