(* ===== verification/Storage.thy ===== *)
theory Storage
  imports Generated
begin

text \<open>
  The state of a \<open>Terrain3DStorage\<close> object (header lines 18--72) and the handlers that
  do not touch regions or layers: the constructor, \<open>_update_material\<close>, \<open>_clear\<close>, and
  the scalar setters. The object's fields are the record \<open>storage\<close>, in the header's
  order; \<open>world\<close> extends it with the rendering-server state (the singleton every
  handler calls) and the heap of layer-material objects (which hold the signal
  connections the storage makes). The five \<open>Generated\<close> members are reached through
  \<open>get_gen\<close> and \<open>put_gen\<close> by a slot name.
\<close>

section \<open>Enumerations and external objects\<close>

datatype map_type = TYPE_HEIGHT | TYPE_CONTROL | TYPE_COLOR | TYPE_MAX

text \<open>The values of the \<open>RegionSize\<close> enumeration.\<close>

definition region_sizes :: "int list" where
  "region_sizes = [64, 128, 256, 512, 1024, 2048]"

text \<open>
  \<open>TerrainLayerMaterial3D\<close> is declared outside the sources (\<open>terrain_material.h\<close>);
  it is modelled from the spec: two texture references (a \<open>Texture2D\<close> read as the
  image it holds, or null), a uv scale, an albedo colour, and the signal connections
  made on it, as (signal, method) pairs towards this storage.
\<close>

record layer_obj =
  lo_albedo_texture :: "image option"
  lo_normal_texture :: "image option"
  lo_uv_scale :: "real \<times> real \<times> real"
  lo_albedo :: color
  lo_conns :: "(string \<times> string) list"

text \<open>A \<open>Ref<TerrainLayerMaterial3D>\<close> is an object identity or null.\<close>

type_synonym layer_ref = "nat option"

type_synonym vec3 = "real \<times> real \<times> real"

section \<open>The storage object\<close>

record storage =
  region_size :: int
  max_height :: int
  material :: rid
  shader :: rid
  shader_override :: "rid option"
  noise_texture :: "rid option"
  noise_scale :: real
  noise_height :: real
  noise_fade :: real
  layers :: "layer_ref list"
  region_offsets :: "vec2i list"
  height_maps :: "image list"
  control_maps :: "image list"
  generated_region_map :: generated
  generated_height_maps :: generated
  generated_control_maps :: generated
  generated_albedo_textures :: generated
  generated_normal_textures :: generated
  initialized :: bool

record world = storage +
  rs :: server
  lobj :: "nat \<Rightarrow> layer_obj"

text \<open>\<open>const int region_map_size = 16\<close>.\<close>

definition region_map_size :: int where
  "region_map_size = 16"

section \<open>The five cache slots\<close>

datatype gen_slot = Slot_Region_Map | Slot_Height | Slot_Control | Slot_Albedo | Slot_Normal

fun get_gen :: "gen_slot \<Rightarrow> 'a storage_scheme \<Rightarrow> generated" where
  "get_gen Slot_Region_Map w = generated_region_map w"
| "get_gen Slot_Height w = generated_height_maps w"
| "get_gen Slot_Control w = generated_control_maps w"
| "get_gen Slot_Albedo w = generated_albedo_textures w"
| "get_gen Slot_Normal w = generated_normal_textures w"

fun put_gen :: "gen_slot \<Rightarrow> generated \<Rightarrow> 'a storage_scheme \<Rightarrow> 'a storage_scheme" where
  "put_gen Slot_Region_Map g w = w\<lparr>generated_region_map := g\<rparr>"
| "put_gen Slot_Height g w = w\<lparr>generated_height_maps := g\<rparr>"
| "put_gen Slot_Control g w = w\<lparr>generated_control_maps := g\<rparr>"
| "put_gen Slot_Albedo g w = w\<lparr>generated_albedo_textures := g\<rparr>"
| "put_gen Slot_Normal g w = w\<lparr>generated_normal_textures := g\<rparr>"

text \<open>\<open>generated_X.clear()\<close>, \<open>generated_X.create(...)\<close> on the object's own backend.\<close>

definition clear_gen :: "gen_slot \<Rightarrow> world \<Rightarrow> world" where
  "clear_gen sl w = (let (g, s) = gen_clear (get_gen sl w) (rs w) in (put_gen sl g w)\<lparr>rs := s\<rparr>)"

definition create_gen_layers :: "gen_slot \<Rightarrow> image list \<Rightarrow> world \<Rightarrow> world" where
  "create_gen_layers sl imgs w =
     (let (g, s) = gen_create_layers imgs (get_gen sl w) (rs w) in (put_gen sl g w)\<lparr>rs := s\<rparr>)"

definition create_gen_image :: "gen_slot \<Rightarrow> image \<Rightarrow> world \<Rightarrow> world" where
  "create_gen_image sl img w =
     (let (g, s) = gen_create_image img (get_gen sl w) (rs w) in (put_gen sl g w)\<lparr>rs := s\<rparr>)"

definition set_param :: "string \<Rightarrow> param \<Rightarrow> world \<Rightarrow> world" where
  "set_param name v w = w\<lparr>rs := material_set_param (material w) name v (rs w)\<rparr>"

section \<open>Scalar setters and the material\<close>

text \<open>
  \<open>set_region_size\<close> (lines 59--66): only the range is checked, then the two
  uniforms are pushed.
\<close>

definition set_region_size :: "int \<Rightarrow> world \<Rightarrow> error + world" where
  "set_region_size p w =
     (if p < 64 then Inl Invalid_Region_Size
      else if p > 2048 then Inl Invalid_Region_Size
      else Inr (set_param ''region_pixel_size'' (P_Real (1 / real_of_int p))
                 (set_param ''region_size'' (P_Int p) (w\<lparr>region_size := p\<rparr>))))"

definition set_max_height :: "int \<Rightarrow> world \<Rightarrow> world" where
  "set_max_height h w = set_param ''terrain_height'' (P_Int h) (w\<lparr>max_height := h\<rparr>)"

text \<open>
  \<open>_update_material\<close> (lines 379--510): create the material and the shader when their
  handles are invalid, set the shader text (with the noise block exactly when a noise
  texture is set), bind the override or the generated shader, and re-push the region
  size (whose failure the caller ignores).
\<close>

definition update_material :: "world \<Rightarrow> world" where
  "update_material w =
     (let w1 = (if rid_valid (material w) then w
                else (let (r, s) = material_create (rs w) in w\<lparr>material := r, rs := s\<rparr>));
          w2 = (if rid_valid (shader w1) then w1
                else (let (r, s) = shader_create (rs w1) in w1\<lparr>shader := r, rs := s\<rparr>));
          use_noise = (noise_texture w2 \<noteq> None);
          w3 = w2\<lparr>rs := shader_set_code (shader w2) (Terrain_Shader use_noise) (rs w2)\<rparr>;
          w4 = w3\<lparr>rs := material_set_shader (material w3)
                          (case shader_override w3 of None \<Rightarrow> shader w3 | Some r \<Rightarrow> r) (rs w3)\<rparr>
      in (case set_region_size (region_size w4) w4 of Inl _ \<Rightarrow> w4 | Inr w5 \<Rightarrow> w5))"

text \<open>The member initialisers of the header, before the constructor body runs.\<close>

definition storage_defaults :: "server \<Rightarrow> (nat \<Rightarrow> layer_obj) \<Rightarrow> world" where
  "storage_defaults s lo =
     \<lparr>region_size = 1024, max_height = 512, material = 0, shader = 0, shader_override = None,
      noise_texture = None, noise_scale = 1, noise_height = 1 / 2, noise_fade = 5,
      layers = [], region_offsets = [], height_maps = [], control_maps = [],
      generated_region_map = gen_init, generated_height_maps = gen_init,
      generated_control_maps = gen_init, generated_albedo_textures = gen_init,
      generated_normal_textures = gen_init, initialized = False, rs = s, lobj = lo\<rparr>"

text \<open>The constructor (lines 35--40).\<close>

definition storage_new :: "server \<Rightarrow> (nat \<Rightarrow> layer_obj) \<Rightarrow> world" where
  "storage_new s lo =
     (let w = storage_defaults s lo
      in if \<not> initialized w then (update_material w)\<lparr>initialized := True\<rparr> else w)"

text \<open>\<open>_clear\<close> (lines 48--57), run by the destructor (lines 42--46).\<close>

definition storage_clear :: "world \<Rightarrow> world" where
  "storage_clear w =
     (let w1 = w\<lparr>rs := free_rid (shader w) (free_rid (material w) (rs w))\<rparr>
      in clear_gen Slot_Region_Map (clear_gen Slot_Normal (clear_gen Slot_Albedo
           (clear_gen Slot_Control (clear_gen Slot_Height w1)))))"

definition storage_destroy :: "world \<Rightarrow> world" where
  "storage_destroy w = (if initialized w then storage_clear w else w)"

text \<open>
  A storage as its constructor leaves it in a process whose backend holds nothing yet,
  its layer heap holding default layer objects.
\<close>

abbreviation fresh_storage :: world where
  "fresh_storage \<equiv>
     storage_new server_init
       (\<lambda>_. \<lparr>lo_albedo_texture = None, lo_normal_texture = None, lo_uv_scale = (1, 1, 1),
             lo_albedo = Color 1 1 1 1, lo_conns = []\<rparr>)"

text \<open>The noise and shader-override setters (lines 223--255).\<close>

definition set_shader_override :: "rid option \<Rightarrow> world \<Rightarrow> world" where
  "set_shader_override sh w = w\<lparr>shader_override := sh\<rparr>"

definition set_noise_texture :: "rid option \<Rightarrow> world \<Rightarrow> world" where
  "set_noise_texture t w =
     update_material (set_param ''noise'' (P_Rid (case t of None \<Rightarrow> 0 | Some r \<Rightarrow> r))
                        (w\<lparr>noise_texture := t\<rparr>))"

definition set_noise_scale :: "real \<Rightarrow> world \<Rightarrow> world" where
  "set_noise_scale v w = set_param ''noise_scale'' (P_Real v) (w\<lparr>noise_scale := v\<rparr>)"

definition set_noise_height :: "real \<Rightarrow> world \<Rightarrow> world" where
  "set_noise_height v w = set_param ''noise_height'' (P_Real v) (w\<lparr>noise_height := v\<rparr>)"

definition set_noise_fade :: "real \<Rightarrow> world \<Rightarrow> world" where
  "set_noise_fade v w = set_param ''noise_fade'' (P_Real v) (w\<lparr>noise_fade := v\<rparr>)"

section \<open>Slot lemmas\<close>

lemma get_put_gen [simp]:
  "get_gen sl' (put_gen sl g w) = (if sl' = sl then g else get_gen sl' w)"
  by (cases sl; cases sl') simp_all

lemma put_get_gen [simp]: "put_gen sl (get_gen sl w) w = w"
  by (cases sl) simp_all

lemma put_gen_fields [simp]:
  "region_offsets (put_gen sl g w) = region_offsets w"
  "height_maps (put_gen sl g w) = height_maps w"
  "control_maps (put_gen sl g w) = control_maps w"
  "layers (put_gen sl g w) = layers w"
  "material (put_gen sl g w) = material w"
  "shader (put_gen sl g w) = shader w"
  "region_size (put_gen sl g w) = region_size w"
  "rs (put_gen sl g w) = rs w"
  "lobj (put_gen sl g w) = lobj w"
  by (cases sl; simp)+

lemma get_gen_data_updates:
  "get_gen sl (w\<lparr>region_offsets := a\<rparr>) = get_gen sl w"
  "get_gen sl (w\<lparr>height_maps := b\<rparr>) = get_gen sl w"
  "get_gen sl (w\<lparr>control_maps := c\<rparr>) = get_gen sl w"
  "get_gen sl (w\<lparr>layers := l\<rparr>) = get_gen sl w"
  by (cases sl; simp)+

lemma get_gen_update_rs [simp]: "get_gen sl (w\<lparr>rs := s\<rparr>) = get_gen sl w"
  by (cases sl) simp_all

lemma clear_gen_simps [simp]:
  "get_gen sl' (clear_gen sl w) =
     (if sl' = sl then fst (gen_clear (get_gen sl w) (rs w)) else get_gen sl' w)"
  "rs (clear_gen sl w) = snd (gen_clear (get_gen sl w) (rs w))"
  "region_offsets (clear_gen sl w) = region_offsets w"
  "height_maps (clear_gen sl w) = height_maps w"
  "control_maps (clear_gen sl w) = control_maps w"
  "layers (clear_gen sl w) = layers w"
  "material (clear_gen sl w) = material w"
  "shader (clear_gen sl w) = shader w"
  "region_size (clear_gen sl w) = region_size w"
  "lobj (clear_gen sl w) = lobj w"
  by (simp_all add: clear_gen_def split_def Let_def)

lemma create_gen_layers_simps [simp]:
  "get_gen sl' (create_gen_layers sl imgs w) =
     (if sl' = sl then fst (gen_create_layers imgs (get_gen sl w) (rs w)) else get_gen sl' w)"
  "rs (create_gen_layers sl imgs w) = snd (gen_create_layers imgs (get_gen sl w) (rs w))"
  "region_offsets (create_gen_layers sl imgs w) = region_offsets w"
  "height_maps (create_gen_layers sl imgs w) = height_maps w"
  "control_maps (create_gen_layers sl imgs w) = control_maps w"
  "layers (create_gen_layers sl imgs w) = layers w"
  "material (create_gen_layers sl imgs w) = material w"
  "shader (create_gen_layers sl imgs w) = shader w"
  "region_size (create_gen_layers sl imgs w) = region_size w"
  "lobj (create_gen_layers sl imgs w) = lobj w"
  by (simp_all add: create_gen_layers_def split_def Let_def)

lemma create_gen_image_simps [simp]:
  "get_gen sl' (create_gen_image sl img w) =
     (if sl' = sl then fst (gen_create_image img (get_gen sl w) (rs w)) else get_gen sl' w)"
  "rs (create_gen_image sl img w) = snd (gen_create_image img (get_gen sl w) (rs w))"
  "region_offsets (create_gen_image sl img w) = region_offsets w"
  "height_maps (create_gen_image sl img w) = height_maps w"
  "control_maps (create_gen_image sl img w) = control_maps w"
  "layers (create_gen_image sl img w) = layers w"
  "material (create_gen_image sl img w) = material w"
  "shader (create_gen_image sl img w) = shader w"
  "region_size (create_gen_image sl img w) = region_size w"
  "lobj (create_gen_image sl img w) = lobj w"
  by (simp_all add: create_gen_image_def split_def Let_def)

lemma gen_fields_clear_gen [simp]:
  "generated_region_map (clear_gen sl w) =
     (if sl = Slot_Region_Map then fst (gen_clear (generated_region_map w) (rs w)) else generated_region_map w)"
  "generated_height_maps (clear_gen sl w) =
     (if sl = Slot_Height then fst (gen_clear (generated_height_maps w) (rs w)) else generated_height_maps w)"
  "generated_control_maps (clear_gen sl w) =
     (if sl = Slot_Control then fst (gen_clear (generated_control_maps w) (rs w)) else generated_control_maps w)"
  "generated_albedo_textures (clear_gen sl w) =
     (if sl = Slot_Albedo then fst (gen_clear (generated_albedo_textures w) (rs w)) else generated_albedo_textures w)"
  "generated_normal_textures (clear_gen sl w) =
     (if sl = Slot_Normal then fst (gen_clear (generated_normal_textures w) (rs w)) else generated_normal_textures w)"
  by (cases sl; simp add: clear_gen_def split_def Let_def)+

lemma gen_fields_create_gen_layers [simp]:
  "generated_region_map (create_gen_layers sl imgs w) =
     (if sl = Slot_Region_Map then fst (gen_create_layers imgs (generated_region_map w) (rs w)) else generated_region_map w)"
  "generated_height_maps (create_gen_layers sl imgs w) =
     (if sl = Slot_Height then fst (gen_create_layers imgs (generated_height_maps w) (rs w)) else generated_height_maps w)"
  "generated_control_maps (create_gen_layers sl imgs w) =
     (if sl = Slot_Control then fst (gen_create_layers imgs (generated_control_maps w) (rs w)) else generated_control_maps w)"
  "generated_albedo_textures (create_gen_layers sl imgs w) =
     (if sl = Slot_Albedo then fst (gen_create_layers imgs (generated_albedo_textures w) (rs w)) else generated_albedo_textures w)"
  "generated_normal_textures (create_gen_layers sl imgs w) =
     (if sl = Slot_Normal then fst (gen_create_layers imgs (generated_normal_textures w) (rs w)) else generated_normal_textures w)"
  by (cases sl; simp add: create_gen_layers_def split_def Let_def)+

lemma gen_fields_create_gen_image [simp]:
  "generated_region_map (create_gen_image sl img w) =
     (if sl = Slot_Region_Map then fst (gen_create_image img (generated_region_map w) (rs w)) else generated_region_map w)"
  "generated_height_maps (create_gen_image sl img w) =
     (if sl = Slot_Height then fst (gen_create_image img (generated_height_maps w) (rs w)) else generated_height_maps w)"
  "generated_control_maps (create_gen_image sl img w) =
     (if sl = Slot_Control then fst (gen_create_image img (generated_control_maps w) (rs w)) else generated_control_maps w)"
  "generated_albedo_textures (create_gen_image sl img w) =
     (if sl = Slot_Albedo then fst (gen_create_image img (generated_albedo_textures w) (rs w)) else generated_albedo_textures w)"
  "generated_normal_textures (create_gen_image sl img w) =
     (if sl = Slot_Normal then fst (gen_create_image img (generated_normal_textures w) (rs w)) else generated_normal_textures w)"
  by (cases sl; simp add: create_gen_image_def split_def Let_def)+

lemma set_param_simps [simp]:
  "get_gen sl (set_param n v w) = get_gen sl w"
  "generated_region_map (set_param n v w) = generated_region_map w"
  "generated_height_maps (set_param n v w) = generated_height_maps w"
  "generated_control_maps (set_param n v w) = generated_control_maps w"
  "generated_albedo_textures (set_param n v w) = generated_albedo_textures w"
  "generated_normal_textures (set_param n v w) = generated_normal_textures w"
  "region_offsets (set_param n v w) = region_offsets w"
  "height_maps (set_param n v w) = height_maps w"
  "control_maps (set_param n v w) = control_maps w"
  "layers (set_param n v w) = layers w"
  "material (set_param n v w) = material w"
  "shader (set_param n v w) = shader w"
  "region_size (set_param n v w) = region_size w"
  "lobj (set_param n v w) = lobj w"
  "rs_objects (rs (set_param n v w)) = rs_objects (rs w)"
  "rs_next (rs (set_param n v w)) = rs_next (rs w)"
  "rs_freed (rs (set_param n v w)) = rs_freed (rs w)"
  "rs_params (rs (set_param n v w)) = (rs_params (rs w))((material w, n) \<mapsto> v)"
  by (simp_all add: set_param_def material_set_param_def)

section \<open>Ownership of backend handles\<close>

text \<open>
  The storage owns the material, the shader and the five cache handles (spec, section 5).
  \<^term>\<open>res_inv\<close>: the backend's live resources are exactly the valid handles the
  storage holds, no two owners share one, every handle released was released once and is
  no longer live, and a dirty cache holds no handle.
\<close>

datatype owner = Own_Material | Own_Shader | Own_Gen gen_slot

fun holder :: "'a storage_scheme \<Rightarrow> owner \<Rightarrow> rid" where
  "holder w Own_Material = material w"
| "holder w Own_Shader = shader w"
| "holder w (Own_Gen sl) = g_rid (get_gen sl w)"

definition res_inv :: "world \<Rightarrow> bool" where
  "res_inv w \<longleftrightarrow>
     0 < rs_next (rs w) \<and>
     own_ok (holder w) (dom (rs_objects (rs w))) (rs_next (rs w)) \<and>
     freed_ok (rs_freed (rs w)) (dom (rs_objects (rs w))) (rs_next (rs w)) \<and>
     (\<forall>sl. g_dirty (get_gen sl w) \<longrightarrow> g_rid (get_gen sl w) = 0)"

lemma res_inv_cong:
  assumes "material w' = material w" "shader w' = shader w"
    and "\<And>sl. get_gen sl w' = get_gen sl w"
    and "rs_next (rs w') = rs_next (rs w)" and "rs_objects (rs w') = rs_objects (rs w)"
    and "rs_freed (rs w') = rs_freed (rs w)"
  shows "res_inv w' = res_inv w"
proof -
  have "holder w' = holder w"
  proof
    fix a show "holder w' a = holder w a" using assms by (cases a) simp_all
  qed
  with assms show ?thesis by (simp add: res_inv_def)
qed

lemma res_inv_set_param [simp]: "res_inv (set_param n v w) = res_inv w"
  by (rule res_inv_cong) (simp_all add: set_param_def material_set_param_def)

lemma holder_clear_gen: "holder (clear_gen sl w) = (holder w)(Own_Gen sl := 0)"
proof
  fix a show "holder (clear_gen sl w) a = ((holder w)(Own_Gen sl := 0)) a"
    by (cases a) auto
qed

lemma res_inv_clear_gen:
  assumes inv: "res_inv w"
  shows "res_inv (clear_gen sl w)"
proof -
  let ?D = "dom (rs_objects (rs w))" and ?n = "rs_next (rs w)" and ?r = "g_rid (get_gen sl w)"
  have own: "own_ok (holder w) ?D ?n" and fr: "freed_ok (rs_freed (rs w)) ?D ?n"
    using inv by (simp_all add: res_inv_def)
  have D': "dom (rs_objects (rs (clear_gen sl w))) = ?D - {?r}"
    using own_ok_zero_notin [OF own] by auto
  have own': "own_ok (holder (clear_gen sl w)) (?D - {?r}) ?n"
    using own_ok_release [OF own, of "Own_Gen sl"] by (simp add: holder_clear_gen)
  have fr': "freed_ok (rs_freed (rs (clear_gen sl w))) (?D - {?r}) ?n"
  proof (cases "rid_valid ?r")
    case True
    have "?r \<in> ?D" using own_ok_held_live [OF own, of "Own_Gen sl"] True by simp
    moreover have "\<forall>x\<in>?D. x < ?n" using own by (simp add: own_ok_def)
    ultimately show ?thesis using freed_ok_release [OF fr] True by simp
  next
    case False
    then show ?thesis using fr own_ok_zero_notin [OF own] by simp
  qed
  show ?thesis
    using inv own' fr' D' by (simp add: res_inv_def)
qed

lemma holder_create_gen:
  "holder (create_gen_layers sl imgs w) =
     (holder w)(Own_Gen sl := g_rid (fst (gen_create_layers imgs (get_gen sl w) (rs w))))"
  "holder (create_gen_image sl img w) =
     (holder w)(Own_Gen sl := g_rid (fst (gen_create_image img (get_gen sl w) (rs w))))"
  by (rule ext, case_tac x, auto)+

lemma res_inv_acquire:
  assumes inv: "res_inv w" and z: "holder w a = 0"
    and h: "holder w' = (holder w)(a := rs_next (rs w))"
    and objs: "rs_objects (rs w') = (rs_objects (rs w))(rs_next (rs w) \<mapsto> obj)"
    and nxt: "rs_next (rs w') = Suc (rs_next (rs w))"
    and fr: "rs_freed (rs w') = rs_freed (rs w)"
    and clean: "\<And>sl'. g_dirty (get_gen sl' w') \<longrightarrow> g_rid (get_gen sl' w') = 0"
  shows "res_inv w'"
proof -
  let ?D = "dom (rs_objects (rs w))" and ?n = "rs_next (rs w)"
  have own: "own_ok (holder w) ?D ?n" and f: "freed_ok (rs_freed (rs w)) ?D ?n"
    and pos: "0 < ?n"
    using inv by (simp_all add: res_inv_def)
  have "own_ok (holder w') (insert ?n ?D) (Suc ?n)"
    using own_ok_acquire [OF own z pos] h by simp
  moreover have "freed_ok (rs_freed (rs w')) (insert ?n ?D) (Suc ?n)"
    using freed_ok_acquire [OF f] fr by simp
  ultimately show ?thesis using objs nxt clean by (simp add: res_inv_def)
qed

lemma res_inv_create_gen_layers:
  assumes inv: "res_inv w" and dirty: "g_dirty (get_gen sl w)"
  shows "res_inv (create_gen_layers sl imgs w)"
proof (cases "layers_uniform imgs")
  case True
  have z: "holder w (Own_Gen sl) = 0" using inv dirty by (simp add: res_inv_def)
  show ?thesis
  proof (rule res_inv_acquire [OF inv z])
    show "holder (create_gen_layers sl imgs w) = (holder w)(Own_Gen sl := rs_next (rs w))"
      using True by (simp add: holder_create_gen gen_create_layers_uniform)
  qed (use True inv in \<open>auto simp: gen_create_layers_uniform rs_alloc_def res_inv_def\<close>)
next
  case False
  show ?thesis
  proof (cases "imgs = []")
    case True
    then have "create_gen_layers sl imgs w = clear_gen sl w"
      by (simp add: create_gen_layers_def clear_gen_def)
    with inv show ?thesis by (simp add: res_inv_clear_gen)
  next
    case ne: False
    have z: "g_rid (get_gen sl w) = 0" using inv dirty by (simp add: res_inv_def)
    have "holder (create_gen_layers sl imgs w) = holder w"
      using False ne z
      by (simp add: holder_create_gen gen_create_layers_def texture_2d_layered_create_def
               fun_upd_idem)
    moreover have "rs (create_gen_layers sl imgs w) = rs w"
      using False ne by (simp add: gen_create_layers_def texture_2d_layered_create_def)
    moreover have "\<forall>sl'. g_dirty (get_gen sl' (create_gen_layers sl imgs w)) \<longrightarrow>
                         g_rid (get_gen sl' (create_gen_layers sl imgs w)) = 0"
      using inv False ne by (simp add: res_inv_def gen_create_layers_def texture_2d_layered_create_def)
    ultimately show ?thesis using inv by (simp add: res_inv_def)
  qed
qed

lemma res_inv_create_gen_image:
  assumes inv: "res_inv w" and dirty: "g_dirty (get_gen sl w)"
  shows "res_inv (create_gen_image sl img w)"
proof (rule res_inv_acquire [OF inv])
  show "holder w (Own_Gen sl) = 0" using inv dirty by (simp add: res_inv_def)
next
  show "holder (create_gen_image sl img w) = (holder w)(Own_Gen sl := rs_next (rs w))"
    by (simp add: holder_create_gen gen_create_image_eq)
qed (use inv in \<open>auto simp: gen_create_image_eq rs_alloc_def res_inv_def\<close>)

lemma get_gen_handle_updates [simp]:
  "get_gen sl (w\<lparr>material := m\<rparr>) = get_gen sl w"
  "get_gen sl (w\<lparr>shader := sh\<rparr>) = get_gen sl w"
  "get_gen sl (w\<lparr>region_size := z\<rparr>) = get_gen sl w"
  by (cases sl; simp)+

lemma res_inv_rs_only:
  assumes "rs_next s = rs_next (rs w)" "rs_objects s = rs_objects (rs w)" "rs_freed s = rs_freed (rs w)"
  shows "res_inv (w\<lparr>rs := s\<rparr>) = res_inv w"
  by (rule res_inv_cong) (simp_all add: assms)

lemma res_inv_set_region_size:
  "res_inv w \<Longrightarrow> set_region_size p w = Inr w' \<Longrightarrow> res_inv w'"
proof -
  assume inv: "res_inv w" and ok: "set_region_size p w = Inr w'"
  have "res_inv (w\<lparr>region_size := p\<rparr>) = res_inv w" by (rule res_inv_cong) simp_all
  with inv ok show ?thesis by (auto simp: set_region_size_def split: if_splits)
qed

lemma res_inv_update_material:
  assumes inv: "res_inv w"
  shows "res_inv (update_material w)"
proof -
  define w1 where "w1 = (if rid_valid (material w) then w
                else (let (r, s) = material_create (rs w) in w\<lparr>material := r, rs := s\<rparr>))"
  have inv1: "res_inv w1"
  proof (cases "rid_valid (material w)")
    case True
    with inv show ?thesis by (simp add: w1_def)
  next
    case False
    show ?thesis
    proof (rule res_inv_acquire [OF inv, of Own_Material])
      show "holder w1 = (holder w)(Own_Material := rs_next (rs w))"
        using False by (intro ext, case_tac x)
          (simp_all add: w1_def material_create_def rs_alloc_def)
    qed (use False inv in \<open>auto simp: w1_def material_create_def rs_alloc_def res_inv_def\<close>)
  qed
  define w2 where "w2 = (if rid_valid (shader w1) then w1
                else (let (r, s) = shader_create (rs w1) in w1\<lparr>shader := r, rs := s\<rparr>))"
  have inv2: "res_inv w2"
  proof (cases "rid_valid (shader w1)")
    case True
    with inv1 show ?thesis by (simp add: w2_def)
  next
    case False
    show ?thesis
    proof (rule res_inv_acquire [OF inv1, of Own_Shader])
      show "holder w2 = (holder w1)(Own_Shader := rs_next (rs w1))"
        using False by (intro ext, case_tac x)
          (simp_all add: w2_def shader_create_def rs_alloc_def)
    qed (use False inv1 in \<open>auto simp: w2_def shader_create_def rs_alloc_def res_inv_def\<close>)
  qed
  define w3 where "w3 = w2\<lparr>rs := shader_set_code (shader w2) (Terrain_Shader (noise_texture w2 \<noteq> None)) (rs w2)\<rparr>"
  define w4 where "w4 = w3\<lparr>rs := material_set_shader (material w3)
                          (case shader_override w3 of None \<Rightarrow> shader w3 | Some r \<Rightarrow> r) (rs w3)\<rparr>"
  have inv4: "res_inv w4"
    using inv2 by (simp add: w4_def w3_def res_inv_rs_only shader_set_code_def material_set_shader_def)
  have eq: "update_material w = (case set_region_size (region_size w4) w4 of Inl _ \<Rightarrow> w4 | Inr w5 \<Rightarrow> w5)"
    by (simp only: update_material_def Let_def w1_def w2_def w3_def w4_def)
  show ?thesis
    using inv4 res_inv_set_region_size [OF inv4] by (simp add: eq split: sum.splits)
qed

lemma res_inv_scalar_setters:
  "res_inv w \<Longrightarrow> res_inv (set_max_height h w)"
  "res_inv w \<Longrightarrow> res_inv (set_shader_override sh w)"
  "res_inv w \<Longrightarrow> res_inv (set_noise_texture t w)"
  "res_inv w \<Longrightarrow> res_inv (set_noise_scale v w)"
  "res_inv w \<Longrightarrow> res_inv (set_noise_height v w)"
  "res_inv w \<Longrightarrow> res_inv (set_noise_fade v w)"
proof -
  have mh: "res_inv (w\<lparr>max_height := h\<rparr>) = res_inv w" for w :: world and h
    by (rule res_inv_cong) (simp_all, case_tac sl, simp_all)
  have so: "res_inv (w\<lparr>shader_override := sh\<rparr>) = res_inv w" for w :: world and sh
    by (rule res_inv_cong) (simp_all, case_tac sl, simp_all)
  have nt: "res_inv (w\<lparr>noise_texture := t\<rparr>) = res_inv w" for w :: world and t
    by (rule res_inv_cong) (simp_all, case_tac sl, simp_all)
  have ns1: "res_inv (w\<lparr>noise_scale := v\<rparr>) = res_inv w" for w :: world and v
    by (rule res_inv_cong) (simp_all, case_tac sl, simp_all)
  have ns2: "res_inv (w\<lparr>noise_height := v\<rparr>) = res_inv w" for w :: world and v
    by (rule res_inv_cong) (simp_all, case_tac sl, simp_all)
  have ns3: "res_inv (w\<lparr>noise_fade := v\<rparr>) = res_inv w" for w :: world and v
    by (rule res_inv_cong) (simp_all, case_tac sl, simp_all)
  note ns = ns1 ns2 ns3
  show "res_inv w \<Longrightarrow> res_inv (set_max_height h w)"
    by (simp add: set_max_height_def mh)
  show "res_inv w \<Longrightarrow> res_inv (set_shader_override sh w)"
    by (simp add: set_shader_override_def so)
  show "res_inv w \<Longrightarrow> res_inv (set_noise_texture t w)"
    by (simp add: set_noise_texture_def nt res_inv_update_material)
  show "res_inv w \<Longrightarrow> res_inv (set_noise_scale v w)"
    by (simp add: set_noise_scale_def ns)
  show "res_inv w \<Longrightarrow> res_inv (set_noise_height v w)"
    by (simp add: set_noise_height_def ns)
  show "res_inv w \<Longrightarrow> res_inv (set_noise_fade v w)"
    by (simp add: set_noise_fade_def ns)
qed

section \<open>The constructor\<close>

lemma update_material_shape:
  "\<exists>m sh s. update_material w = w\<lparr>material := m, shader := sh, rs := s\<rparr>"
proof -
  define w1 where "w1 = (if rid_valid (material w) then w
                else (let (r, s) = material_create (rs w) in w\<lparr>material := r, rs := s\<rparr>))"
  have 1: "\<exists>m s. w1 = w\<lparr>material := m, rs := s\<rparr>"
  proof (cases "rid_valid (material w)")
    case True
    then have "w1 = w\<lparr>material := material w, rs := rs w\<rparr>" by (simp add: w1_def)
    then show ?thesis by blast
  next
    case False
    then have "w1 = w\<lparr>material := fst (material_create (rs w)), rs := snd (material_create (rs w))\<rparr>"
      by (simp add: w1_def split_def Let_def)
    then show ?thesis by blast
  qed
  define w2 where "w2 = (if rid_valid (shader w1) then w1
                else (let (r, s) = shader_create (rs w1) in w1\<lparr>shader := r, rs := s\<rparr>))"
  have 2: "\<exists>m sh s. w2 = w\<lparr>material := m, shader := sh, rs := s\<rparr>"
  proof (cases "rid_valid (shader w1)")
    case True
    from 1 obtain m s where w1: "w1 = w\<lparr>material := m, rs := s\<rparr>" by blast
    with True have "w2 = w\<lparr>material := m, shader := shader w, rs := s\<rparr>" by (simp add: w2_def)
    then show ?thesis by blast
  next
    case False
    from 1 obtain m s where w1: "w1 = w\<lparr>material := m, rs := s\<rparr>" by blast
    with False have "w2 = w\<lparr>material := m, shader := fst (shader_create s), rs := snd (shader_create s)\<rparr>"
      by (simp add: w2_def split_def Let_def)
    then show ?thesis by blast
  qed
  define w3 where "w3 = w2\<lparr>rs := shader_set_code (shader w2) (Terrain_Shader (noise_texture w2 \<noteq> None)) (rs w2)\<rparr>"
  define w4 where "w4 = w3\<lparr>rs := material_set_shader (material w3)
                          (case shader_override w3 of None \<Rightarrow> shader w3 | Some r \<Rightarrow> r) (rs w3)\<rparr>"
  have 4: "\<exists>m sh s. w4 = w\<lparr>material := m, shader := sh, rs := s\<rparr>"
    using 2 by (auto simp: w4_def w3_def) (intro exI, rule refl)
  have eq: "update_material w = (case set_region_size (region_size w4) w4 of Inl _ \<Rightarrow> w4 | Inr w5 \<Rightarrow> w5)"
    by (simp only: update_material_def Let_def w1_def w2_def w3_def w4_def)
  have "\<exists>m sh s. (case set_region_size (region_size w4) w4 of Inl _ \<Rightarrow> w4 | Inr w5 \<Rightarrow> w5) =
                 w\<lparr>material := m, shader := sh, rs := s\<rparr>"
    using 4 by (auto simp: set_region_size_def set_param_def) (intro exI, rule refl)+
  with eq show ?thesis by simp
qed
lemma update_material_frame [simp]:
  "region_offsets (update_material w) = region_offsets w"
  "height_maps (update_material w) = height_maps w"
  "control_maps (update_material w) = control_maps w"
  "layers (update_material w) = layers w"
  "region_size (update_material w) = region_size w"
  "lobj (update_material w) = lobj w"
  "generated_region_map (update_material w) = generated_region_map w"
  "generated_height_maps (update_material w) = generated_height_maps w"
  "generated_control_maps (update_material w) = generated_control_maps w"
  "generated_albedo_textures (update_material w) = generated_albedo_textures w"
  "generated_normal_textures (update_material w) = generated_normal_textures w"
  using update_material_shape [of w] by auto

lemma storage_new_fields [simp]:
  "region_offsets (storage_new s lo) = []"
  "height_maps (storage_new s lo) = []"
  "control_maps (storage_new s lo) = []"
  "layers (storage_new s lo) = []"
  "region_size (storage_new s lo) = 1024"
  "lobj (storage_new s lo) = lo"
  "generated_region_map (storage_new s lo) = gen_init"
  "generated_height_maps (storage_new s lo) = gen_init"
  "generated_control_maps (storage_new s lo) = gen_init"
  "generated_albedo_textures (storage_new s lo) = gen_init"
  "generated_normal_textures (storage_new s lo) = gen_init"
  by (simp_all add: storage_new_def storage_defaults_def)
lemma storage_new_eq:
  "storage_new server_init lo =
     set_param ''region_pixel_size'' (P_Real (1 / 1024))
       (set_param ''region_size'' (P_Int 1024)
         (\<lparr>region_size = 1024, max_height = 512, material = 1, shader = 2,
            shader_override = None, noise_texture = None, noise_scale = 1,
            noise_height = 1 / 2, noise_fade = 5, layers = [], region_offsets = [],
            height_maps = [], control_maps = [], generated_region_map = gen_init,
            generated_height_maps = gen_init, generated_control_maps = gen_init,
            generated_albedo_textures = gen_init, generated_normal_textures = gen_init,
            initialized = True,
            rs = \<lparr>rs_next = 3, rs_objects = [1 \<mapsto> RS_Material, 2 \<mapsto> RS_Shader],
                  rs_params = Map.empty, rs_code = [2 \<mapsto> Terrain_Shader False],
                  rs_material_shader = [1 \<mapsto> 2], rs_freed = []\<rparr>,
            lobj = lo\<rparr>))"
  by (simp add: storage_new_def storage_defaults_def update_material_def Let_def
        material_create_def shader_create_def rs_alloc_def server_init_def shader_set_code_def
        material_set_shader_def set_region_size_def set_param_def material_set_param_def
        numeral_2_eq_2)

lemma res_inv_storage_new: "res_inv (storage_new server_init lo)"
proof -
  have own: "own_ok (holder (storage_new server_init lo)) {1, 2} 3"
  proof -
    have h: "holder (storage_new server_init lo) a = (case a of Own_Material \<Rightarrow> 1 | Own_Shader \<Rightarrow> 2 | Own_Gen _ \<Rightarrow> 0)" for a
    proof (cases a)
      case (Own_Gen sl)
      then show ?thesis by (cases sl) (simp_all add: storage_new_eq gen_init_def)
    qed (simp_all add: storage_new_eq)
    show ?thesis
      unfolding own_ok_def h
      by (auto split: owner.splits intro: image_eqI [where x = Own_Material]
                                          image_eqI [where x = Own_Shader])
  qed
  have D: "dom (rs_objects (rs (storage_new server_init lo))) = {1, 2}"
    and N: "rs_next (rs (storage_new server_init lo)) = 3"
    and F: "rs_freed (rs (storage_new server_init lo)) = []"
    by (auto simp: storage_new_eq)
  have C: "\<forall>sl. g_dirty (get_gen sl (storage_new server_init lo)) \<longrightarrow>
                 g_rid (get_gen sl (storage_new server_init lo)) = 0"
  proof
    fix sl show "g_dirty (get_gen sl (storage_new server_init lo)) \<longrightarrow>
                 g_rid (get_gen sl (storage_new server_init lo)) = 0"
      by (cases sl) (simp_all add: gen_init_def)
  qed
  show ?thesis
    unfolding res_inv_def D N F using own C by (simp add: freed_ok_def)
qed
section \<open>Backend growth\<close>

text \<open>
  \<^term>\<open>rs_grows s s'\<close>: from \<open>s\<close> to \<open>s'\<close> nothing was released and every live
  resource is still there with the same content.
\<close>

definition rs_grows :: "server \<Rightarrow> server \<Rightarrow> bool" where
  "rs_grows s s' \<longleftrightarrow>
     rs_freed s' = rs_freed s \<and> rs_next s \<le> rs_next s' \<and>
     (\<forall>r obj. rs_objects s r = Some obj \<longrightarrow> rs_objects s' r = Some obj)"

lemma rs_grows_refl [simp]: "rs_grows s s"
  by (simp add: rs_grows_def)

lemma rs_grows_trans: "rs_grows s1 s2 \<Longrightarrow> rs_grows s2 s3 \<Longrightarrow> rs_grows s1 s3"
  by (auto simp: rs_grows_def)

lemma rs_grows_set_param [simp]: "rs_grows (rs w) (rs (set_param n v w))"
  by (simp add: rs_grows_def)

lemma rs_grows_alloc:
  assumes "res_inv w"
  shows "rs_grows (rs w) (snd (rs_alloc obj (rs w)))"
proof -
  have "rs_next (rs w) \<notin> dom (rs_objects (rs w))"
    using assms own_ok_fresh by (auto simp: res_inv_def)
  then show ?thesis by (auto simp: rs_grows_def rs_alloc_def)
qed

lemma rs_grows_create_gen_layers:
  assumes inv: "res_inv w" and dirty: "g_dirty (get_gen sl w)"
  shows "rs_grows (rs w) (rs (create_gen_layers sl imgs w))"
proof -
  have z: "g_rid (get_gen sl w) = 0" using inv dirty by (simp add: res_inv_def)
  show ?thesis
    using z rs_grows_alloc [OF inv]
    by (auto simp: gen_create_layers_def texture_2d_layered_create_def gen_clear_def Let_def
             split_def)
qed

lemma rs_grows_create_gen_image:
  "res_inv w \<Longrightarrow> rs_grows (rs w) (rs (create_gen_image sl img w))"
  using rs_grows_alloc by (simp add: gen_create_image_eq)

text \<open>
  The allocator hands out fresh handles as long as every live handle is below the
  counter; \<open>_update_material\<close> only allocates and sets code, shader and parameters, so
  it keeps every live resource.
\<close>

lemma rs_grows_alloc_fresh:
  assumes "\<forall>r\<in>dom (rs_objects s). r < rs_next s"
  shows "rs_grows s (snd (rs_alloc obj s))"
    and "\<forall>r\<in>dom (rs_objects (snd (rs_alloc obj s))). r < rs_next (snd (rs_alloc obj s))"
  using assms by (auto simp: rs_grows_def rs_alloc_def less_Suc_eq)

lemma res_inv_below_next: "res_inv w \<Longrightarrow> \<forall>r\<in>dom (rs_objects (rs w)). r < rs_next (rs w)"
  by (simp add: res_inv_def own_ok_def)

lemma rs_grows_update_material:
  assumes inv: "res_inv w"
  shows "rs_grows (rs w) (rs (update_material w))"
proof -
  have b0: "\<forall>r\<in>dom (rs_objects (rs w)). r < rs_next (rs w)"
    by (rule res_inv_below_next [OF inv])
  define w1 where "w1 = (if rid_valid (material w) then w
                else (let (r, s) = material_create (rs w) in w\<lparr>material := r, rs := s\<rparr>))"
  have g1: "rs_grows (rs w) (rs w1)" and b1: "\<forall>r\<in>dom (rs_objects (rs w1)). r < rs_next (rs w1)"
    using rs_grows_alloc_fresh [OF b0, of RS_Material] b0
    by (simp_all add: w1_def split_def material_create_def)
  define w2 where "w2 = (if rid_valid (shader w1) then w1
                else (let (r, s) = shader_create (rs w1) in w1\<lparr>shader := r, rs := s\<rparr>))"
  have g2: "rs_grows (rs w1) (rs w2)"
    using rs_grows_alloc_fresh [OF b1, of RS_Shader]
    by (simp add: w2_def split_def shader_create_def)
  define w3 where "w3 = w2\<lparr>rs := shader_set_code (shader w2) (Terrain_Shader (noise_texture w2 \<noteq> None)) (rs w2)\<rparr>"
  define w4 where "w4 = w3\<lparr>rs := material_set_shader (material w3)
                          (case shader_override w3 of None \<Rightarrow> shader w3 | Some r \<Rightarrow> r) (rs w3)\<rparr>"
  have g4: "rs_grows (rs w2) (rs w4)"
    by (simp add: w4_def w3_def rs_grows_def shader_set_code_def material_set_shader_def)
  have eq: "update_material w = (case set_region_size (region_size w4) w4 of Inl _ \<Rightarrow> w4 | Inr w5 \<Rightarrow> w5)"
    by (simp only: update_material_def Let_def w1_def w2_def w3_def w4_def)
  have g5: "rs_grows (rs w4) (rs (update_material w))"
    by (auto simp: eq set_region_size_def set_param_def material_set_param_def rs_grows_def
             split: sum.splits)
  show ?thesis
    using g1 g2 g4 g5 by (blast intro: rs_grows_trans)
qed

section \<open>Material parameters\<close>

text \<open>
  \<^term>\<open>params_kept N s s'\<close>: from \<open>s\<close> to \<open>s'\<close> only material parameters named in
  \<open>N\<close> were set.
\<close>

definition params_kept :: "string set \<Rightarrow> server \<Rightarrow> server \<Rightarrow> bool" where
  "params_kept N s s' \<longleftrightarrow> (\<forall>m n. n \<notin> N \<longrightarrow> rs_params s' (m, n) = rs_params s (m, n))"

lemma params_kept_same: "rs_params s' = rs_params s \<Longrightarrow> params_kept N s s'"
  by (simp add: params_kept_def)

lemma params_kept_trans:
  "params_kept N s1 s2 \<Longrightarrow> params_kept M s2 s3 \<Longrightarrow> N \<union> M \<subseteq> K \<Longrightarrow> params_kept K s1 s3"
  unfolding params_kept_def by (metis Un_subset_iff subsetD)

lemma params_kept_set_param:
  "n \<in> N \<Longrightarrow> params_kept N (rs w) (rs (set_param n v w))"
  by (auto simp: params_kept_def set_param_def material_set_param_def)

lemma params_kept_update_material:
  "params_kept {''region_size'', ''region_pixel_size''} (rs w) (rs (update_material w))"
proof -
  define w1 where "w1 = (if rid_valid (material w) then w
                else (let (r, s) = material_create (rs w) in w\<lparr>material := r, rs := s\<rparr>))"
  define w2 where "w2 = (if rid_valid (shader w1) then w1
                else (let (r, s) = shader_create (rs w1) in w1\<lparr>shader := r, rs := s\<rparr>))"
  define w3 where "w3 = w2\<lparr>rs := shader_set_code (shader w2) (Terrain_Shader (noise_texture w2 \<noteq> None)) (rs w2)\<rparr>"
  define w4 where "w4 = w3\<lparr>rs := material_set_shader (material w3)
                          (case shader_override w3 of None \<Rightarrow> shader w3 | Some r \<Rightarrow> r) (rs w3)\<rparr>"
  have p4: "rs_params (rs w4) = rs_params (rs w)"
    by (simp add: w4_def w3_def w2_def w1_def split_def material_create_def shader_create_def
                  rs_alloc_def shader_set_code_def material_set_shader_def)
  have eq: "update_material w = (case set_region_size (region_size w4) w4 of Inl _ \<Rightarrow> w4 | Inr w5 \<Rightarrow> w5)"
    by (simp only: update_material_def Let_def w1_def w2_def w3_def w4_def)
  show ?thesis
    using p4 by (auto simp: eq params_kept_def set_region_size_def set_param_def material_set_param_def)
qed

end
