(* ===== verification/Regions.thy ===== *)
theory Regions
  imports Storage
begin

text \<open>
  The region index and the region store (\<open>terrain_storage.cpp\<close> lines 81--217) and the
  update pass that rebuilds their caches, with the region-map encoder
  (\<open>_update_regions\<close>, lines 349--377). Handlers that can fail return
  \<open>error + world\<close>; \<open>Inl\<close> is the error Godot reports or the abort it performs.
\<close>

section \<open>The region index\<close>

text \<open>
  \<open>_get_offset_from\<close> (lines 81--83): the world position's \<open>x\<close> and \<open>z\<close>, divided by
  the region size, shifted by one half and floored. Floats are read as reals.
\<close>

definition get_offset_from :: "'a storage_scheme \<Rightarrow> vec3 \<Rightarrow> vec2i" where
  "get_offset_from w p =
     (\<lfloor>fst p / real_of_int (region_size w) + 1 / 2\<rfloor>,
      \<lfloor>snd (snd p) / real_of_int (region_size w) + 1 / 2\<rfloor>)"

text \<open>The search loop of \<open>get_region_index\<close> (lines 140--146), from index \<open>i\<close> on.\<close>

fun index_from :: "vec2i list \<Rightarrow> vec2i \<Rightarrow> nat \<Rightarrow> int" where
  "index_from [] k i = -1"
| "index_from (x # xs) k i = (if x = k then int i else index_from xs k (Suc i))"

definition get_region_index :: "'a storage_scheme \<Rightarrow> vec3 \<Rightarrow> int" where
  "get_region_index w p = index_from (region_offsets w) (get_offset_from w p) 0"

definition has_region :: "'a storage_scheme \<Rightarrow> vec3 \<Rightarrow> bool" where
  "has_region w p \<longleftrightarrow> get_region_index w p \<noteq> -1"

definition get_region_count :: "'a storage_scheme \<Rightarrow> int" where
  "get_region_count w = int (length (region_offsets w))"

section \<open>The region-map encoder\<close>

text \<open>
  The loop of lines 364--369: region \<open>i\<close> writes red \<open>(i + 1) / 255\<close> and green
  \<open>1\<close> at its offset shifted by half the map size.
\<close>

definition region_cell :: "vec2i \<Rightarrow> vec2i" where
  "region_cell ofs = (fst ofs + region_map_size div 2, snd ofs + region_map_size div 2)"

fun encode_regions :: "vec2i list \<Rightarrow> nat \<Rightarrow> image \<Rightarrow> image" where
  "encode_regions [] i img = img"
| "encode_regions (ofs # rest) i img =
     encode_regions rest (Suc i)
       (image_set_pixelv (region_cell ofs) (Color (real (i + 1) / 255) 1 0 1) img)"

text \<open>The image built for the region map (lines 361--369).\<close>

definition region_map_image :: "vec2i list \<Rightarrow> image" where
  "region_map_image offs =
     encode_regions offs 0
       (image_fill (Color 0 0 0 1)
          (image_create (nat region_map_size) (nat region_map_size) FORMAT_RG8))"

text \<open>
  The shader's read of the map (line 439 of the generated text):
  \<open>floor(texelFetch(region_map, ivec2(floor(uv)) + region_map_size / 2, 0).r * 255.0)\<close>,
  where \<open>floor(uv)\<close> is the offset of the vertex's region (\<open>UV2\<close>, line 473). An
  RG8 texel reads back its stored byte over 255, so the value is the stored byte. Outside
  the map the fetch is undefined, here \<open>None\<close>.
\<close>

definition region_map_lookup :: "image \<Rightarrow> vec2i \<Rightarrow> nat option" where
  "region_map_lookup img ofs =
     (if in_image (region_cell ofs) img
      then Some (unat (rg8_byte (c_r (img_pixels img (region_cell ofs))))) else None)"

definition in_region_map :: "vec2i \<Rightarrow> bool" where
  "in_region_map ofs \<longleftrightarrow>
     0 \<le> fst (region_cell ofs) \<and> fst (region_cell ofs) < region_map_size \<and>
     0 \<le> snd (region_cell ofs) \<and> snd (region_cell ofs) < region_map_size"

section \<open>The update pass\<close>

text \<open>
  \<open>_update_regions\<close> (lines 349--377): rebuild each dirty map cache, then push the three
  handles and the map size to the material.
\<close>

definition push_region_params :: "world \<Rightarrow> world" where
  "push_region_params w =
     set_param ''region_map_size'' (P_Int region_map_size)
       (set_param ''region_map'' (P_Rid (g_rid (generated_region_map w)))
         (set_param ''control_maps'' (P_Rid (g_rid (generated_control_maps w)))
           (set_param ''height_maps'' (P_Rid (g_rid (generated_height_maps w))) w)))"

definition update_regions :: "world \<Rightarrow> world" where
  "update_regions w =
     (let w1 = (if g_dirty (generated_height_maps w)
                then create_gen_layers Slot_Height (height_maps w) w else w);
          w2 = (if g_dirty (generated_control_maps w1)
                then create_gen_layers Slot_Control (control_maps w1) w1 else w1);
          w3 = (if g_dirty (generated_region_map w2)
                then create_gen_image Slot_Region_Map (region_map_image (region_offsets w2)) w2
                else w2)
      in push_region_params w3)"

section \<open>Region handlers\<close>

text \<open>The three caches a structural change invalidates, in the source's order.\<close>

definition invalidate_region_caches :: "world \<Rightarrow> world" where
  "invalidate_region_caches w =
     clear_gen Slot_Region_Map (clear_gen Slot_Control (clear_gen Slot_Height w))"

text \<open>
  \<open>add_region\<close> (lines 85--107): refuse an occupied offset; append a height map and a
  control map of the current region size, filled with \<open>Color(0, 0, 0, 1)\<close>, and the
  offset; invalidate and rebuild.
\<close>

definition add_region :: "vec3 \<Rightarrow> world \<Rightarrow> error + world" where
  "add_region p w =
     (if has_region w p then Inl Duplicate_Region
      else
        (let hmap = image_fill (Color 0 0 0 1)
                      (image_create (nat (region_size w)) (nat (region_size w)) FORMAT_RH);
             cmap = image_fill (Color 0 0 0 1)
                      (image_create (nat (region_size w)) (nat (region_size w)) FORMAT_RGBA8);
             ofs = get_offset_from w p;
             w1 = w\<lparr>height_maps := height_maps w @ [hmap],
                    control_maps := control_maps w @ [cmap],
                    region_offsets := region_offsets w @ [ofs]\<rparr>
         in Inr (update_regions (invalidate_region_caches w1))))"

text \<open>
  \<open>remove_region\<close> (lines 109--130): keep the last region; refuse an unoccupied offset;
  remove the entry at its index from the three lists; invalidate and rebuild.
\<close>

definition remove_region :: "vec3 \<Rightarrow> world \<Rightarrow> error + world" where
  "remove_region p w =
     (if get_region_count w = 1 then Inr w
      else
        (let index = get_region_index w p
         in if index = -1 then Inl Missing_Region
            else
              (let w1 = w\<lparr>region_offsets := array_remove_at index (region_offsets w),
                          height_maps := array_remove_at index (height_maps w),
                          control_maps := array_remove_at index (control_maps w)\<rparr>
               in Inr (update_regions (invalidate_region_caches w1)))))"

text \<open>\<open>get_map\<close> (lines 158--176): unchecked indexing; colour and max give null.\<close>

definition get_map :: "int \<Rightarrow> map_type \<Rightarrow> 'a storage_scheme \<Rightarrow> error + image option" where
  "get_map i t w =
     (case t of
        TYPE_HEIGHT \<Rightarrow> map_sum id Some (array_get (height_maps w) i)
      | TYPE_CONTROL \<Rightarrow> map_sum id Some (array_get (control_maps w) i)
      | TYPE_COLOR \<Rightarrow> Inr None
      | TYPE_MAX \<Rightarrow> Inr None)"

text \<open>\<open>force_update_maps\<close> (lines 178--195).\<close>

definition force_update_maps :: "map_type \<Rightarrow> world \<Rightarrow> world" where
  "force_update_maps t w =
     update_regions
       (case t of
          TYPE_HEIGHT \<Rightarrow> clear_gen Slot_Height w
        | TYPE_CONTROL \<Rightarrow> clear_gen Slot_Control w
        | TYPE_COLOR \<Rightarrow> w
        | TYPE_MAX \<Rightarrow> clear_gen Slot_Control (clear_gen Slot_Height w))"

text \<open>The bulk setters (lines 150--156, 197--213).\<close>

definition set_height_maps :: "image list \<Rightarrow> world \<Rightarrow> world" where
  "set_height_maps maps w = force_update_maps TYPE_HEIGHT (w\<lparr>height_maps := maps\<rparr>)"

definition set_control_maps :: "image list \<Rightarrow> world \<Rightarrow> world" where
  "set_control_maps maps w = force_update_maps TYPE_CONTROL (w\<lparr>control_maps := maps\<rparr>)"

definition set_region_offsets :: "vec2i list \<Rightarrow> world \<Rightarrow> world" where
  "set_region_offsets offs w = w\<lparr>region_offsets := offs\<rparr>"

section \<open>Well-formedness of the region store\<close>

text \<open>
  The region index and the store are in lockstep (spec, section 4.2): one height map and
  one control map per offset, and the offsets pairwise distinct (section 3).
\<close>

definition regions_wf :: "'a storage_scheme \<Rightarrow> bool" where
  "regions_wf w \<longleftrightarrow>
     distinct (region_offsets w) \<and>
     length (height_maps w) = length (region_offsets w) \<and>
     length (control_maps w) = length (region_offsets w)"

section \<open>Frame lemmas\<close>

text \<open>
  The update pass and the invalidation touch only the caches and the backend: the
  region store, the layers and the material handles are left as they are.
\<close>

lemma push_region_params_frame [simp]:
  "region_offsets (push_region_params w) = region_offsets w"
  "height_maps (push_region_params w) = height_maps w"
  "control_maps (push_region_params w) = control_maps w"
  "layers (push_region_params w) = layers w"
  "region_size (push_region_params w) = region_size w"
  "material (push_region_params w) = material w"
  "shader (push_region_params w) = shader w"
  "lobj (push_region_params w) = lobj w"
  "generated_region_map (push_region_params w) = generated_region_map w"
  "generated_height_maps (push_region_params w) = generated_height_maps w"
  "generated_control_maps (push_region_params w) = generated_control_maps w"
  "generated_albedo_textures (push_region_params w) = generated_albedo_textures w"
  "generated_normal_textures (push_region_params w) = generated_normal_textures w"
  by (simp_all add: push_region_params_def)

lemma update_regions_frame [simp]:
  "region_offsets (update_regions w) = region_offsets w"
  "height_maps (update_regions w) = height_maps w"
  "control_maps (update_regions w) = control_maps w"
  "layers (update_regions w) = layers w"
  "region_size (update_regions w) = region_size w"
  "material (update_regions w) = material w"
  "shader (update_regions w) = shader w"
  "lobj (update_regions w) = lobj w"
  "generated_albedo_textures (update_regions w) = generated_albedo_textures w"
  "generated_normal_textures (update_regions w) = generated_normal_textures w"
  by (simp_all add: update_regions_def Let_def)

lemma invalidate_region_caches_frame [simp]:
  "region_offsets (invalidate_region_caches w) = region_offsets w"
  "height_maps (invalidate_region_caches w) = height_maps w"
  "control_maps (invalidate_region_caches w) = control_maps w"
  "layers (invalidate_region_caches w) = layers w"
  "region_size (invalidate_region_caches w) = region_size w"
  "material (invalidate_region_caches w) = material w"
  "shader (invalidate_region_caches w) = shader w"
  "lobj (invalidate_region_caches w) = lobj w"
  "generated_albedo_textures (invalidate_region_caches w) = generated_albedo_textures w"
  "generated_normal_textures (invalidate_region_caches w) = generated_normal_textures w"
  by (simp_all add: invalidate_region_caches_def)

lemma force_update_maps_frame [simp]:
  "region_offsets (force_update_maps t w) = region_offsets w"
  "height_maps (force_update_maps t w) = height_maps w"
  "control_maps (force_update_maps t w) = control_maps w"
  "layers (force_update_maps t w) = layers w"
  "region_size (force_update_maps t w) = region_size w"
  "material (force_update_maps t w) = material w"
  "shader (force_update_maps t w) = shader w"
  "lobj (force_update_maps t w) = lobj w"
  by (cases t; simp add: force_update_maps_def)+

section \<open>The region index: lookup\<close>

text \<open>The search loop agrees with the first matching position of the list.\<close>

lemma index_from_eq:
  "index_from xs k i = (if k \<in> set xs then int (i + first_index xs k) else -1)"
  by (induction xs k i rule: index_from.induct) auto

lemma get_region_index_eq:
  "get_region_index w p =
     (if get_offset_from w p \<in> set (region_offsets w)
      then int (first_index (region_offsets w) (get_offset_from w p)) else -1)"
  by (simp add: get_region_index_def index_from_eq)

lemma has_region_iff:
  "has_region w p \<longleftrightarrow> get_offset_from w p \<in> set (region_offsets w)"
  by (simp add: has_region_def get_region_index_eq)

lemmas region_index_simps = get_region_index_eq has_region_iff get_region_count_def

text \<open>The index and the count depend on the offsets and the region size only.\<close>

lemma get_region_index_cong:
  "region_offsets w' = region_offsets w \<Longrightarrow> region_size w' = region_size w \<Longrightarrow>
   get_region_index w' p = get_region_index w p"
  by (simp add: get_region_index_def get_offset_from_def)

section \<open>Outcomes of the region handlers\<close>

lemma add_region_Inl_iff: "(\<exists>e. add_region p w = Inl e) \<longleftrightarrow> has_region w p"
  by (simp add: add_region_def Let_def)

lemma add_region_duplicate: "has_region w p \<Longrightarrow> add_region p w = Inl Duplicate_Region"
  by (simp add: add_region_def)

lemma add_region_Inr:
  assumes "add_region p w = Inr w'"
  shows "region_offsets w' = region_offsets w @ [get_offset_from w p]"
    and "length (height_maps w') = Suc (length (height_maps w))"
    and "length (control_maps w') = Suc (length (control_maps w))"
    and "region_size w' = region_size w"
    and "\<not> has_region w p"
  using assms by (auto simp: add_region_def Let_def split: if_splits)

lemma remove_region_Inr:
  assumes "remove_region p w = Inr w'" and "get_region_count w \<noteq> 1"
  shows "get_offset_from w p \<in> set (region_offsets w)"
    and "region_offsets w' =
           drop_nth (first_index (region_offsets w) (get_offset_from w p)) (region_offsets w)"
    and "region_size w' = region_size w"
  using assms
  by (auto simp: remove_region_def Let_def get_region_index_eq array_remove_at_def
           split: if_splits)

section \<open>Ownership of handles across the region handlers\<close>

lemma res_inv_data_updates [simp]:
  "res_inv (w\<lparr>region_offsets := a\<rparr>) = res_inv w"
  "res_inv (w\<lparr>height_maps := b\<rparr>) = res_inv w"
  "res_inv (w\<lparr>control_maps := c\<rparr>) = res_inv w"
  by (rule res_inv_cong; simp add: get_gen_data_updates)+

lemma res_inv_update_regions:
  assumes "res_inv w"
  shows "res_inv (update_regions w)"
proof -
  define w1 where "w1 = (if g_dirty (generated_height_maps w)
                         then create_gen_layers Slot_Height (height_maps w) w else w)"
  define w2 where "w2 = (if g_dirty (generated_control_maps w1)
                         then create_gen_layers Slot_Control (control_maps w1) w1 else w1)"
  define w3 where "w3 = (if g_dirty (generated_region_map w2)
                         then create_gen_image Slot_Region_Map (region_map_image (region_offsets w2)) w2
                         else w2)"
  have "res_inv w1"
    using assms res_inv_create_gen_layers [of w Slot_Height] by (simp add: w1_def)
  then have "res_inv w2"
    using res_inv_create_gen_layers [of w1 Slot_Control] by (simp add: w2_def)
  then have "res_inv w3"
    using res_inv_create_gen_image [of w2 Slot_Region_Map] by (simp add: w3_def)
  moreover have "update_regions w = push_region_params w3"
    by (simp only: update_regions_def Let_def w1_def w2_def w3_def)
  ultimately show ?thesis by (simp add: push_region_params_def)
qed

lemma res_inv_invalidate_region_caches:
  "res_inv w \<Longrightarrow> res_inv (invalidate_region_caches w)"
  by (simp add: invalidate_region_caches_def res_inv_clear_gen)

lemma res_inv_add_region:
  "res_inv w \<Longrightarrow> add_region p w = Inr w' \<Longrightarrow> res_inv w'"
  by (auto simp: add_region_def Let_def res_inv_update_regions
           res_inv_invalidate_region_caches split: if_splits)

lemma res_inv_remove_region:
  "res_inv w \<Longrightarrow> remove_region p w = Inr w' \<Longrightarrow> res_inv w'"
  by (auto simp: remove_region_def Let_def res_inv_update_regions
           res_inv_invalidate_region_caches split: if_splits)

lemma res_inv_force_update_maps:
  "res_inv w \<Longrightarrow> res_inv (force_update_maps t w)"
  by (cases t) (simp_all add: force_update_maps_def res_inv_update_regions res_inv_clear_gen)

lemma res_inv_set_maps:
  "res_inv w \<Longrightarrow> res_inv (set_height_maps m w)"
  "res_inv w \<Longrightarrow> res_inv (set_control_maps m w)"
  "res_inv w \<Longrightarrow> res_inv (set_region_offsets offs w)"
  by (simp_all add: set_height_maps_def set_control_maps_def set_region_offsets_def
           res_inv_force_update_maps)

section \<open>Region index and store: properties\<close>

lemma get_offset_from_cong:
  "region_size w' = region_size w \<Longrightarrow> get_offset_from w' p = get_offset_from w p"
  by (simp add: get_offset_from_def)

lemma add_region_fresh:
  assumes "\<not> has_region w p"
  shows "\<exists>w'. add_region p w = Inr w'"
  using assms by (simp add: add_region_def)

text \<open>
  C1. After a successful \<open>add_region(p)\<close>, \<open>has_region(p)\<close> holds and the new region's
  index is the last one, \<open>get_region_count() - 1\<close> (spec, section 8).
\<close>

theorem add_region_index:
  assumes "add_region p w = Inr w'"
  shows "has_region w' p \<and> get_region_index w' p = get_region_count w' - 1"
proof -
  note r = add_region_Inr [OF assms]
  have ofs: "get_offset_from w' p = get_offset_from w p"
    by (rule get_offset_from_cong) (rule r(4))
  have notin: "get_offset_from w p \<notin> set (region_offsets w)"
    using r(5) by (simp add: has_region_iff)
  have "first_index (region_offsets w') (get_offset_from w' p) = length (region_offsets w)"
    using notin by (simp add: r(1) ofs first_index_append)
  then show ?thesis
    by (simp add: has_region_iff get_region_index_eq get_region_count_def r(1) ofs)
qed

theorem add_region_index_witness:
  "\<exists>w'. add_region (0, 0, 0) fresh_storage = Inr w' \<and>
        has_region w' (0, 0, 0) \<and> get_region_index w' (0, 0, 0) = get_region_count w' - 1"
proof -
  have "\<not> has_region fresh_storage (0, 0, 0)" by (simp add: has_region_iff)
  then obtain w' where w': "add_region (0, 0, 0) fresh_storage = Inr w'"
    using add_region_fresh by blast
  show ?thesis using w' add_region_index [OF w'] by blast
qed

lemma regions_wf_fresh: "regions_wf (storage_new s lo)"
  by (simp add: regions_wf_def)

lemma remove_region_drop:
  assumes "remove_region p w = Inr w'" and "get_region_count w \<noteq> 1"
  defines "i \<equiv> first_index (region_offsets w) (get_offset_from w p)"
  shows "i < length (region_offsets w)"
    and "region_offsets w' = drop_nth i (region_offsets w)"
    and "height_maps w' = array_remove_at (int i) (height_maps w)"
    and "control_maps w' = array_remove_at (int i) (control_maps w)"
  using assms
  by (auto simp: remove_region_def Let_def get_region_index_eq array_remove_at_def
           split: if_splits)

lemma regions_wf_add_region:
  assumes "regions_wf w" and "add_region p w = Inr w'"
  shows "regions_wf w'"
proof -
  note r = add_region_Inr [OF assms(2)]
  have "get_offset_from w p \<notin> set (region_offsets w)"
    using r(5) by (simp add: has_region_iff)
  with assms(1) r show ?thesis by (simp add: regions_wf_def)
qed

text \<open>
  C2. \<open>add_region\<close> keeps the offsets pairwise distinct and the three lists in
  lockstep: it appends the new offset to the offsets and one map to each map list.
\<close>

theorem add_region_preserves_wf:
  assumes "regions_wf w" and "add_region p w = Inr w'"
  shows "regions_wf w' \<and>
         (\<exists>h c. region_offsets w' = region_offsets w @ [get_offset_from w p] \<and>
                height_maps w' = height_maps w @ [h] \<and> control_maps w' = control_maps w @ [c])"
proof
  show "regions_wf w'" by (rule regions_wf_add_region [OF assms])
  show "\<exists>h c. region_offsets w' = region_offsets w @ [get_offset_from w p] \<and>
          height_maps w' = height_maps w @ [h] \<and> control_maps w' = control_maps w @ [c]"
    using assms(2) by (auto simp: add_region_def Let_def split: if_splits)
qed

theorem add_region_preserves_wf_witness:
  "regions_wf fresh_storage \<and> (\<exists>w'. add_region (0, 0, 0) fresh_storage = Inr w' \<and> regions_wf w')"
proof -
  have "\<not> has_region fresh_storage (0, 0, 0)" by (simp add: has_region_iff)
  then obtain w' where w': "add_region (0, 0, 0) fresh_storage = Inr w'"
    using add_region_fresh by blast
  have wf: "regions_wf fresh_storage" by (rule regions_wf_fresh)
  show ?thesis using wf w' add_region_preserves_wf [OF wf w'] by blast
qed

lemma regions_wf_remove_region:
  assumes "regions_wf w" and "remove_region p w = Inr w'"
  shows "regions_wf w'"
proof (cases "get_region_count w = 1")
  case True
  with assms show ?thesis by (simp add: remove_region_def)
next
  case False
  note d = remove_region_drop [OF assms(2) False]
  let ?i = "first_index (region_offsets w) (get_offset_from w p)"
  have len: "length (height_maps w) = length (region_offsets w)"
    "length (control_maps w) = length (region_offsets w)"
    using assms(1) by (simp_all add: regions_wf_def)
  have "height_maps w' = drop_nth ?i (height_maps w)" "control_maps w' = drop_nth ?i (control_maps w)"
    using d(1,3,4) len by simp_all
  with d(1,2) len assms(1) show ?thesis by (simp add: regions_wf_def)
qed

text \<open>
  C3. \<open>remove_region\<close> keeps the offsets pairwise distinct and the three lists in
  lockstep, and it does so by removing the same position from each of the three lists
  (no position at all when it returns without change).
\<close>

theorem remove_region_preserves_wf:
  assumes "regions_wf w" and "remove_region p w = Inr w'"
  shows "regions_wf w' \<and>
         (\<exists>i. region_offsets w' = drop_nth i (region_offsets w) \<and>
              height_maps w' = drop_nth i (height_maps w) \<and>
              control_maps w' = drop_nth i (control_maps w))"
proof (cases "get_region_count w = 1")
  case True
  then have "w' = w" using assms(2) by (simp add: remove_region_def)
  moreover have "length (height_maps w) = length (region_offsets w)"
    "length (control_maps w) = length (region_offsets w)"
    using assms(1) by (simp_all add: regions_wf_def)
  ultimately show ?thesis
    using assms(1) by (intro conjI exI [of _ "length (region_offsets w)"]) (simp_all add: drop_nth_def)
next
  case False
  note d = remove_region_drop [OF assms(2) False]
  let ?i = "first_index (region_offsets w) (get_offset_from w p)"
  have len: "length (height_maps w) = length (region_offsets w)"
    "length (control_maps w) = length (region_offsets w)"
    using assms(1) by (simp_all add: regions_wf_def)
  have h: "height_maps w' = drop_nth ?i (height_maps w)" "control_maps w' = drop_nth ?i (control_maps w)"
    using d(1,3,4) len by simp_all
  with d(2) regions_wf_remove_region [OF assms] show ?thesis by blast
qed

theorem remove_region_preserves_wf_witness:
  "\<exists>w1 w2 w3. add_region (0, 0, 0) fresh_storage = Inr w1 \<and>
      add_region (1024, 0, 0) w1 = Inr w2 \<and> regions_wf w2 \<and>
      remove_region (0, 0, 0) w2 = Inr w3 \<and> regions_wf w3"
proof -
  have "\<not> has_region fresh_storage (0, 0, 0)" by (simp add: has_region_iff)
  then obtain w1 where w1: "add_region (0, 0, 0) fresh_storage = Inr w1"
    using add_region_fresh by blast
  note r1 = add_region_Inr [OF w1]
  have "\<not> has_region w1 (1024, 0, 0)"
    by (simp add: has_region_iff r1 get_offset_from_def)
  then obtain w2 where w2: "add_region (1024, 0, 0) w1 = Inr w2"
    using add_region_fresh by blast
  have wf2: "regions_wf w2"
    by (rule regions_wf_add_region [OF regions_wf_add_region [OF regions_wf_fresh w1] w2])
  obtain w3 where w3: "remove_region (0, 0, 0) w2 = Inr w3"
  proof -
    have "region_offsets w2 = [(0, 0), (1, 0)]"
      by (simp add: r1 add_region_Inr [OF w2] get_offset_from_def)
    moreover have "region_size w2 = 1024" by (simp add: r1 add_region_Inr [OF w2])
    ultimately have "remove_region (0, 0, 0) w2 \<noteq> Inl Missing_Region"
      by (simp add: remove_region_def get_region_count_def get_region_index_eq
               get_offset_from_def)
    then show ?thesis using that
      by (auto simp: remove_region_def Let_def split: if_splits)
  qed
  show ?thesis using w1 w2 wf2 w3 remove_region_preserves_wf [OF wf2 w3] by blast
qed

text \<open>
  C4. Removal compacts the lists: with \<open>i\<close> the removed region's index, every region
  before \<open>i\<close> keeps its index and every region after it moves down by one, so the
  region formerly last is now at \<open>n - 2\<close> (an array shift, not a swap with the last).
\<close>

theorem remove_region_shifts:
  assumes "regions_wf w" and "remove_region p w = Inr w'" and "get_region_count w \<noteq> 1"
  defines "i \<equiv> nat (get_region_index w p)" and "n \<equiv> length (region_offsets w)"
  shows "length (region_offsets w') = n - 1 \<and>
         (\<forall>j < n - 1. region_offsets w' ! j =
                       (if j < i then region_offsets w ! j else region_offsets w ! Suc j)) \<and>
         (\<forall>j < n - 1. height_maps w' ! j =
                       (if j < i then height_maps w ! j else height_maps w ! Suc j)) \<and>
         (\<forall>j < n - 1. control_maps w' ! j =
                       (if j < i then control_maps w ! j else control_maps w ! Suc j))"
proof -
  note d = remove_region_drop [OF assms(2,3)]
  let ?k = "first_index (region_offsets w) (get_offset_from w p)"
  have ik: "i = ?k"
    using remove_region_Inr(1) [OF assms(2,3)] by (simp add: i_def get_region_index_eq)
  have len: "length (height_maps w) = n" "length (control_maps w) = n"
    using assms(1) by (simp_all add: regions_wf_def n_def)
  have k: "?k < n" using d(1) by (simp add: n_def)
  have h: "height_maps w' = drop_nth ?k (height_maps w)"
    and c: "control_maps w' = drop_nth ?k (control_maps w)"
    using d(3,4) len k by simp_all
  show ?thesis
    using k len by (simp add: ik d(2) h c nth_drop_nth n_def)
qed

theorem remove_region_shifts_witness:
  "\<exists>w1 w2 w3 w4. add_region (0, 0, 0) fresh_storage = Inr w1 \<and>
     add_region (1024, 0, 0) w1 = Inr w2 \<and> add_region (2048, 0, 0) w2 = Inr w3 \<and>
     remove_region (0, 0, 0) w3 = Inr w4 \<and>
     regions_wf w3 \<and> get_region_count w3 \<noteq> 1 \<and>
     region_offsets w4 ! 0 = region_offsets w3 ! 1 \<and>
     region_offsets w4 ! 1 = region_offsets w3 ! 2"
proof -
  have "\<not> has_region fresh_storage (0, 0, 0)" by (simp add: has_region_iff)
  then obtain w1 where w1: "add_region (0, 0, 0) fresh_storage = Inr w1"
    using add_region_fresh by blast
  note r1 = add_region_Inr [OF w1]
  have "\<not> has_region w1 (1024, 0, 0)"
    by (simp add: has_region_iff r1 get_offset_from_def)
  then obtain w2 where w2: "add_region (1024, 0, 0) w1 = Inr w2"
    using add_region_fresh by blast
  note r2 = add_region_Inr [OF w2]
  have "\<not> has_region w2 (2048, 0, 0)"
    by (simp add: has_region_iff r1 r2 get_offset_from_def)
  then obtain w3 where w3: "add_region (2048, 0, 0) w2 = Inr w3"
    using add_region_fresh by blast
  note r3 = add_region_Inr [OF w3]
  have wf3: "regions_wf w3"
    by (rule regions_wf_add_region [OF regions_wf_add_region [OF
          regions_wf_add_region [OF regions_wf_fresh w1] w2] w3])
  have offs3: "region_offsets w3 = [(0, 0), (1, 0), (2, 0)]"
    by (simp add: r1 r2 r3 get_offset_from_def)
  have cnt: "get_region_count w3 \<noteq> 1" by (simp add: get_region_count_def offs3)
  have idx: "get_region_index w3 (0, 0, 0) = 0"
    by (simp add: get_region_index_eq offs3 get_offset_from_def r1 r2 r3)
  then have "remove_region (0, 0, 0) w3 \<noteq> Inl Missing_Region"
    by (simp add: remove_region_def cnt)
  then obtain w4 where w4: "remove_region (0, 0, 0) w3 = Inr w4"
    by (auto simp: remove_region_def Let_def split: if_splits)
  note sh = remove_region_shifts [OF wf3 w4 cnt]
  have "region_offsets w4 ! 0 = region_offsets w3 ! 1"
    and "region_offsets w4 ! 1 = region_offsets w3 ! 2"
    using sh idx by (simp_all add: offs3)
  with w1 w2 w3 w4 wf3 cnt show ?thesis by blast
qed

text \<open>
  C5. Removal never takes the region count below one: with one region left the call is
  a no-op that changes nothing (spec's floor), otherwise exactly one region goes.
\<close>

theorem remove_region_keeps_one:
  assumes "1 \<le> get_region_count w" and "remove_region p w = Inr w'"
  shows "1 \<le> get_region_count w' \<and> (get_region_count w = 1 \<longrightarrow> w' = w)"
proof (cases "get_region_count w = 1")
  case True
  with assms(2) have "w' = w" by (simp add: remove_region_def)
  with True show ?thesis by simp
next
  case False
  note d = remove_region_drop [OF assms(2) False]
  have "2 \<le> length (region_offsets w)"
    using assms(1) False by (simp add: get_region_count_def)
  with d(1,2) False show ?thesis by (simp add: get_region_count_def)
qed

theorem remove_region_keeps_one_witness:
  "\<exists>w1 w2. add_region (0, 0, 0) fresh_storage = Inr w1 \<and> 1 \<le> get_region_count w1 \<and>
      remove_region (0, 0, 0) w1 = Inr w2 \<and>
      1 \<le> get_region_count w2 \<and> (get_region_count w1 = 1 \<longrightarrow> w2 = w1)"
proof -
  have "\<not> has_region fresh_storage (0, 0, 0)" by (simp add: has_region_iff)
  then obtain w1 where w1: "add_region (0, 0, 0) fresh_storage = Inr w1"
    using add_region_fresh by blast
  have c: "get_region_count w1 = 1"
    by (simp add: get_region_count_def add_region_Inr(1) [OF w1])
  then have rm: "remove_region (0, 0, 0) w1 = Inr w1" by (simp add: remove_region_def)
  have "1 \<le> get_region_count w1" using c by simp
  with w1 rm remove_region_keeps_one [OF this rm] show ?thesis by blast
qed

text \<open>
  C6. Removing at a position with no region, when the floor does not apply, fails with
  the reported error "Map does not exist." and changes nothing.
\<close>

theorem remove_region_missing:
  assumes "get_region_count w \<noteq> 1" and "\<not> has_region w p"
  shows "remove_region p w = Inl Missing_Region"
  using assms by (simp add: remove_region_def has_region_def)

theorem remove_region_missing_witness:
  "get_region_count fresh_storage \<noteq> 1 \<and> \<not> has_region fresh_storage (0, 0, 0) \<and>
   remove_region (0, 0, 0) fresh_storage = Inl Missing_Region"
proof -
  have a: "get_region_count fresh_storage \<noteq> 1" by (simp add: get_region_count_def)
  have b: "\<not> has_region fresh_storage (0, 0, 0)" by (simp add: has_region_iff)
  show ?thesis using a b remove_region_missing [OF a b] by blast
qed

text \<open>
  C7. The scenario of spec section 8: with region size 1024, adding at \<open>(0, 0, 0)\<close>
  and at \<open>(1024, 0, 1024)\<close> gives two regions with the second at index 1; removing
  the first leaves one region, now at index 0.
\<close>

theorem spec_scenario:
  "\<exists>w1 w2 w3. add_region (0, 0, 0) fresh_storage = Inr w1 \<and>
     add_region (1024, 0, 1024) w1 = Inr w2 \<and>
     get_region_count w2 = 2 \<and> get_region_index w2 (1024, 0, 1024) = 1 \<and>
     remove_region (0, 0, 0) w2 = Inr w3 \<and>
     get_region_count w3 = 1 \<and> get_region_index w3 (1024, 0, 1024) = 0"
proof -
  have "\<not> has_region fresh_storage (0, 0, 0)" by (simp add: has_region_iff)
  then obtain w1 where w1: "add_region (0, 0, 0) fresh_storage = Inr w1"
    using add_region_fresh by blast
  note r1 = add_region_Inr [OF w1]
  have "\<not> has_region w1 (1024, 0, 1024)"
    by (simp add: has_region_iff r1 get_offset_from_def)
  then obtain w2 where w2: "add_region (1024, 0, 1024) w1 = Inr w2"
    using add_region_fresh by blast
  note r2 = add_region_Inr [OF w2]
  have offs2: "region_offsets w2 = [(0, 0), (1, 1)]" and sz2: "region_size w2 = 1024"
    by (simp_all add: r1 r2 get_offset_from_def)
  have c2: "get_region_count w2 = 2" by (simp add: get_region_count_def offs2)
  have i2: "get_region_index w2 (1024, 0, 1024) = 1"
    by (simp add: get_region_index_eq offs2 sz2 get_offset_from_def)
  have "get_region_index w2 (0, 0, 0) = 0"
    by (simp add: get_region_index_eq offs2 sz2 get_offset_from_def)
  then obtain w3 where w3: "remove_region (0, 0, 0) w2 = Inr w3"
    by (simp add: remove_region_def c2)
  note d = remove_region_drop [OF w3] remove_region_Inr(3) [OF w3]
  have offs3: "region_offsets w3 = [(1, 1)]" and sz3: "region_size w3 = 1024"
    using d c2 by (simp_all add: offs2 sz2 get_offset_from_def drop_nth_def)
  have "get_region_count w3 = 1" by (simp add: get_region_count_def offs3)
  moreover have "get_region_index w3 (1024, 0, 1024) = 0"
    by (simp add: get_region_index_eq offs3 sz3 get_offset_from_def)
  ultimately show ?thesis using w1 w2 w3 c2 i2 by blast
qed

section \<open>The region-map encoder: properties\<close>

lemma region_cell_inj: "region_cell a = region_cell b \<longleftrightarrow> a = b"
  by (cases a, cases b) (simp add: region_cell_def)

lemma encode_regions_dims [simp]:
  "img_width (encode_regions offs k img) = img_width img"
  "img_height (encode_regions offs k img) = img_height img"
  "img_format (encode_regions offs k img) = img_format img"
  by (induction offs arbitrary: k img) simp_all

text \<open>
  The loop writes, at the cell of each offset inside the image, the colour of the
  offset's position in the list; every other pixel keeps its value.
\<close>

lemma encode_regions_pixels:
  assumes "distinct offs"
  shows "img_pixels (encode_regions offs k img) q =
           (if \<exists>a\<in>set offs. q = region_cell a \<and> in_image q img
            then Color (real (k + first_index (map region_cell offs) q + 1) / 255) 1 0 1
            else img_pixels img q)"
  using assms
proof (induction offs arbitrary: k img)
  case Nil
  then show ?case by simp
next
  case (Cons a rest)
  let ?img' = "image_set_pixelv (region_cell a) (Color (real (k + 1) / 255) 1 0 1) img"
  have ih: "img_pixels (encode_regions rest (Suc k) ?img') q =
           (if \<exists>b\<in>set rest. q = region_cell b \<and> in_image q ?img'
            then Color (real (Suc k + first_index (map region_cell rest) q + 1) / 255) 1 0 1
            else img_pixels ?img' q)"
    using Cons by simp
  have in_eq: "in_image q ?img' = in_image q img" by (simp add: in_image_def)
  have notin: "region_cell a \<notin> region_cell ` set rest"
    using Cons.prems by (auto simp: region_cell_inj)
  show ?case
  proof (cases "q = region_cell a")
    case True
    with notin ih in_eq show ?thesis by (auto simp: pixel_set_pixelv)
  next
    case False
    with ih in_eq show ?thesis by (auto simp: pixel_set_pixelv)
  qed
qed

lemma region_map_image_dims [simp]:
  "img_width (region_map_image offs) = 16" "img_height (region_map_image offs) = 16"
  by (simp_all add: region_map_image_def region_map_size_def)

lemma in_image_region_map [simp]:
  "in_image (region_cell a) (region_map_image offs) \<longleftrightarrow> in_region_map a"
  by (simp add: in_image_def in_region_map_def region_map_size_def)

lemma first_index_map_region_cell:
  "first_index (map region_cell offs) (region_cell a) = first_index offs a"
  by (induction offs) (auto simp: region_cell_inj)

lemma region_map_image_pixel:
  assumes "distinct offs" and "in_region_map a"
  shows "img_pixels (region_map_image offs) (region_cell a) =
           (if a \<in> set offs then Color (real (first_index offs a + 1) / 255) 1 0 1
            else Color 0 0 0 1)"
proof -
  have "in_image (region_cell a) (image_fill (Color 0 0 0 1)
          (image_create (nat region_map_size) (nat region_map_size) FORMAT_RG8))"
    using assms(2) by (simp add: in_image_def in_region_map_def region_map_size_def)
  then show ?thesis
    using assms(1)
    by (auto simp: region_map_image_def encode_regions_pixels region_cell_inj
                   first_index_map_region_cell image_fill_def)
qed

text \<open>
  C8. The region map is a correct lookup table while it can be one: for pairwise
  distinct offsets that all lie inside the 16 by 16 map and at most 255 regions, the
  shader's read at the cell of the region with index \<open>i\<close> gives \<open>i + 1\<close>, and at any
  other cell of the map gives 0 (spec, sections 3 and 4.4).
\<close>

theorem region_map_decodes_index:
  assumes "distinct offs" and "\<forall>a\<in>set offs. in_region_map a" and "length offs \<le> 255"
  shows "(\<forall>i < length offs. region_map_lookup (region_map_image offs) (offs ! i) = Some (i + 1)) \<and>
         (\<forall>a. in_region_map a \<and> a \<notin> set offs \<longrightarrow>
              region_map_lookup (region_map_image offs) a = Some 0)"
proof (intro conjI allI impI)
  fix i assume i: "i < length offs"
  then have m: "offs ! i \<in> set offs" and r: "in_region_map (offs ! i)"
    using assms(2) by auto
  have fi: "first_index offs (offs ! i) = i"
    using assms(1) i by (rule first_index_nth_distinct)
  have "i + 1 \<le> 255" using i assms(3) by simp
  then have "rg8_byte (real (i + 1) / 255) = of_nat (i + 1)"
    by (rule rg8_byte_exact)
  moreover have "unat (of_nat (i + 1) :: 8 word) = i + 1"
    using \<open>i + 1 \<le> 255\<close> by (intro of_nat_inverse) simp_all
  ultimately show "region_map_lookup (region_map_image offs) (offs ! i) = Some (i + 1)"
    using m r fi by (simp add: region_map_lookup_def region_map_image_pixel [OF assms(1) r]
                          Color_def)
next
  fix a assume "in_region_map a \<and> a \<notin> set offs"
  then show "region_map_lookup (region_map_image offs) a = Some 0"
    by (simp add: region_map_lookup_def region_map_image_pixel [OF assms(1)] Color_def
                  rg8_byte_def)
qed

theorem region_map_decodes_index_witness:
  "distinct [(0::int, 0::int)] \<and> in_region_map (0, 0) \<and> length [(0::int, 0::int)] \<le> 255 \<and>
   region_map_lookup (region_map_image [(0, 0)]) (0, 0) = Some 1 \<and>
   region_map_lookup (region_map_image [(0, 0)]) (1, 0) = Some 0"
proof -
  have d: "distinct [(0::int, 0::int)]" by simp
  have r: "\<forall>a\<in>set [(0::int, 0::int)]. in_region_map a"
    by (simp add: in_region_map_def region_cell_def region_map_size_def)
  have l: "length [(0::int, 0::int)] \<le> 255" by simp
  note c = region_map_decodes_index [OF d r l]
  have "region_map_lookup (region_map_image [(0, 0)]) ([(0::int, 0::int)] ! 0) = Some (0 + 1)"
    using c by blast
  moreover have "region_map_lookup (region_map_image [(0, 0)]) (1, 0) = Some 0"
    using c by (simp add: in_region_map_def region_cell_def region_map_size_def)
  moreover have "in_region_map (0, 0)" using r by simp
  ultimately show ?thesis using d l by simp
qed

text \<open>
  C9. The red channel holds at most 255: the regions of index 254 and above all read
  back 255, so two distinct regions collide in the map once there are more than 255 of
  them (spec, section 4.4: the capacity of 255 regions is neither enforced nor reported).
\<close>

theorem region_map_index_saturates:
  assumes "distinct offs" and "\<forall>a\<in>set offs. in_region_map a"
    and "254 \<le> i" and "i < length offs"
  shows "region_map_lookup (region_map_image offs) (offs ! i) = Some 255"
proof -
  have m: "offs ! i \<in> set offs" and r: "in_region_map (offs ! i)"
    using assms(2,4) by auto
  have fi: "first_index offs (offs ! i) = i"
    using assms(1,4) by (rule first_index_nth_distinct)
  have "rg8_byte (real (i + 1) / 255) = 255"
    using assms(3) by (intro rg8_byte_saturates) simp
  then show ?thesis
    using m r fi by (simp add: region_map_lookup_def region_map_image_pixel [OF assms(1) r]
                          Color_def)
qed

theorem region_map_index_saturates_witness:
  "distinct (List.product [-8..7] [-8..7]) \<and>
   list_all in_region_map (List.product [-8..7] [-8..7]) \<and>
   length (List.product [-8..7::int] [-8..7::int]) = 256 \<and>
   region_map_lookup (region_map_image (List.product [-8..7] [-8..7]))
     (List.product [-8..7] [-8..7] ! 254) = Some 255 \<and>
   region_map_lookup (region_map_image (List.product [-8..7] [-8..7]))
     (List.product [-8..7] [-8..7] ! 255) = Some 255 \<and>
   List.product [-8..7::int] [-8..7::int] ! 254 \<noteq> List.product [-8..7] [-8..7] ! 255"
proof -
  let ?offs = "List.product [-8..7::int] [-8..7::int]"
  have d: "distinct ?offs" by (intro distinct_product distinct_upto)
  have r: "\<forall>a\<in>set ?offs. in_region_map a"
    by (simp only: set_product set_upto)
       (auto simp: in_region_map_def region_cell_def region_map_size_def)
  have l: "length ?offs = 256" by (simp only: length_product length_upto) simp
  have l4: "254 < length ?offs" and l5: "255 < length ?offs" using l by linarith+
  have a: "region_map_lookup (region_map_image ?offs) (?offs ! 254) = Some 255"
    by (rule region_map_index_saturates [OF d r _ l4]) (rule order_refl)
  have b: "region_map_lookup (region_map_image ?offs) (?offs ! 255) = Some 255"
    by (rule region_map_index_saturates [OF d r _ l5]) linarith
  have "?offs ! 254 \<noteq> ?offs ! 255"
    by (subst nth_eq_iff_index_eq [OF d l4 l5]) linarith
  moreover have "list_all in_region_map ?offs" using r by (simp only: list_all_iff)
  ultimately show ?thesis using d l a b by blast
qed

section \<open>The update pass: properties\<close>

lemma update_regions_gens:
  "generated_height_maps (update_regions w) =
     (if g_dirty (generated_height_maps w)
      then fst (gen_create_layers (height_maps w) (generated_height_maps w) (rs w))
      else generated_height_maps w)"
  "\<not> g_dirty (generated_control_maps w) \<Longrightarrow>
     generated_control_maps (update_regions w) = generated_control_maps w"
  "\<not> g_dirty (generated_region_map w) \<Longrightarrow>
     generated_region_map (update_regions w) = generated_region_map w"
  by (simp_all add: update_regions_def Let_def)

lemma update_regions_control_dirty:
  "g_dirty (generated_control_maps (update_regions w)) \<Longrightarrow>
     control_maps w = [] \<and> gen_cleared (generated_control_maps (update_regions w))"
  by (auto simp: update_regions_def Let_def gen_create_layers_dirty
           split: if_splits)

lemma update_regions_height_dirty:
  "g_dirty (generated_height_maps (update_regions w)) \<Longrightarrow>
     height_maps w = [] \<and> gen_cleared (generated_height_maps (update_regions w))"
  by (auto simp: update_regions_gens(1) gen_create_layers_dirty split: if_splits)

lemma update_regions_region_map_clean:
  "\<not> g_dirty (generated_region_map (update_regions w))"
  by (simp add: update_regions_def Let_def gen_create_image_eq)

lemma create_gen_layers_cleared:
  "gen_cleared (get_gen sl w) \<Longrightarrow> create_gen_layers sl [] w = w"
  by (simp add: create_gen_layers_def gen_clear_cleared)

text \<open>
  C11. Forcing an update of the height maps touches the height cache only: a clean
  control cache, a clean region map and the two texture-array caches come out as they
  went in (spec, section 8: cache isolation); the height cache is rebuilt, and stays
  dirty only when there is no height map to build from.
\<close>

theorem force_update_height_isolated:
  assumes "\<not> g_dirty (generated_control_maps w)" and "\<not> g_dirty (generated_region_map w)"
  defines "w' \<equiv> force_update_maps TYPE_HEIGHT w"
  shows "generated_control_maps w' = generated_control_maps w \<and>
         generated_region_map w' = generated_region_map w \<and>
         generated_albedo_textures w' = generated_albedo_textures w \<and>
         generated_normal_textures w' = generated_normal_textures w \<and>
         (g_dirty (generated_height_maps w') \<longleftrightarrow> height_maps w = [])"
proof -
  let ?c = "clear_gen Slot_Height w"
  have c: "\<not> g_dirty (generated_control_maps ?c)" "\<not> g_dirty (generated_region_map ?c)"
    using assms by simp_all
  have "g_dirty (generated_height_maps ?c)" by simp
  then have h: "generated_height_maps (update_regions ?c) =
      fst (gen_create_layers (height_maps w) (generated_height_maps ?c) (rs ?c))"
    by (simp add: update_regions_gens(1))
  show ?thesis
    using update_regions_gens(2) [OF c(1)] update_regions_gens(3) [OF c(2)] h
    by (simp add: w'_def force_update_maps_def gen_create_layers_dirty)
qed

theorem force_update_height_isolated_witness:
  "\<not> g_dirty (generated_control_maps fresh_storage) \<and>
   \<not> g_dirty (generated_region_map fresh_storage) \<and>
   generated_control_maps (force_update_maps TYPE_HEIGHT fresh_storage) =
     generated_control_maps fresh_storage \<and>
   g_dirty (generated_height_maps (force_update_maps TYPE_HEIGHT fresh_storage))"
proof -
  have a: "\<not> g_dirty (generated_control_maps fresh_storage)"
    and b: "\<not> g_dirty (generated_region_map fresh_storage)"
    by (simp_all add: gen_init_def)
  show ?thesis using force_update_height_isolated [OF a b] a b by simp
qed

text \<open>The parameter push at the end of the update pass.\<close>

lemma update_regions_split:
  "update_regions w =
     (let w1 = (if g_dirty (generated_height_maps w)
                then create_gen_layers Slot_Height (height_maps w) w else w);
          w2 = (if g_dirty (generated_control_maps w1)
                then create_gen_layers Slot_Control (control_maps w1) w1 else w1);
          w3 = (if g_dirty (generated_region_map w2)
                then create_gen_image Slot_Region_Map (region_map_image (region_offsets w2)) w2
                else w2)
      in push_region_params w3)"
  by (simp only: update_regions_def)

lemma push_region_params_twice:
  "push_region_params (push_region_params w) = push_region_params w"
  by (simp add: push_region_params_def set_param_def material_set_param_def fun_upd_twist)

text \<open>
  C12. The update pass is idempotent: a second pass with no mutation in between changes
  nothing, neither the caches nor the backend (spec, section 8).
\<close>

theorem update_regions_idempotent: "update_regions (update_regions w) = update_regions w"
proof -
  let ?w1 = "update_regions w"
  have h: "(if g_dirty (generated_height_maps ?w1)
            then create_gen_layers Slot_Height (height_maps ?w1) ?w1 else ?w1) = ?w1"
    using update_regions_height_dirty [of w] create_gen_layers_cleared [of Slot_Height ?w1]
    by auto
  have c: "(if g_dirty (generated_control_maps ?w1)
            then create_gen_layers Slot_Control (control_maps ?w1) ?w1 else ?w1) = ?w1"
    using update_regions_control_dirty [of w] create_gen_layers_cleared [of Slot_Control ?w1]
    by auto
  have r: "\<not> g_dirty (generated_region_map ?w1)" by (rule update_regions_region_map_clean)
  have "update_regions ?w1 = push_region_params ?w1"
    using h c r by (simp add: update_regions_split [of ?w1] Let_def)
  also have "\<dots> = ?w1"
    by (simp add: update_regions_split [of w] Let_def push_region_params_twice)
  finally show ?thesis .
qed

lemma rs_grows_push_region_params [simp]: "rs_grows (rs w) (rs (push_region_params w))"
  by (simp add: rs_grows_def push_region_params_def)

lemma res_inv_push_region_params [simp]: "res_inv (push_region_params w) = res_inv w"
  by (simp add: push_region_params_def)

text \<open>
  C13. Round trip of the height maps: after \<open>set_height_maps(L)\<close>, \<open>get_height_maps()\<close>
  returns \<open>L\<close>, the height cache is clean and its handle is a layered texture built from
  exactly \<open>L\<close>, and the previous handle was released exactly once (none if there was
  none) (spec, section 8).
\<close>

theorem set_height_maps_roundtrip:
  assumes inv: "res_inv w" and u: "layers_uniform maps"
  defines "w' \<equiv> set_height_maps maps w" and "r \<equiv> g_rid (generated_height_maps w)"
  shows "height_maps w' = maps \<and> \<not> g_dirty (generated_height_maps w') \<and>
         rs_objects (rs w') (g_rid (generated_height_maps w')) = Some (RS_TextureLayered maps) \<and>
         rs_freed (rs w') = rs_freed (rs w) @ (if rid_valid r then [r] else [])"
proof -
  let ?c = "clear_gen Slot_Height (w\<lparr>height_maps := maps\<rparr>)"
  have invc: "res_inv ?c" using inv by (simp add: res_inv_clear_gen)
  have dc: "g_dirty (generated_height_maps ?c)" by simp
  define w1 where "w1 = create_gen_layers Slot_Height maps ?c"
  define w2 where "w2 = (if g_dirty (generated_control_maps w1)
                         then create_gen_layers Slot_Control (control_maps w1) w1 else w1)"
  define w3 where "w3 = (if g_dirty (generated_region_map w2)
                         then create_gen_image Slot_Region_Map (region_map_image (region_offsets w2)) w2
                         else w2)"
  have eq: "w' = push_region_params w3"
    unfolding w'_def set_height_maps_def force_update_maps_def map_type.case
      update_regions_split Let_def w1_def w2_def w3_def
    using dc by simp
  let ?n = "rs_next (rs w)"
  have h1: "generated_height_maps w1 =
              (generated_height_maps ?c)\<lparr>g_rid := ?n, g_dirty := False\<rparr>"
    and o1: "rs_objects (rs w1) ?n = Some (RS_TextureLayered maps)"
    and f1: "rs_freed (rs w1) = rs_freed (rs w) @ (if rid_valid r then [r] else [])"
    by (simp_all add: w1_def gen_create_layers_uniform [OF u] rs_alloc_def r_def)
  have inv1: "res_inv w1"
    using res_inv_create_gen_layers [OF invc, of Slot_Height] dc by (simp add: w1_def)
  have g12: "rs_grows (rs w1) (rs w2)"
    using rs_grows_create_gen_layers [OF inv1, of Slot_Control] by (simp add: w2_def)
  have inv2: "res_inv w2"
    using res_inv_create_gen_layers [OF inv1, of Slot_Control] inv1 by (simp add: w2_def)
  have g23: "rs_grows (rs w2) (rs w3)"
    using rs_grows_create_gen_image [OF inv2, of Slot_Region_Map] by (simp add: w3_def)
  have g: "rs_grows (rs w1) (rs w')"
    using rs_grows_trans [OF rs_grows_trans [OF g12 g23] rs_grows_push_region_params [of w3]]
    by (simp add: eq)
  have "generated_height_maps w' = generated_height_maps w1"
    by (simp add: eq w3_def w2_def)
  moreover have "height_maps w' = maps"
    by (simp add: eq w3_def w2_def w1_def)
  ultimately show ?thesis
    using h1 o1 f1 g by (simp add: rs_grows_def)
qed

theorem set_height_maps_roundtrip_witness:
  "res_inv fresh_storage \<and> layers_uniform [image_create 64 64 FORMAT_RH] \<and>
   height_maps (set_height_maps [image_create 64 64 FORMAT_RH] fresh_storage) =
     [image_create 64 64 FORMAT_RH] \<and>
   \<not> g_dirty (generated_height_maps (set_height_maps [image_create 64 64 FORMAT_RH] fresh_storage))"
proof -
  have i: "res_inv fresh_storage" by (rule res_inv_storage_new)
  have u: "layers_uniform [image_create 64 64 FORMAT_RH]" by (simp add: layers_uniform_def)
  show ?thesis using set_height_maps_roundtrip [OF i u] i u by blast
qed

text \<open>
  C14. Building from an empty list does not leave the cache Empty, as spec section 4.3
  says: \<open>Generated::create\<close> calls \<open>clear()\<close>, which sets the dirty flag, so after
  \<open>set_height_maps([])\<close> the height cache is Dirty with no handle, and every later
  update pass rebuilds it again.
\<close>

theorem set_height_maps_empty_dirty:
  "gen_status (generated_height_maps (set_height_maps [] w)) = Dirty \<and>
   g_rid (generated_height_maps (set_height_maps [] w)) = 0"
  by (simp add: set_height_maps_def force_update_maps_def update_regions_gens(1))

end
