(* ===== verification/Layers.thy ===== *)
theory Layers
  imports Storage
begin

text \<open>
  The layer registry (\<open>terrain_storage.cpp\<close> lines 256--347): the ordered list of
  material layers, each a \<open>Ref<TerrainLayerMaterial3D>\<close> (a key into the layer-object
  heap \<^term>\<open>lobj\<close>, or \<open>None\<close> for a null reference), the signal connections the
  storage makes to each layer object, the scalar arrays of \<open>_update_arrays\<close> and the
  albedo and normal texture-array caches of \<open>_update_textures\<close>. A method called
  through a null reference aborts with \<open>Null_Reference\<close>.
\<close>

section \<open>Layer objects and their signal connections\<close>

text \<open>
  Godot's \<open>Object::is_connected\<close>, \<open>connect\<close> and \<open>disconnect\<close> for connections to
  methods of the storage, named by signal and method. Connecting twice is refused, and
  disconnecting a connection that does not exist reports an error and changes nothing.
\<close>

definition is_connected :: "string \<Rightarrow> string \<Rightarrow> layer_obj \<Rightarrow> bool" where
  "is_connected sig meth l \<longleftrightarrow> (sig, meth) \<in> set (lo_conns l)"

definition obj_connect :: "string \<Rightarrow> string \<Rightarrow> layer_obj \<Rightarrow> layer_obj" where
  "obj_connect sig meth l =
     (if is_connected sig meth l then l else l\<lparr>lo_conns := lo_conns l @ [(sig, meth)]\<rparr>)"

definition obj_disconnect :: "string \<Rightarrow> string \<Rightarrow> layer_obj \<Rightarrow> layer_obj" where
  "obj_disconnect sig meth l = l\<lparr>lo_conns := removeAll (sig, meth) (lo_conns l)\<rparr>"

text \<open>Dereferencing a \<open>Ref\<close>: a null one aborts.\<close>

definition layer_key :: "layer_ref \<Rightarrow> error + nat" where
  "layer_key r = (case r of None \<Rightarrow> Inl Null_Reference | Some k \<Rightarrow> Inr k)"

definition put_lobj :: "nat \<Rightarrow> layer_obj \<Rightarrow> world \<Rightarrow> world" where
  "put_lobj k l w = w\<lparr>lobj := (lobj w)(k := l)\<rparr>"

section \<open>The update passes\<close>

text \<open>
  The loop of \<open>_update_layers\<close> (lines 298--307): connect each layer's
  \<open>texture_changed\<close> signal to \<open>_update_textures\<close> and its \<open>value_changed\<close> signal to
  \<open>_update_values\<close>, each unless already connected. A null layer aborts.
\<close>

fun connect_layers :: "layer_ref list \<Rightarrow> world \<Rightarrow> error + world" where
  "connect_layers [] w = Inr w"
| "connect_layers (r # refs) w =
     sbind (layer_key r) (\<lambda>k.
       (let l = lobj w k;
            l1 = (if \<not> is_connected ''texture_changed'' ''_update_textures'' l
                  then obj_connect ''texture_changed'' ''_update_textures'' l else l);
            l2 = (if \<not> is_connected ''value_changed'' ''_update_values'' l1
                  then obj_connect ''value_changed'' ''_update_values'' l1 else l1)
        in connect_layers refs (put_lobj k l2 w)))"

text \<open>
  \<open>_update_arrays\<close> (lines 312--325): read every layer's UV scale and albedo colour into
  two local arrays, which are then dropped; only \<open>emit_changed\<close> (no state) follows.
\<close>

definition update_arrays :: "world \<Rightarrow> error + world" where
  "update_arrays w =
     (case those (layers w) of
        None \<Rightarrow> Inl Null_Reference
      | Some ks \<Rightarrow>
          (let uv_scales = map (\<lambda>k. lo_uv_scale (lobj w k)) ks;
               colors = map (\<lambda>k. lo_albedo (lobj w k)) ks
           in Inr w))"

text \<open>
  \<open>_update_textures\<close> collects each layer's \<open>Ref<Texture2D>\<close> into an untyped
  \<open>Array\<close> (lines 330--334) and passes it to \<open>Generated::create(const TypedArray<Image> &)\<close>
  (line 335). Converting the \<open>Array\<close> to a \<open>TypedArray<Image>\<close> checks every element:
  null entries pass, but a \<open>Texture2D\<close> is not an \<open>Image\<close>, so as soon as one layer has
  a texture the conversion fails and \<open>create\<close> receives an empty array. A texture is
  represented here by the image it holds, which the conversion never reads.
\<close>

definition images_of_textures :: "image option list \<Rightarrow> image option list" where
  "images_of_textures xs = (if xs = replicate (length xs) None then xs else [])"

text \<open>
  \<open>Generated::create\<close> on the converted array: an empty array clears the entry; a
  non-empty one holds only nulls, which \<open>texture_2d_layered_create\<close> refuses
  (\<open>RID()\<close>), so the entry is clean with no handle.
\<close>

definition gen_create_layer_opts ::
  "image option list \<Rightarrow> generated \<Rightarrow> server \<Rightarrow> generated \<times> server" where
  "gen_create_layer_opts xs g s =
     (case those (images_of_textures xs) of
        Some imgs \<Rightarrow> gen_create_layers imgs g s
      | None \<Rightarrow> (g\<lparr>g_rid := 0, g_dirty := False\<rparr>, s))"

definition create_gen_layer_opts :: "gen_slot \<Rightarrow> image option list \<Rightarrow> world \<Rightarrow> world" where
  "create_gen_layer_opts sl xs w =
     (let (g, s) = gen_create_layer_opts xs (get_gen sl w) (rs w) in (put_gen sl g w)\<lparr>rs := s\<rparr>)"

text \<open>
  One half of \<open>_update_textures\<close> (lines 327--347): if the cache is dirty, collect one
  texture per layer (a null layer aborts) and hand the array to \<open>create\<close>.
\<close>

definition update_texture_slot ::
  "gen_slot \<Rightarrow> (layer_obj \<Rightarrow> image option) \<Rightarrow> world \<Rightarrow> error + world" where
  "update_texture_slot sl tex w =
     (if g_dirty (get_gen sl w) then
        (case those (layers w) of
           None \<Rightarrow> Inl Null_Reference
         | Some ks \<Rightarrow> Inr (create_gen_layer_opts sl (map (\<lambda>k. tex (lobj w k)) ks) w))
      else Inr w)"

definition update_textures :: "world \<Rightarrow> error + world" where
  "update_textures w =
     sbind (update_texture_slot Slot_Albedo lo_albedo_texture w)
       (update_texture_slot Slot_Normal lo_normal_texture)"

text \<open>\<open>_update_layers\<close> (lines 296--310).\<close>

definition update_layers :: "world \<Rightarrow> error + world" where
  "update_layers w =
     sbind (connect_layers (layers w) w) (\<lambda>w1. sbind (update_arrays w1) update_textures)"

section \<open>The registry's handlers\<close>

text \<open>
  \<open>set_layer\<close> (lines 256--274). Below the size: a null material removes the slot,
  first disconnecting the old layer's \<open>texture_changed\<close>/\<open>_update_textures\<close> and
  \<open>value_changed\<close>/\<open>_update_arrays\<close> connections; a material replaces the slot. At or
  beyond the size the material (null or not) is appended. Then both texture caches are
  cleared and \<open>_update_layers\<close> runs. Indexing below zero aborts.
\<close>

definition set_layer :: "layer_ref \<Rightarrow> int \<Rightarrow> world \<Rightarrow> error + world" where
  "set_layer mat i w =
     sbind
       (if i < int (length (layers w)) then
          (if mat = None then
             sbind (array_get (layers w) i) (\<lambda>m. sbind (layer_key m) (\<lambda>k.
               (let l = lobj w k;
                    l1 = obj_disconnect ''texture_changed'' ''_update_textures'' l;
                    l2 = obj_disconnect ''value_changed'' ''_update_arrays'' l1
                in Inr ((put_lobj k l2 w)\<lparr>layers := array_remove_at i (layers w)\<rparr>))))
           else sbind (array_set (layers w) i mat) (\<lambda>ls. Inr (w\<lparr>layers := ls\<rparr>)))
        else Inr (w\<lparr>layers := layers w @ [mat]\<rparr>))
       (\<lambda>w1. update_layers (clear_gen Slot_Normal (clear_gen Slot_Albedo w1)))"

text \<open>\<open>get_layer\<close> (lines 276--278): unchecked indexing.\<close>

definition get_layer :: "int \<Rightarrow> 'a storage_scheme \<Rightarrow> error + layer_ref" where
  "get_layer i w = array_get (layers w) i"

text \<open>\<open>set_layers\<close> (lines 280--285) and \<open>get_layer_count\<close> (lines 291--293).\<close>

definition set_layers :: "layer_ref list \<Rightarrow> world \<Rightarrow> error + world" where
  "set_layers ls w =
     update_layers (clear_gen Slot_Normal (clear_gen Slot_Albedo (w\<lparr>layers := ls\<rparr>)))"

definition get_layer_count :: "'a storage_scheme \<Rightarrow> int" where
  "get_layer_count w = int (length (layers w))"

section \<open>A layer's own edits\<close>

text \<open>
  The methods \<open>_bind_methods\<close> registers with the engine (lines 525--559). A signal
  connected to \<open>Callable(this, name)\<close> reaches the storage only through this table: the
  engine looks the method up by name when the signal is emitted.
\<close>

definition bound_methods :: "string list" where
  "bound_methods =
     [''set_region_size'', ''get_region_size'', ''set_max_height'', ''get_max_height'',
      ''set_shader_override'', ''get_shader_override'', ''set_noise_texture'', ''get_noise_texture'',
      ''set_noise_scale'', ''get_noise_scale'', ''set_noise_height'', ''get_noise_height'',
      ''set_noise_fade'', ''get_noise_fade'', ''set_layer'', ''get_layer'', ''set_layers'',
      ''get_layers'', ''add_region'', ''remove_region'', ''has_region'', ''get_region_index'',
      ''force_update_maps'', ''get_map'', ''set_height_maps'', ''get_height_maps'',
      ''set_control_maps'', ''get_control_maps'', ''set_region_offsets'', ''get_region_offsets'']"

text \<open>
  \<open>TerrainLayerMaterial3D::set_albedo_texture\<close> (outside this repository, modelled from
  spec section 4.5): store the texture and emit \<open>texture_changed\<close>. The connection made
  by \<open>_update_layers\<close> targets \<open>_update_textures\<close>, which runs only if that name is
  registered; otherwise the engine reports the missing method and nothing else happens.
\<close>

definition layer_set_albedo_texture :: "nat \<Rightarrow> image option \<Rightarrow> world \<Rightarrow> error + world" where
  "layer_set_albedo_texture k t w =
     (let l = (lobj w k)\<lparr>lo_albedo_texture := t\<rparr>;
          w1 = put_lobj k l w
      in if is_connected ''texture_changed'' ''_update_textures'' l \<and>
            ''_update_textures'' \<in> set bound_methods
         then update_textures w1
         else Inr w1)"

text \<open>
  The tail every registry handler shares: clear both texture caches, then
  \<open>_update_layers\<close>; and the frame of the list edit that precedes it.
\<close>

abbreviation refresh_layers :: "world \<Rightarrow> error + world" where
  "refresh_layers w \<equiv> update_layers (clear_gen Slot_Normal (clear_gen Slot_Albedo w))"

abbreviation layer_edit :: "world \<Rightarrow> world \<Rightarrow> bool" where
  "layer_edit w w1 \<equiv>
     rs w1 = rs w \<and> (\<forall>sl. get_gen sl w1 = get_gen sl w) \<and> material w1 = material w \<and>
     shader w1 = shader w \<and> region_offsets w1 = region_offsets w \<and>
     height_maps w1 = height_maps w \<and> control_maps w1 = control_maps w \<and>
     region_size w1 = region_size w"

section \<open>Behaviour of the passes\<close>

lemma get_gen_lobj_update [simp]: "get_gen sl (w\<lparr>lobj := h\<rparr>) = get_gen sl w"
  by (cases sl) simp_all


lemma update_arrays_eq:
  "update_arrays w = (if None \<in> set (layers w) then Inl Null_Reference else Inr w)"
  by (auto simp: update_arrays_def Let_def those_Some_iff split: option.splits)

lemma connect_layers_None: "None \<in> set refs \<Longrightarrow> connect_layers refs w = Inl Null_Reference"
  by (induction refs arbitrary: w) (auto simp: layer_key_def split: option.splits)

lemma connect_layers_step:
  assumes "connect_layers (r # refs) w = Inr w'"
  obtains k l where "r = Some k" and "connect_layers refs (put_lobj k l w) = Inr w'"
  using assms by (cases r) (auto simp: layer_key_def Let_def)

lemma connect_layers_Inr: "None \<notin> set refs \<Longrightarrow> \<exists>w'. connect_layers refs w = Inr w'"
proof (induction refs arbitrary: w)
  case (Cons r refs)
  then obtain k where "r = Some k" by (cases r) auto
  with Cons show ?case by (simp add: layer_key_def Let_def)
qed simp

lemma connect_layers_Inl_iff:
  "connect_layers refs w = Inl e \<longleftrightarrow> None \<in> set refs \<and> e = Null_Reference"
proof (cases "None \<in> set refs")
  case True
  then show ?thesis by (auto simp: connect_layers_None)
next
  case False
  then obtain w' where "connect_layers refs w = Inr w'" using connect_layers_Inr by blast
  with False show ?thesis by simp
qed

lemma connect_layers_frame:
  "connect_layers refs w = Inr w' \<Longrightarrow> w' = w\<lparr>lobj := lobj w'\<rparr>"
proof (induction refs arbitrary: w)
  case (Cons r refs)
  obtain k l where "r = Some k" and rec: "connect_layers refs (put_lobj k l w) = Inr w'"
    by (rule connect_layers_step [OF Cons.prems(1)])
  from Cons.IH [OF rec] show ?case by (simp add: put_lobj_def)
qed simp

lemma connect_layers_untouched:
  "connect_layers refs w = Inr w' \<Longrightarrow> Some k \<notin> set refs \<Longrightarrow> lobj w' k = lobj w k"
proof (induction refs arbitrary: w)
  case (Cons r refs)
  obtain k' l where r: "r = Some k'" and rec: "connect_layers refs (put_lobj k' l w) = Inr w'"
    by (rule connect_layers_step [OF Cons.prems(1)])
  with Cons.prems(2) have "k \<noteq> k'" "Some k \<notin> set refs" by auto
  with Cons.IH [OF rec] show ?case by (simp add: put_lobj_def)
qed simp

lemma connect_layers_mono:
  "connect_layers refs w = Inr w' \<Longrightarrow> set (lo_conns (lobj w k)) \<subseteq> set (lo_conns (lobj w' k))"
proof (induction refs arbitrary: w)
  case (Cons r refs)
  then obtain k' where r: "r = Some k'" by (cases r) (auto simp: layer_key_def)
  let ?l = "lobj w k'"
  let ?l1 = "if \<not> is_connected ''texture_changed'' ''_update_textures'' ?l
             then obj_connect ''texture_changed'' ''_update_textures'' ?l else ?l"
  let ?l2 = "if \<not> is_connected ''value_changed'' ''_update_values'' ?l1
             then obj_connect ''value_changed'' ''_update_values'' ?l1 else ?l1"
  have rec: "connect_layers refs (put_lobj k' ?l2 w) = Inr w'"
    using Cons.prems r by (simp add: layer_key_def Let_def)
  have "set (lo_conns (lobj w k)) \<subseteq> set (lo_conns (lobj (put_lobj k' ?l2 w) k))"
    by (auto simp: put_lobj_def obj_connect_def)
  with Cons.IH [OF rec] show ?case by blast
qed simp

lemma connect_layers_fields:
  assumes "connect_layers refs w = Inr w'"
  shows "lo_albedo_texture (lobj w' k) = lo_albedo_texture (lobj w k) \<and>
         lo_normal_texture (lobj w' k) = lo_normal_texture (lobj w k) \<and>
         lo_uv_scale (lobj w' k) = lo_uv_scale (lobj w k) \<and> lo_albedo (lobj w' k) = lo_albedo (lobj w k)"
  using assms
proof (induction refs arbitrary: w)
  case (Cons r refs)
  obtain k' l where r: "r = Some k'" and "connect_layers refs (put_lobj k' l w) = Inr w'"
    by (rule connect_layers_step [OF Cons.prems(1)])
  let ?l = "lobj w k'"
  let ?l1 = "if \<not> is_connected ''texture_changed'' ''_update_textures'' ?l
             then obj_connect ''texture_changed'' ''_update_textures'' ?l else ?l"
  let ?l2 = "if \<not> is_connected ''value_changed'' ''_update_values'' ?l1
             then obj_connect ''value_changed'' ''_update_values'' ?l1 else ?l1"
  have rec: "connect_layers refs (put_lobj k' ?l2 w) = Inr w'"
    using Cons.prems r by (simp add: layer_key_def Let_def)
  from Cons.IH [OF rec] show ?case by (simp add: put_lobj_def obj_connect_def)
qed simp

lemma connect_layers_connects:
  assumes "connect_layers refs w = Inr w'" and "Some k \<in> set refs"
  shows "is_connected ''texture_changed'' ''_update_textures'' (lobj w' k) \<and>
         is_connected ''value_changed'' ''_update_values'' (lobj w' k)"
  using assms
proof (induction refs arbitrary: w)
  case (Cons r refs)
  then obtain k' where r: "r = Some k'" by (cases r) (auto simp: layer_key_def)
  let ?l = "lobj w k'"
  let ?l1 = "if \<not> is_connected ''texture_changed'' ''_update_textures'' ?l
             then obj_connect ''texture_changed'' ''_update_textures'' ?l else ?l"
  let ?l2 = "if \<not> is_connected ''value_changed'' ''_update_values'' ?l1
             then obj_connect ''value_changed'' ''_update_values'' ?l1 else ?l1"
  have rec: "connect_layers refs (put_lobj k' ?l2 w) = Inr w'"
    using Cons.prems r by (simp add: layer_key_def Let_def)
  show ?case
  proof (cases "Some k \<in> set refs")
    case True
    then show ?thesis using Cons.IH [OF rec] by blast
  next
    case False
    then have k: "k = k'" using Cons.prems(2) r by simp
    have "is_connected ''texture_changed'' ''_update_textures'' (lobj (put_lobj k' ?l2 w) k) \<and>
          is_connected ''value_changed'' ''_update_values'' (lobj (put_lobj k' ?l2 w) k)"
      by (auto simp: k put_lobj_def obj_connect_def is_connected_def)
    then show ?thesis
      using connect_layers_mono [OF rec, of k] by (auto simp: is_connected_def)
  qed
qed simp

lemma create_gen_layer_opts_eq:
  "create_gen_layer_opts sl xs w =
     (case those (images_of_textures xs) of
        Some imgs \<Rightarrow> create_gen_layers sl imgs w
      | None \<Rightarrow> put_gen sl ((get_gen sl w)\<lparr>g_rid := 0, g_dirty := False\<rparr>) w)"
  by (cases "those (images_of_textures xs)")
     (simp_all add: create_gen_layer_opts_def gen_create_layer_opts_def create_gen_layers_def
                    split_def del: those_None_iff)

text \<open>What one half of \<open>_update_textures\<close> leaves unchanged.\<close>

lemma update_texture_slot_frame:
  assumes "update_texture_slot sl tex w = Inr w'"
  shows "layers w' = layers w" and "lobj w' = lobj w" and "rs_params (rs w') = rs_params (rs w)"
    and "region_offsets w' = region_offsets w" and "height_maps w' = height_maps w"
    and "control_maps w' = control_maps w" and "material w' = material w"
    and "shader w' = shader w" and "region_size w' = region_size w"
    and "sl' \<noteq> sl \<Longrightarrow> get_gen sl' w' = get_gen sl' w"
  using assms
  by (auto simp: update_texture_slot_def create_gen_layer_opts_eq split: if_splits option.splits)

lemma update_texture_slot_Inl:
  "update_texture_slot sl tex w = Inl e \<longleftrightarrow>
     g_dirty (get_gen sl w) \<and> None \<in> set (layers w) \<and> e = Null_Reference"
  by (auto simp: update_texture_slot_def those_Some_iff split: option.splits)

lemma update_textures_frame:
  assumes "update_textures w = Inr w'"
  shows "layers w' = layers w" and "lobj w' = lobj w" and "rs_params (rs w') = rs_params (rs w)"
    and "region_offsets w' = region_offsets w" and "height_maps w' = height_maps w"
    and "control_maps w' = control_maps w" and "material w' = material w"
    and "shader w' = shader w" and "region_size w' = region_size w"
    and "sl \<notin> {Slot_Albedo, Slot_Normal} \<Longrightarrow> get_gen sl w' = get_gen sl w"
proof -
  obtain w1 where a: "update_texture_slot Slot_Albedo lo_albedo_texture w = Inr w1"
    and n: "update_texture_slot Slot_Normal lo_normal_texture w1 = Inr w'"
    using assms by (auto simp: update_textures_def sbind_Inr_iff)
  note fa = update_texture_slot_frame [OF a] and fn = update_texture_slot_frame [OF n]
  show "layers w' = layers w" "lobj w' = lobj w" "rs_params (rs w') = rs_params (rs w)"
    "region_offsets w' = region_offsets w" "height_maps w' = height_maps w"
    "control_maps w' = control_maps w" "material w' = material w"
    "shader w' = shader w" "region_size w' = region_size w"
    using fa fn by simp_all
  show "sl \<notin> {Slot_Albedo, Slot_Normal} \<Longrightarrow> get_gen sl w' = get_gen sl w"
    using fa(10) [of sl] fn(10) [of sl] by simp
qed

text \<open>\<open>_update_layers\<close> fails exactly on a null layer, and otherwise connects every layer.\<close>

lemma update_layers_None: "None \<in> set (layers w) \<Longrightarrow> update_layers w = Inl Null_Reference"
  by (simp add: update_layers_def connect_layers_None)

lemma update_layers_Inr:
  assumes "update_layers w = Inr w'"
  obtains w1 where "None \<notin> set (layers w)" and "connect_layers (layers w) w = Inr w1"
    and "update_textures w1 = Inr w'"
proof -
  obtain w1 where c: "connect_layers (layers w) w = Inr w1"
    and r: "sbind (update_arrays w1) update_textures = Inr w'"
    using assms by (auto simp: update_layers_def sbind_Inr_iff)
  have "layers w1 = layers w" by (subst connect_layers_frame [OF c]) simp
  moreover have "None \<notin> set (layers w)" using c connect_layers_None by fastforce
  ultimately have "update_textures w1 = Inr w'" using r by (simp add: update_arrays_eq)
  with c \<open>None \<notin> set (layers w)\<close> show ?thesis using that by blast
qed

lemma update_textures_Inl_iff:
  "update_textures w = Inl e \<longleftrightarrow>
     (g_dirty (generated_albedo_textures w) \<or> g_dirty (generated_normal_textures w)) \<and>
     None \<in> set (layers w) \<and> e = Null_Reference"
proof (cases "update_texture_slot Slot_Albedo lo_albedo_texture w")
  case (Inl e')
  have "update_textures w = Inl e'" by (simp add: update_textures_def Inl)
  moreover have "g_dirty (generated_albedo_textures w) \<and> None \<in> set (layers w) \<and> e' = Null_Reference"
    using Inl by (simp add: update_texture_slot_Inl)
  ultimately show ?thesis by auto
next
  case (Inr w1)
  note f = update_texture_slot_frame [OF Inr]
  have "generated_normal_textures w1 = generated_normal_textures w"
    using f(10) [of Slot_Normal] by simp
  then show ?thesis using Inr f(1) update_texture_slot_Inl [of Slot_Albedo lo_albedo_texture w]
    by (auto simp: update_textures_def update_texture_slot_Inl)
qed

lemma update_layers_Inl_iff:
  "update_layers w = Inl e \<longleftrightarrow> None \<in> set (layers w) \<and> e = Null_Reference"
proof (cases "None \<in> set (layers w)")
  case True
  then show ?thesis by (auto simp: update_layers_None)
next
  case False
  then obtain w1 where c: "connect_layers (layers w) w = Inr w1" using connect_layers_Inr by blast
  have "layers w1 = layers w" by (subst connect_layers_frame [OF c]) simp
  with False c show ?thesis
    by (simp add: update_layers_def update_arrays_eq update_textures_Inl_iff)
qed

section \<open>Ownership of handles across the registry\<close>

lemma res_inv_put_gen_refused:
  assumes inv: "res_inv w" and z: "g_rid (get_gen sl w) = 0"
  shows "res_inv (put_gen sl ((get_gen sl w)\<lparr>g_rid := 0, g_dirty := False\<rparr>) w)"
proof -
  let ?w = "put_gen sl ((get_gen sl w)\<lparr>g_rid := 0, g_dirty := False\<rparr>) w"
  have h: "holder ?w = holder w"
  proof
    fix a show "holder ?w a = holder w a" using z by (cases a) simp_all
  qed
  show ?thesis using inv h by (simp add: res_inv_def)
qed

lemma res_inv_update_texture_slot:
  assumes inv: "res_inv w" and ok: "update_texture_slot sl tex w = Inr w'"
  shows "res_inv w'"
proof (cases "g_dirty (get_gen sl w)")
  case True
  then have z: "g_rid (get_gen sl w) = 0" using inv by (simp add: res_inv_def)
  obtain ks where "w' = create_gen_layer_opts sl (map (\<lambda>k. tex (lobj w k)) ks) w"
    using ok True by (auto simp: update_texture_slot_def split: option.splits)
  then show ?thesis
    using res_inv_create_gen_layers [OF inv True] res_inv_put_gen_refused [OF inv z]
    by (simp add: create_gen_layer_opts_eq split: option.splits)
next
  case False
  with ok inv show ?thesis by (simp add: update_texture_slot_def)
qed

lemma res_inv_update_textures: "res_inv w \<Longrightarrow> update_textures w = Inr w' \<Longrightarrow> res_inv w'"
  by (auto simp: update_textures_def sbind_Inr_iff intro: res_inv_update_texture_slot)

lemma res_inv_lobj [simp]: "res_inv (w\<lparr>lobj := h\<rparr>) = res_inv w"
  by (rule res_inv_cong) simp_all

lemma res_inv_layers [simp]: "res_inv (w\<lparr>layers := ls\<rparr>) = res_inv w"
  by (rule res_inv_cong) (simp_all add: get_gen_data_updates)

lemma res_inv_put_lobj [simp]: "res_inv (put_lobj k l w) = res_inv w"
  by (simp add: put_lobj_def)

lemma res_inv_update_layers:
  assumes inv: "res_inv w" and ok: "update_layers w = Inr w'"
  shows "res_inv w'"
proof -
  obtain w1 where c: "connect_layers (layers w) w = Inr w1" and t: "update_textures w1 = Inr w'"
    using ok by (rule update_layers_Inr)
  have "res_inv w1" using inv by (subst connect_layers_frame [OF c]) simp
  then show ?thesis using t by (rule res_inv_update_textures)
qed

section \<open>The branches of \<open>set_layer\<close>\<close>

lemma set_layer_negative: "i < 0 \<Longrightarrow> set_layer mat i w = Inl Index_Out_Of_Range"
  by (cases mat) (simp_all add: set_layer_def array_get_def array_set_def)

lemma set_layer_append:
  "int (length (layers w)) \<le> i \<Longrightarrow> set_layer mat i w = refresh_layers (w\<lparr>layers := layers w @ [mat]\<rparr>)"
  by (simp add: set_layer_def)

lemma set_layer_replace:
  "0 \<le> i \<Longrightarrow> i < int (length (layers w)) \<Longrightarrow> mat \<noteq> None \<Longrightarrow>
     set_layer mat i w = refresh_layers (w\<lparr>layers := (layers w)[nat i := mat]\<rparr>)"
  by (cases mat) (simp_all add: set_layer_def array_set_def)

lemma set_layer_remove:
  "0 \<le> i \<Longrightarrow> i < int (length (layers w)) \<Longrightarrow> layers w ! nat i = Some k \<Longrightarrow>
     set_layer None i w =
       refresh_layers ((put_lobj k (obj_disconnect ''value_changed'' ''_update_arrays''
                          (obj_disconnect ''texture_changed'' ''_update_textures'' (lobj w k))) w)
                       \<lparr>layers := drop_nth (nat i) (layers w)\<rparr>)"
  by (simp add: set_layer_def array_get_def array_remove_at_def layer_key_def)

lemma set_layer_remove_null:
  "0 \<le> i \<Longrightarrow> i < int (length (layers w)) \<Longrightarrow> layers w ! nat i = None \<Longrightarrow>
     set_layer None i w = Inl Null_Reference"
  by (simp add: set_layer_def array_get_def layer_key_def)

lemma update_layers_frame:
  assumes "update_layers w = Inr w'"
  shows "layers w' = layers w" and "rs_params (rs w') = rs_params (rs w)"
    and "\<exists>w1. connect_layers (layers w) w = Inr w1 \<and> lobj w' = lobj w1"
proof -
  obtain w1 where c: "connect_layers (layers w) w = Inr w1" and t: "update_textures w1 = Inr w'"
    using assms by (rule update_layers_Inr)
  have e: "layers w1 = layers w" "rs w1 = rs w" by (subst connect_layers_frame [OF c], simp)+
  show "layers w' = layers w" using update_textures_frame(1) [OF t] e by simp
  show "rs_params (rs w') = rs_params (rs w)" using update_textures_frame(3) [OF t] e by simp
  show "\<exists>w1. connect_layers (layers w) w = Inr w1 \<and> lobj w' = lobj w1"
    using c update_textures_frame(2) [OF t] by blast
qed

lemma update_layers_region_data:
  assumes "update_layers w = Inr w'"
  shows "region_offsets w' = region_offsets w" and "height_maps w' = height_maps w"
    and "control_maps w' = control_maps w" and "material w' = material w"
    and "shader w' = shader w" and "region_size w' = region_size w"
    and "sl \<notin> {Slot_Albedo, Slot_Normal} \<Longrightarrow> get_gen sl w' = get_gen sl w"
proof -
  obtain w1 where c: "connect_layers (layers w) w = Inr w1" and t: "update_textures w1 = Inr w'"
    using assms by (rule update_layers_Inr)
  have e: "w1 = w\<lparr>lobj := lobj w1\<rparr>" by (rule connect_layers_frame [OF c])
  note f = update_textures_frame [OF t]
  have d: "region_offsets w1 = region_offsets w" "height_maps w1 = height_maps w"
    "control_maps w1 = control_maps w" "material w1 = material w"
    "shader w1 = shader w" "region_size w1 = region_size w" "get_gen sl w1 = get_gen sl w"
    by (subst e, simp)+
  show "region_offsets w' = region_offsets w" "height_maps w' = height_maps w"
    "control_maps w' = control_maps w" "material w' = material w"
    "shader w' = shader w" "region_size w' = region_size w"
    using f(4-9) d by simp_all
  show "sl \<notin> {Slot_Albedo, Slot_Normal} \<Longrightarrow> get_gen sl w' = get_gen sl w"
    using f(10) [of sl] d(7) by simp
qed

lemma refresh_layers_frame:
  assumes "refresh_layers w = Inr w'"
  shows "layers w' = layers w" and "rs_params (rs w') = rs_params (rs w)"
    and "\<exists>w1. connect_layers (layers w) (clear_gen Slot_Normal (clear_gen Slot_Albedo w)) = Inr w1
               \<and> lobj w' = lobj w1"
  using update_layers_frame [OF assms] by simp_all

text \<open>Every successful \<open>set_layer\<close> is a list edit followed by the refresh.\<close>

lemma set_layer_Inr:
  assumes "set_layer mat i w = Inr w'"
  shows "\<exists>w1. refresh_layers w1 = Inr w' \<and> layer_edit w w1"
proof -
  have nonneg: "0 \<le> i" using assms set_layer_negative [of i mat w] by force
  show ?thesis
  proof (cases "i < int (length (layers w)) \<and> mat = None")
    case True
    then obtain k where k: "layers w ! nat i = Some k"
      using assms set_layer_remove_null [OF nonneg] by (cases "layers w ! nat i") auto
    let ?w1 = "(put_lobj k (obj_disconnect ''value_changed'' ''_update_arrays''
                 (obj_disconnect ''texture_changed'' ''_update_textures'' (lobj w k))) w)
               \<lparr>layers := drop_nth (nat i) (layers w)\<rparr>"
    have "refresh_layers ?w1 = Inr w' \<and> layer_edit w ?w1"
      using assms True by (simp add: set_layer_remove [OF nonneg _ k] put_lobj_def get_gen_data_updates)
    then show ?thesis by blast
  next
    case False
    show ?thesis
    proof (cases "i < int (length (layers w))")
      case True
      with False have "mat \<noteq> None" by simp
      let ?w1 = "w\<lparr>layers := (layers w)[nat i := mat]\<rparr>"
      have "refresh_layers ?w1 = Inr w' \<and> layer_edit w ?w1"
        using assms True \<open>mat \<noteq> None\<close> nonneg by (simp add: set_layer_replace get_gen_data_updates)
      then show ?thesis by blast
    next
      case out: False
      let ?w1 = "w\<lparr>layers := layers w @ [mat]\<rparr>"
      have "refresh_layers ?w1 = Inr w' \<and> layer_edit w ?w1"
        using assms out by (simp add: set_layer_append get_gen_data_updates)
      then show ?thesis by blast
    qed
  qed
qed

lemma res_inv_refresh_layers:
  "res_inv w \<Longrightarrow> refresh_layers w = Inr w' \<Longrightarrow> res_inv w'"
  by (erule res_inv_update_layers [rotated]) (simp add: res_inv_clear_gen)

lemma res_inv_set_layer: "res_inv w \<Longrightarrow> set_layer mat i w = Inr w' \<Longrightarrow> res_inv w'"
proof -
  assume inv: "res_inv w" and ok: "set_layer mat i w = Inr w'"
  obtain w1 where r: "refresh_layers w1 = Inr w'" and e: "layer_edit w w1"
    using set_layer_Inr [OF ok] by blast
  from e have "res_inv w1 = res_inv w" by (intro res_inv_cong) simp_all
  with inv r show ?thesis by (simp add: res_inv_refresh_layers)
qed

lemma res_inv_set_layers:
  assumes "res_inv w" and "set_layers ls w = Inr w'"
  shows "res_inv w'"
  using res_inv_refresh_layers [of "w\<lparr>layers := ls\<rparr>" w'] assms by (simp add: set_layers_def)

lemma res_inv_layer_set_albedo_texture:
  "res_inv w \<Longrightarrow> layer_set_albedo_texture k t w = Inr w' \<Longrightarrow> res_inv w'"
  by (auto simp: layer_set_albedo_texture_def Let_def split: if_splits
           intro: res_inv_update_textures [of "put_lobj k _ w"])

lemma set_layers_Inr:
  assumes "set_layers ls w = Inr w'"
  shows "layers w' = ls" and "None \<notin> set ls" and "rs_params (rs w') = rs_params (rs w)"
    and "Some k \<in> set ls \<Longrightarrow> is_connected ''texture_changed'' ''_update_textures'' (lobj w' k) \<and>
                             is_connected ''value_changed'' ''_update_values'' (lobj w' k)"
proof -
  note r = assms [unfolded set_layers_def]
  note f = refresh_layers_frame [OF r]
  show "layers w' = ls" "rs_params (rs w') = rs_params (rs w)" using f(1,2) by simp_all
  show "None \<notin> set ls"
  proof
    assume "None \<in> set ls"
    then have "refresh_layers (w\<lparr>layers := ls\<rparr>) = Inl Null_Reference" by (simp add: update_layers_None)
    with r show False by simp
  qed
  assume k: "Some k \<in> set ls"
  from f(3) obtain w1 where c: "connect_layers ls (clear_gen Slot_Normal (clear_gen Slot_Albedo
      (w\<lparr>layers := ls\<rparr>))) = Inr w1" and o: "lobj w' = lobj w1" by auto
  show "is_connected ''texture_changed'' ''_update_textures'' (lobj w' k) \<and>
        is_connected ''value_changed'' ''_update_values'' (lobj w' k)"
    using connect_layers_connects [OF c k] o by simp
qed

section \<open>The texture arrays are never built\<close>

text \<open>
  The converted array is either empty or all nulls, so \<open>create\<close> either clears the
  entry or is refused: the layer pass never leaves a handle in either texture-array cache.
\<close>

lemma those_images_of_textures: "those (images_of_textures xs) = Some imgs \<Longrightarrow> imgs = []"
  by (cases xs; cases imgs) (auto simp: images_of_textures_def those_Some_iff split: if_splits)

lemma create_gen_layer_opts_no_handle: "g_rid (get_gen sl (create_gen_layer_opts sl xs w)) = 0"
  by (auto simp: create_gen_layer_opts_eq gen_clear_def Let_def split: option.splits
           dest: those_images_of_textures)

lemma update_textures_no_handles:
  assumes "update_textures w = Inr w'"
    and "g_rid (generated_albedo_textures w) = 0" and "g_rid (generated_normal_textures w) = 0"
  shows "g_rid (generated_albedo_textures w') = 0 \<and> g_rid (generated_normal_textures w') = 0"
proof -
  have slot: "g_rid (get_gen sl w2) = 0"
    if "update_texture_slot sl tex w1 = Inr w2" and "g_rid (get_gen sl w1) = 0" for sl tex w1 w2
    using that create_gen_layer_opts_no_handle
    by (auto simp: update_texture_slot_def split: if_splits option.splits)
  obtain w1 where a: "update_texture_slot Slot_Albedo lo_albedo_texture w = Inr w1"
    and n: "update_texture_slot Slot_Normal lo_normal_texture w1 = Inr w'"
    using assms(1) by (auto simp: update_textures_def sbind_Inr_iff)
  have "g_rid (generated_albedo_textures w1) = 0" using slot [OF a] assms(2) by simp
  moreover have "g_rid (generated_normal_textures w1) = 0"
    using update_texture_slot_frame(10) [OF a, of Slot_Normal] assms(3) by simp
  ultimately show ?thesis
    using slot [OF n] update_texture_slot_frame(10) [OF n, of Slot_Albedo] by simp
qed

lemma layer_handlers_no_texture_handles:
  "set_layer mat i w = Inr w' \<Longrightarrow>
     g_rid (generated_albedo_textures w') = 0 \<and> g_rid (generated_normal_textures w') = 0"
  "set_layers ls w = Inr w' \<Longrightarrow>
     g_rid (generated_albedo_textures w') = 0 \<and> g_rid (generated_normal_textures w') = 0"
proof -
  have r: "g_rid (generated_albedo_textures w') = 0 \<and> g_rid (generated_normal_textures w') = 0"
    if ref: "refresh_layers w1 = Inr w'" for w1 w'
  proof -
    obtain w2 where c: "connect_layers (layers (clear_gen Slot_Normal (clear_gen Slot_Albedo w1)))
        (clear_gen Slot_Normal (clear_gen Slot_Albedo w1)) = Inr w2" and u: "update_textures w2 = Inr w'"
      using update_layers_Inr [OF ref] by blast
    have "g_rid (generated_albedo_textures w2) = 0"
      by (subst connect_layers_frame [OF c]) (simp add: gen_clear_def Let_def)
    moreover have "g_rid (generated_normal_textures w2) = 0"
      by (subst connect_layers_frame [OF c]) (simp add: gen_clear_def Let_def)
    ultimately show ?thesis using update_textures_no_handles [OF u] by simp
  qed
  show "set_layer mat i w = Inr w' \<Longrightarrow>
     g_rid (generated_albedo_textures w') = 0 \<and> g_rid (generated_normal_textures w') = 0"
    using set_layer_Inr r by blast
  show "set_layers ls w = Inr w' \<Longrightarrow>
     g_rid (generated_albedo_textures w') = 0 \<and> g_rid (generated_normal_textures w') = 0"
    using r by (simp add: set_layers_def)
qed

section \<open>Properties of the registry\<close>


text \<open>
  C21. On success \<open>set_layer\<close> leaves the list the spec describes: below the size a
  null removes the slot (compacting the list) and a material replaces it in place; at or
  beyond the size the material is appended; a successful call had a non-negative index.
\<close>

theorem set_layer_layers:
  assumes "set_layer mat i w = Inr w'"
  shows "layers w' =
           (if i < int (length (layers w)) then
              (if mat = None then drop_nth (nat i) (layers w) else (layers w)[nat i := mat])
            else layers w @ [mat]) \<and> 0 \<le> i"
proof -
  have nonneg: "0 \<le> i" using assms set_layer_negative [of i mat w] by force
  show ?thesis
  proof (cases "i < int (length (layers w))")
    case inr: True
    then have n: "nat i < length (layers w)" using nonneg by (simp add: nat_less_iff)
    show ?thesis
    proof (cases mat)
      case None
      then obtain k where k: "layers w ! nat i = Some k"
        using assms set_layer_remove_null [OF nonneg inr] by (cases "layers w ! nat i") auto
      show ?thesis
        using refresh_layers_frame(1) assms None nonneg inr
        by (simp add: set_layer_remove [OF nonneg inr k])
    next
      case (Some a)
      then show ?thesis
        using refresh_layers_frame(1) assms nonneg inr by (simp add: set_layer_replace)
    qed
  next
    case False
    then show ?thesis
      using refresh_layers_frame(1) assms nonneg by (simp add: set_layer_append)
  qed
qed

theorem set_layer_layers_witness:
  "\<exists>w'. set_layer (Some 0) 0 fresh_storage = Inr w' \<and> layers w' = [Some 0]"
proof -
  have "\<not> (\<exists>e. set_layer (Some 0) 0 fresh_storage = Inl e)"
    by (simp add: set_layer_append update_layers_Inl_iff)
  then obtain w' where w': "set_layer (Some 0) 0 fresh_storage = Inr w'"
    by (cases "set_layer (Some 0) 0 fresh_storage") auto
  show ?thesis using w' set_layer_layers [OF w'] by auto
qed

text \<open>
  C22. Removing a layer detaches only one of its two subscriptions: \<open>set_layer\<close>
  disconnects \<open>value_changed\<close> from \<open>_update_arrays\<close>, but \<open>_update_layers\<close>
  connected it to \<open>_update_values\<close>, so the removed layer keeps that subscription to the
  storage while its \<open>texture_changed\<close> one is gone (spec, section 4.5: removal detaches
  the layer's subscriptions).
\<close>

theorem set_layer_remove_leaks_value_connection:
  assumes "0 \<le> i" and "i < int (length (layers w))" and "layers w ! nat i = Some k"
    and "is_connected ''value_changed'' ''_update_values'' (lobj w k)"
    and "Some k \<notin> set (drop_nth (nat i) (layers w))"
    and "set_layer None i w = Inr w'"
  shows "\<not> is_connected ''texture_changed'' ''_update_textures'' (lobj w' k) \<and>
         is_connected ''value_changed'' ''_update_values'' (lobj w' k)"
proof -
  let ?l = "obj_disconnect ''value_changed'' ''_update_arrays''
              (obj_disconnect ''texture_changed'' ''_update_textures'' (lobj w k))"
  let ?w1 = "(put_lobj k ?l w)\<lparr>layers := drop_nth (nat i) (layers w)\<rparr>"
  have r: "refresh_layers ?w1 = Inr w'"
    using assms(6) by (simp add: set_layer_remove [OF assms(1-3)])
  obtain w2 where c: "connect_layers (layers ?w1) (clear_gen Slot_Normal (clear_gen Slot_Albedo ?w1)) = Inr w2"
    and o: "lobj w' = lobj w2"
    using refresh_layers_frame(3) [OF r] by blast
  have "lobj w2 k = ?l"
    using connect_layers_untouched [OF c] assms(5) by (simp add: put_lobj_def)
  then show ?thesis using assms(4) o by (simp add: is_connected_def obj_disconnect_def)
qed

theorem set_layer_remove_leaks_value_connection_witness:
  "\<exists>w w'. set_layers [Some 0] fresh_storage = Inr w \<and> set_layer None 0 w = Inr w' \<and>
     0 \<le> (0::int) \<and> 0 < int (length (layers w)) \<and> layers w ! nat 0 = Some 0 \<and>
     is_connected ''value_changed'' ''_update_values'' (lobj w 0) \<and>
     Some 0 \<notin> set (drop_nth (nat 0) (layers w)) \<and>
     \<not> is_connected ''texture_changed'' ''_update_textures'' (lobj w' 0) \<and>
     is_connected ''value_changed'' ''_update_values'' (lobj w' 0)"
proof -
  have "\<not> (\<exists>e. set_layers [Some 0] fresh_storage = Inl e)"
    by (simp add: set_layers_def update_layers_Inl_iff)
  then obtain w where w: "set_layers [Some 0] fresh_storage = Inr w"
    by (cases "set_layers [Some 0] fresh_storage") auto
  note f = set_layers_Inr [OF w]
  have l: "layers w = [Some 0]" by (rule f(1))
  have c: "is_connected ''value_changed'' ''_update_values'' (lobj w 0)" using f(4) [of 0] by simp
  have "\<not> (\<exists>e. set_layer None 0 w = Inl e)"
    by (simp add: set_layer_remove [of 0 w 0] l drop_nth_def update_layers_Inl_iff)
  then obtain w' where w': "set_layer None 0 w = Inr w'"
    by (cases "set_layer None 0 w") auto
  have d: "Some 0 \<notin> set (drop_nth (nat 0) (layers w))" by (simp add: l drop_nth_def)
  show ?thesis
    using set_layer_remove_leaks_value_connection [of 0 w 0 w'] w w' l c d by auto
qed

text \<open>
  C23. \<open>set_layers(L)\<close> succeeds exactly when no layer of \<open>L\<close> is null; then
  \<open>get_layers\<close> returns \<open>L\<close>, the count is its length, and every layer object of
  \<open>L\<close> is subscribed to the storage for texture and value changes.
\<close>

theorem set_layers_result:
  assumes "set_layers ls w = Inr w'"
  shows "layers w' = ls \<and> get_layer_count w' = int (length ls) \<and> None \<notin> set ls \<and>
         (\<forall>k. Some k \<in> set ls \<longrightarrow>
            is_connected ''texture_changed'' ''_update_textures'' (lobj w' k) \<and>
            is_connected ''value_changed'' ''_update_values'' (lobj w' k))"
  using set_layers_Inr [OF assms] by (simp add: get_layer_count_def)

theorem set_layers_result_witness:
  "\<exists>w'. set_layers [Some 0, Some 1] fresh_storage = Inr w' \<and> layers w' = [Some 0, Some 1] \<and>
     is_connected ''value_changed'' ''_update_values'' (lobj w' 1)"
proof -
  have "\<not> (\<exists>e. set_layers [Some 0, Some 1] fresh_storage = Inl e)"
    by (simp add: set_layers_def update_layers_Inl_iff)
  then obtain w' where w': "set_layers [Some 0, Some 1] fresh_storage = Inr w'"
    by (cases "set_layers [Some 0, Some 1] fresh_storage") auto
  show ?thesis using w' set_layers_result [OF w'] by auto
qed

text \<open>
  C24. No layer handler pushes anything to the material: whatever the albedo and normal
  texture-array caches hold, their handles never reach it, and the UV-scale and colour
  arrays of \<open>_update_arrays\<close> are dropped (spec, section 4.6: the five resource handles are
  pushed after every pass).
\<close>

theorem layer_handlers_push_no_params:
  "(set_layers ls w = Inr w' \<longrightarrow> rs_params (rs w') = rs_params (rs w)) \<and>
   (set_layer mat i w = Inr w'' \<longrightarrow> rs_params (rs w'') = rs_params (rs w))"
proof (intro conjI impI)
  assume "set_layers ls w = Inr w'"
  then show "rs_params (rs w') = rs_params (rs w)" by (rule set_layers_Inr(3))
next
  assume ok: "set_layer mat i w = Inr w''"
  have nonneg: "0 \<le> i" using ok set_layer_negative [of i mat w] by force
  show "rs_params (rs w'') = rs_params (rs w)"
  proof (cases "i < int (length (layers w)) \<and> mat = None")
    case True
    then obtain k where k: "layers w ! nat i = Some k"
      using ok set_layer_remove_null [OF nonneg] by (cases "layers w ! nat i") auto
    show ?thesis
      using refresh_layers_frame(2) ok True
      by (simp add: set_layer_remove [OF nonneg _ k] put_lobj_def)
  next
    case False
    then show ?thesis
      using refresh_layers_frame(2) ok nonneg
      by (cases "i < int (length (layers w))") (simp_all add: set_layer_replace set_layer_append)
  qed
qed

theorem layer_handlers_push_no_params_witness:
  "\<exists>w'. set_layers [Some 0] fresh_storage = Inr w' \<and>
     rs_params (rs w') = rs_params (rs fresh_storage)"
proof -
  have "\<not> (\<exists>e. set_layers [Some 0] fresh_storage = Inl e)"
    by (simp add: set_layers_def update_layers_Inl_iff)
  then obtain w' where w': "set_layers [Some 0] fresh_storage = Inr w'"
    by (cases "set_layers [Some 0] fresh_storage") auto
  show ?thesis
    using w' layer_handlers_push_no_params [of "[Some 0]" fresh_storage w' None 0 w'] by blast
qed

lemma update_textures_unregistered: "''_update_textures'' \<notin> set bound_methods"
  by (simp add: bound_methods_def)

text \<open>
  C25. A layer's texture change never reaches the storage: \<open>_update_layers\<close> connects
  \<open>texture_changed\<close> to \<open>_update_textures\<close>, but \<open>_bind_methods\<close> does not register that
  method, so the emission finds nothing to call. Whatever the layer's connections, the
  change stores the texture in the layer object and leaves every cache and the backend
  as they were (spec, section 4.3: a layer texture change moves the caches to Dirty).
\<close>

theorem layer_texture_change_stale:
  "\<exists>w'. layer_set_albedo_texture k t w = Inr w' \<and> lo_albedo_texture (lobj w' k) = t \<and>
        (\<forall>sl. get_gen sl w' = get_gen sl w) \<and> rs w' = rs w \<and> layers w' = layers w"
  by (simp add: layer_set_albedo_texture_def Let_def update_textures_unregistered put_lobj_def)

text \<open>The case the property is about: a layer that \<open>set_layers\<close> has connected.\<close>

theorem layer_texture_change_stale_witness:
  "\<exists>w w'. set_layers [Some 0] fresh_storage = Inr w \<and>
     is_connected ''texture_changed'' ''_update_textures'' (lobj w 0) \<and>
     layer_set_albedo_texture 0 (Some (image_create 64 64 FORMAT_RGBA8)) w = Inr w' \<and>
     generated_albedo_textures w' = generated_albedo_textures w"
proof -
  have "\<not> (\<exists>e. set_layers [Some 0] fresh_storage = Inl e)"
    by (simp add: set_layers_def update_layers_Inl_iff)
  then obtain w where w: "set_layers [Some 0] fresh_storage = Inr w"
    by (cases "set_layers [Some 0] fresh_storage") auto
  have c: "is_connected ''texture_changed'' ''_update_textures'' (lobj w 0)"
    using set_layers_Inr(4) [OF w, of 0] by simp
  obtain w' where w': "layer_set_albedo_texture 0 (Some (image_create 64 64 FORMAT_RGBA8)) w = Inr w'"
    and g: "\<forall>sl. get_gen sl w' = get_gen sl w"
    using layer_texture_change_stale [of 0 "Some (image_create 64 64 FORMAT_RGBA8)" w] by blast
  show ?thesis using w c w' g [rule_format, of Slot_Albedo] by auto
qed

section \<open>What the registry leaves alone\<close>

lemma region_size_layer_handlers:
  "set_layer mat i w = Inr w' \<Longrightarrow> region_size w' = region_size w"
  "set_layers ls w = Inr w' \<Longrightarrow> region_size w' = region_size w"
  "layer_set_albedo_texture k t w = Inr w' \<Longrightarrow> region_size w' = region_size w"
proof -
  assume ok: "set_layer mat i w = Inr w'"
  obtain w1 where r: "refresh_layers w1 = Inr w'" and e: "layer_edit w w1"
    using set_layer_Inr [OF ok] by blast
  show "region_size w' = region_size w" using update_layers_region_data(6) [OF r] e by simp
next
  assume "set_layers ls w = Inr w'"
  then show "region_size w' = region_size w"
    using update_layers_region_data(6) by (fastforce simp: set_layers_def)
next
  assume ok: "layer_set_albedo_texture k t w = Inr w'"
  let ?w1 = "put_lobj k ((lobj w k)\<lparr>lo_albedo_texture := t\<rparr>) w"
  have "update_textures ?w1 = Inr w' \<or> w' = ?w1"
    using ok by (auto simp: layer_set_albedo_texture_def Let_def split: if_splits)
  then show "region_size w' = region_size w"
    using update_textures_frame(9) [of ?w1 w'] by (auto simp: put_lobj_def)
qed

end
