(* ===== verification/Coherence.thy ===== *)
theory Coherence
  imports Regions Layers
begin

text \<open>
  Coherence of the derived resources with their sources (spec, section 4.3): a cache
  entry that is not dirty and holds a handle holds the resource built from the current
  source list, the height and control texture arrays from \<open>height_maps\<close> and
  \<open>control_maps\<close>, the region map texture from the encoding of \<open>region_offsets\<close>.
  The update pass establishes it for every cache it rebuilds and keeps it for the others,
  every editing handler keeps it (the layer handlers included, which touch only the
  texture-array caches), and \<open>set_region_offsets\<close> (line 150) breaks it. The theory
  also holds the engine's restore order and what it leaves of the region map.
\<close>

section \<open>The coherence predicate\<close>

definition gen_reflects :: "server \<Rightarrow> generated \<Rightarrow> rs_object \<Rightarrow> bool" where
  "gen_reflects s g obj \<longleftrightarrow>
     (\<not> g_dirty g \<and> rid_valid (g_rid g) \<longrightarrow> rs_objects s (g_rid g) = Some obj)"

definition cache_coherent :: "world \<Rightarrow> bool" where
  "cache_coherent w \<longleftrightarrow>
     gen_reflects (rs w) (generated_height_maps w) (RS_TextureLayered (height_maps w)) \<and>
     gen_reflects (rs w) (generated_control_maps w) (RS_TextureLayered (control_maps w)) \<and>
     gen_reflects (rs w) (generated_region_map w)
       (RS_Texture2D (region_map_image (region_offsets w)))"

text \<open>
  The engine restores a saved storage by constructing it and calling the property
  setters in the order \<open>_bind_methods\<close> declares them (lines 561--566): region size,
  maximum height, height maps, control maps, region offsets. A rejected region size is
  reported and skipped.
\<close>

definition load_storage :: "int \<Rightarrow> int \<Rightarrow> image list \<Rightarrow> image list \<Rightarrow> vec2i list \<Rightarrow> world" where
  "load_storage z h hs cs offs =
     (let w0 = fresh_storage;
          w1 = (case set_region_size z w0 of Inl _ \<Rightarrow> w0 | Inr w \<Rightarrow> w);
          w2 = set_max_height h w1
      in set_region_offsets offs (set_control_maps cs (set_height_maps hs w2)))"

section \<open>One cache entry\<close>

lemma gen_reflects_grows: "rs_grows s s' \<Longrightarrow> gen_reflects s g obj \<Longrightarrow> gen_reflects s' g obj"
  by (auto simp: gen_reflects_def rs_grows_def)

lemma gen_reflects_trivial [simp]:
  "g_dirty g \<Longrightarrow> gen_reflects s g obj"
  "gen_reflects s gen_init obj"
  by (simp_all add: gen_reflects_def gen_init_def)

lemma gen_reflects_clear [simp]: "gen_reflects s (fst (gen_clear g s')) obj"
  by simp

lemma gen_reflects_create_layers [simp]:
  "gen_reflects (snd (gen_create_layers imgs g s)) (fst (gen_create_layers imgs g s))
     (RS_TextureLayered imgs)"
  by (auto simp: gen_reflects_def gen_create_layers_def texture_2d_layered_create_def
           rs_alloc_def Let_def split_def)

lemma gen_reflects_create_image [simp]:
  "gen_reflects (snd (gen_create_image img g s)) (fst (gen_create_image img g s)) (RS_Texture2D img)"
  by (simp add: gen_reflects_def gen_create_image_eq rs_alloc_def)

text \<open>Releasing one entry's handle leaves every other entry's resource in place.\<close>

lemma gen_reflects_clear_other:
  assumes inv: "res_inv w" and ne: "sl' \<noteq> sl"
    and refl: "gen_reflects (rs w) (get_gen sl' w) obj"
  shows "gen_reflects (rs (clear_gen sl w)) (get_gen sl' (clear_gen sl w)) obj"
proof -
  have own: "own_ok (holder w) (dom (rs_objects (rs w))) (rs_next (rs w))"
    using inv by (simp add: res_inv_def)
  have "rid_valid (g_rid (get_gen sl' w)) \<Longrightarrow> g_rid (get_gen sl' w) \<noteq> g_rid (get_gen sl w)"
    using own_ok_unique [OF own, of "Own_Gen sl'" "Own_Gen sl"] ne by auto
  then show ?thesis
    using refl ne by (auto simp: gen_reflects_def)
qed

lemma gen_reflects_create_layers_other:
  assumes inv: "res_inv w" and dirty: "g_dirty (get_gen sl w)" and ne: "sl' \<noteq> sl"
    and refl: "gen_reflects (rs w) (get_gen sl' w) obj"
  shows "gen_reflects (rs (create_gen_layers sl imgs w)) (get_gen sl' (create_gen_layers sl imgs w)) obj"
  using gen_reflects_grows [OF rs_grows_create_gen_layers [OF inv dirty] refl] ne by simp

lemma gen_reflects_create_image_other:
  assumes inv: "res_inv w" and ne: "sl' \<noteq> sl"
    and refl: "gen_reflects (rs w) (get_gen sl' w) obj"
  shows "gen_reflects (rs (create_gen_image sl img w)) (get_gen sl' (create_gen_image sl img w)) obj"
  using gen_reflects_grows [OF rs_grows_create_gen_image [OF inv] refl] ne by simp

section \<open>The update pass\<close>

lemma cache_coherent_update_regions:
  assumes inv: "res_inv w" and coh: "cache_coherent w"
  shows "cache_coherent (update_regions w)"
proof -
  define H where "H = RS_TextureLayered (height_maps w)"
  define C where "C = RS_TextureLayered (control_maps w)"
  define R where "R = RS_Texture2D (region_map_image (region_offsets w))"
  define w1 where "w1 = (if g_dirty (generated_height_maps w)
                         then create_gen_layers Slot_Height (height_maps w) w else w)"
  define w2 where "w2 = (if g_dirty (generated_control_maps w1)
                         then create_gen_layers Slot_Control (control_maps w1) w1 else w1)"
  define w3 where "w3 = (if g_dirty (generated_region_map w2)
                         then create_gen_image Slot_Region_Map (region_map_image (region_offsets w2)) w2
                         else w2)"
  have inv1: "res_inv w1"
    using inv res_inv_create_gen_layers [of w Slot_Height] by (simp add: w1_def)
  have inv2: "res_inv w2"
    using inv1 res_inv_create_gen_layers [of w1 Slot_Control] by (simp add: w2_def)
  have h1: "gen_reflects (rs w1) (generated_height_maps w1) H"
    using coh by (simp add: w1_def H_def cache_coherent_def)
  have c1: "gen_reflects (rs w1) (generated_control_maps w1) C"
    using coh gen_reflects_create_layers_other [OF inv, of Slot_Height Slot_Control]
    by (simp add: w1_def C_def cache_coherent_def)
  have r1: "gen_reflects (rs w1) (generated_region_map w1) R"
    using coh gen_reflects_create_layers_other [OF inv, of Slot_Height Slot_Region_Map]
    by (simp add: w1_def R_def cache_coherent_def)
  have h2: "gen_reflects (rs w2) (generated_height_maps w2) H"
    using h1 gen_reflects_create_layers_other [OF inv1, of Slot_Control Slot_Height]
    by (simp add: w2_def)
  have c2: "gen_reflects (rs w2) (generated_control_maps w2) C"
    using c1 by (simp add: w2_def w1_def C_def)
  have r2: "gen_reflects (rs w2) (generated_region_map w2) R"
    using r1 gen_reflects_create_layers_other [OF inv1, of Slot_Control Slot_Region_Map]
    by (simp add: w2_def)
  have h3: "gen_reflects (rs w3) (generated_height_maps w3) H"
    using h2 gen_reflects_create_image_other [OF inv2, of Slot_Height Slot_Region_Map]
    by (simp add: w3_def)
  have c3: "gen_reflects (rs w3) (generated_control_maps w3) C"
    using c2 gen_reflects_create_image_other [OF inv2, of Slot_Control Slot_Region_Map]
    by (simp add: w3_def)
  have r3: "gen_reflects (rs w3) (generated_region_map w3) R"
    using r2 by (simp add: w3_def w2_def w1_def R_def)
  have eq: "update_regions w = push_region_params w3"
    by (simp only: update_regions_def Let_def w1_def w2_def w3_def)
  have src: "height_maps w3 = height_maps w" "control_maps w3 = control_maps w"
    "region_offsets w3 = region_offsets w"
    by (simp_all add: w3_def w2_def w1_def)
  have rs3: "rs_objects (rs (push_region_params w3)) = rs_objects (rs w3)"
    by (simp add: push_region_params_def set_param_def material_set_param_def)
  show ?thesis
    using h3 c3 r3 src rs3
    by (simp add: eq cache_coherent_def gen_reflects_def H_def C_def R_def)
qed

section \<open>The handlers\<close>

text \<open>A change that only grows the backend and keeps the caches and sources keeps coherence.\<close>

lemma cache_coherent_grows:
  assumes "cache_coherent w" and "rs_grows (rs w) (rs w')"
    and "generated_height_maps w' = generated_height_maps w"
    and "generated_control_maps w' = generated_control_maps w"
    and "generated_region_map w' = generated_region_map w"
    and "height_maps w' = height_maps w" "control_maps w' = control_maps w"
    and "region_offsets w' = region_offsets w"
  shows "cache_coherent w'"
  using assms gen_reflects_grows [OF assms(2)] by (simp add: cache_coherent_def)

lemma gen_reflects_clear_gen:
  assumes inv: "res_inv w" and refl: "sl' \<noteq> sl \<Longrightarrow> gen_reflects (rs w) (get_gen sl' w) obj"
  shows "gen_reflects (rs (clear_gen sl w)) (get_gen sl' (clear_gen sl w)) obj"
proof (cases "sl' = sl")
  case False
  then show ?thesis using gen_reflects_clear_other [OF inv False refl] by simp
qed simp

lemma cache_coherent_clear_gen:
  assumes inv: "res_inv w" and coh: "cache_coherent w"
  shows "cache_coherent (clear_gen sl w)"
  using gen_reflects_clear_gen [OF inv, of Slot_Height sl] gen_reflects_clear_gen [OF inv, of Slot_Control sl]
    gen_reflects_clear_gen [OF inv, of Slot_Region_Map sl] coh
  by (cases sl) (simp_all add: cache_coherent_def)

lemma cache_coherent_invalidate [simp]: "cache_coherent (invalidate_region_caches w)"
  by (simp add: cache_coherent_def invalidate_region_caches_def)

lemma cache_coherent_rebuild:
  "res_inv w \<Longrightarrow> cache_coherent (update_regions (invalidate_region_caches w))"
  by (simp add: cache_coherent_update_regions res_inv_invalidate_region_caches)

lemma cache_coherent_add_region:
  assumes "res_inv w" and "add_region p w = Inr w'"
  shows "cache_coherent w'"
  using assms cache_coherent_rebuild by (auto simp: add_region_def Let_def split: if_splits)

lemma cache_coherent_remove_region:
  assumes "res_inv w" and "cache_coherent w" and "remove_region p w = Inr w'"
  shows "cache_coherent w'"
  using assms cache_coherent_rebuild by (auto simp: remove_region_def Let_def split: if_splits)

lemma cache_coherent_force_update_maps:
  assumes inv: "res_inv w" and coh: "cache_coherent w"
  shows "cache_coherent (force_update_maps t w)"
proof (cases t)
  case TYPE_MAX
  have "res_inv (clear_gen Slot_Height w)" and "cache_coherent (clear_gen Slot_Height w)"
    using inv coh by (simp_all add: res_inv_clear_gen cache_coherent_clear_gen)
  then show ?thesis using TYPE_MAX
    by (simp add: force_update_maps_def cache_coherent_update_regions cache_coherent_clear_gen
                  res_inv_clear_gen)
qed (use inv coh in \<open>simp_all add: force_update_maps_def cache_coherent_update_regions
                          cache_coherent_clear_gen res_inv_clear_gen\<close>)

lemma cache_coherent_set_maps:
  assumes inv: "res_inv w" and coh: "cache_coherent w"
  shows "cache_coherent (set_height_maps m w)" and "cache_coherent (set_control_maps m w)"
proof -
  let ?h = "w\<lparr>height_maps := m\<rparr>" and ?c = "w\<lparr>control_maps := m\<rparr>"
  have ih: "res_inv ?h" and ic: "res_inv ?c" using inv by simp_all
  have "cache_coherent (clear_gen Slot_Height ?h)"
    using gen_reflects_clear_gen [OF ih, of Slot_Control Slot_Height]
      gen_reflects_clear_gen [OF ih, of Slot_Region_Map Slot_Height] coh
    by (simp add: cache_coherent_def)
  then show "cache_coherent (set_height_maps m w)"
    using ih by (simp add: set_height_maps_def force_update_maps_def cache_coherent_update_regions
                          res_inv_clear_gen)
  have "cache_coherent (clear_gen Slot_Control ?c)"
    using gen_reflects_clear_gen [OF ic, of Slot_Height Slot_Control]
      gen_reflects_clear_gen [OF ic, of Slot_Region_Map Slot_Control] coh
    by (simp add: cache_coherent_def)
  then show "cache_coherent (set_control_maps m w)"
    using ic by (simp add: set_control_maps_def force_update_maps_def cache_coherent_update_regions
                          res_inv_clear_gen)
qed

lemma cache_coherent_storage_new [simp]: "cache_coherent (storage_new s lo)"
  by (simp add: cache_coherent_def)

lemma cache_coherent_update_material:
  "res_inv w \<Longrightarrow> cache_coherent w \<Longrightarrow> cache_coherent (update_material w)"
  using cache_coherent_grows [of w "update_material w"] rs_grows_update_material by simp

lemma cache_coherent_set_param [simp]: "cache_coherent (set_param n v w) = cache_coherent w"
  by (simp add: cache_coherent_def gen_reflects_def set_param_def material_set_param_def)

lemma cache_coherent_scalar_updates [simp]:
  "cache_coherent (w\<lparr>region_size := z\<rparr>) = cache_coherent w"
  "cache_coherent (w\<lparr>max_height := h\<rparr>) = cache_coherent w"
  "cache_coherent (w\<lparr>shader_override := sh\<rparr>) = cache_coherent w"
  "cache_coherent (w\<lparr>noise_texture := t\<rparr>) = cache_coherent w"
  "cache_coherent (w\<lparr>noise_scale := v\<rparr>) = cache_coherent w"
  "cache_coherent (w\<lparr>noise_height := v\<rparr>) = cache_coherent w"
  "cache_coherent (w\<lparr>noise_fade := v\<rparr>) = cache_coherent w"
  by (simp_all add: cache_coherent_def)

lemma cache_coherent_set_region_size:
  "cache_coherent w \<Longrightarrow> set_region_size z w = Inr w' \<Longrightarrow> cache_coherent w'"
  by (auto simp: set_region_size_def split: if_splits)

lemma cache_coherent_scalar_setters:
  assumes inv: "res_inv w" and coh: "cache_coherent w"
  shows "cache_coherent (set_max_height h w)"
    and "cache_coherent (set_shader_override sh w)"
    and "cache_coherent (set_noise_texture t w)"
    and "cache_coherent (set_noise_scale v w)"
    and "cache_coherent (set_noise_height v w)"
    and "cache_coherent (set_noise_fade v w)"
proof -
  show "cache_coherent (set_max_height h w)"
    using coh by (simp add: set_max_height_def)
  show "cache_coherent (set_shader_override sh w)"
    using coh by (simp add: set_shader_override_def)
  show "cache_coherent (set_noise_scale v w)"
    using coh by (simp add: set_noise_scale_def)
  show "cache_coherent (set_noise_height v w)"
    using coh by (simp add: set_noise_height_def)
  show "cache_coherent (set_noise_fade v w)"
    using coh by (simp add: set_noise_fade_def)
  let ?w = "set_param ''noise'' (P_Rid (case t of None \<Rightarrow> 0 | Some r \<Rightarrow> r)) (w\<lparr>noise_texture := t\<rparr>)"
  have "res_inv (w\<lparr>noise_texture := t\<rparr>) = res_inv w"
    by (rule res_inv_cong) (simp_all, case_tac sl, simp_all)
  then have i: "res_inv ?w" using inv by simp
  have c: "cache_coherent ?w" using coh by simp
  show "cache_coherent (set_noise_texture t w)"
    using cache_coherent_update_material [OF i c] by (simp add: set_noise_texture_def)
qed

section \<open>The region map after edits and after a load\<close>

lemma update_regions_region_map_built:
  assumes inv: "res_inv w" and dirty: "g_dirty (generated_region_map w)"
  shows "\<not> g_dirty (generated_region_map (update_regions w)) \<and>
         rid_valid (g_rid (generated_region_map (update_regions w)))"
proof -
  define w1 where "w1 = (if g_dirty (generated_height_maps w)
                         then create_gen_layers Slot_Height (height_maps w) w else w)"
  define w2 where "w2 = (if g_dirty (generated_control_maps w1)
                         then create_gen_layers Slot_Control (control_maps w1) w1 else w1)"
  have inv2: "res_inv w2"
    using inv res_inv_create_gen_layers [of w Slot_Height]
      res_inv_create_gen_layers [of w1 Slot_Control]
    by (simp add: w1_def w2_def split: if_splits)
  have d2: "g_dirty (generated_region_map w2)" using dirty by (simp add: w1_def w2_def)
  have "generated_region_map (update_regions w) =
          fst (gen_create_image (region_map_image (region_offsets w2)) (generated_region_map w2) (rs w2))"
    using d2 by (simp only: update_regions_def Let_def w1_def [symmetric] w2_def [symmetric])
       (simp add: Let_def)
  then show ?thesis using inv2 by (simp add: gen_create_image_eq res_inv_def)
qed

lemma add_region_region_map_built:
  assumes "res_inv w" and "add_region p w = Inr w'"
  shows "\<not> g_dirty (generated_region_map w') \<and> rid_valid (g_rid (generated_region_map w'))"
proof -
  obtain w1 where eq: "w' = update_regions (invalidate_region_caches w1)" and "res_inv w1"
    using assms by (auto simp: add_region_def Let_def split: if_splits)
  then have "res_inv (invalidate_region_caches w1)" by (simp add: res_inv_invalidate_region_caches)
  moreover have "g_dirty (generated_region_map (invalidate_region_caches w1))"
    by (simp add: invalidate_region_caches_def)
  ultimately show ?thesis using eq update_regions_region_map_built by blast
qed

lemma region_map_image_differs: "region_map_image [(1, 1)] \<noteq> region_map_image [(0, 0)]"
proof
  assume eq: "region_map_image [(1, 1)] = region_map_image [(0, 0)]"
  have "in_region_map (0, 0)" by (simp add: in_region_map_def region_map_size_def region_cell_def)
  then have "img_pixels (region_map_image [(1, 1)]) (region_cell (0, 0)) = Color 0 0 0 1"
    and "img_pixels (region_map_image [(0, 0)]) (region_cell (0, 0)) = Color (1 / 255) 1 0 1"
    using region_map_image_pixel [of "[(1, 1)]" "(0, 0)"] region_map_image_pixel [of "[(0, 0)]" "(0, 0)"]
    by simp_all
  with eq show False by (simp add: Color_def)
qed

text \<open>
  C18. \<open>set_region_offsets\<close> replaces the offset list without invalidating the region
  map: a clean region map built from the old offsets stays in place, so the shader reads
  a map that no longer matches the offsets (spec, section 5: region-map regeneration
  always observes the post-mutation offset list).
\<close>

theorem set_region_offsets_stale:
  assumes "\<not> g_dirty (generated_region_map w)" and "rid_valid (g_rid (generated_region_map w))"
    and "cache_coherent w"
    and "region_map_image offs \<noteq> region_map_image (region_offsets w)"
  shows "\<not> cache_coherent (set_region_offsets offs w)"
  using assms by (auto simp: cache_coherent_def gen_reflects_def set_region_offsets_def)

theorem set_region_offsets_stale_witness:
  "\<exists>w. add_region (0, 0, 0) fresh_storage = Inr w \<and>
     \<not> g_dirty (generated_region_map w) \<and> rid_valid (g_rid (generated_region_map w)) \<and>
     cache_coherent w \<and> region_map_image [(1, 1)] \<noteq> region_map_image (region_offsets w) \<and>
     \<not> cache_coherent (set_region_offsets [(1, 1)] w)"
proof -
  have i: "res_inv fresh_storage" by (rule res_inv_storage_new)
  have "\<not> has_region fresh_storage (0, 0, 0)" by (simp add: has_region_iff)
  then obtain w where w: "add_region (0, 0, 0) fresh_storage = Inr w"
    using add_region_fresh by blast
  note b = add_region_region_map_built [OF i w]
  have c: "cache_coherent w" by (rule cache_coherent_add_region [OF i w])
  have "region_offsets w = [(0, 0)]"
    by (simp add: add_region_Inr(1) [OF w] get_offset_from_def)
  then have d: "region_map_image [(1, 1)] \<noteq> region_map_image (region_offsets w)"
    using region_map_image_differs by simp
  show ?thesis using w b c d set_region_offsets_stale [of w "[(1, 1)]"] by blast
qed

lemma force_update_maps_region_map:
  "\<not> g_dirty (generated_region_map w) \<Longrightarrow>
     generated_region_map (force_update_maps t w) = generated_region_map w"
  by (cases t) (simp_all add: force_update_maps_def update_regions_gens(3))

text \<open>
  C19. Restoring a saved storage never builds the region map: the constructor leaves the
  entry at its initialiser (no handle, not dirty), none of the restored setters marks it
  dirty, and so neither the restore nor any later forced update builds it (spec,
  section 6: generated handles must be rebuilt after load). The shader sees no region
  map until a region is added or removed.
\<close>

theorem load_never_builds_region_map:
  "generated_region_map (load_storage z h hs cs offs) = gen_init \<and>
   generated_region_map (force_update_maps t (load_storage z h hs cs offs)) = gen_init"
proof -
  have z: "generated_region_map (case set_region_size z fresh_storage of
             Inl _ \<Rightarrow> fresh_storage | Inr w \<Rightarrow> w) = gen_init"
    by (simp add: set_region_size_def)
  have "\<not> g_dirty gen_init" by (simp add: gen_init_def)
  then have l: "generated_region_map (load_storage z h hs cs offs) = gen_init"
    using z by (simp add: load_storage_def Let_def set_height_maps_def set_control_maps_def
                          set_region_offsets_def set_max_height_def force_update_maps_region_map)
  moreover have "\<not> g_dirty (generated_region_map (load_storage z h hs cs offs))"
    using l by (simp add: gen_init_def)
  ultimately show ?thesis by (simp add: force_update_maps_region_map)
qed

section \<open>Recovering coherence\<close>

text \<open>
  C37. Coherence can always be recovered: from any state whose handles the storage owns
  exclusively (every reachable state, even one whose region map went stale through
  \<open>set_region_offsets\<close>), adding a region at a free position succeeds and leads to a
  coherent state whose region map is built and encodes the current offsets.
\<close>

theorem add_region_recovers_coherence:
  assumes inv: "res_inv w" and free: "\<not> has_region w p"
  shows "\<exists>w'. add_region p w = Inr w' \<and> cache_coherent w' \<and>
           \<not> g_dirty (generated_region_map w') \<and> rid_valid (g_rid (generated_region_map w')) \<and>
           rs_objects (rs w') (g_rid (generated_region_map w')) =
             Some (RS_Texture2D (region_map_image (region_offsets w')))"
proof -
  obtain w' where ok: "add_region p w = Inr w'" using add_region_fresh [OF free] by blast
  have coh: "cache_coherent w'" by (rule cache_coherent_add_region [OF inv ok])
  have built: "\<not> g_dirty (generated_region_map w') \<and> rid_valid (g_rid (generated_region_map w'))"
    by (rule add_region_region_map_built [OF inv ok])
  then have "rs_objects (rs w') (g_rid (generated_region_map w')) =
               Some (RS_Texture2D (region_map_image (region_offsets w')))"
    using coh by (simp add: cache_coherent_def gen_reflects_def)
  with ok coh built show ?thesis by blast
qed

theorem add_region_recovers_coherence_witness:
  "res_inv (set_region_offsets [(1, 1)] fresh_storage) \<and>
   \<not> has_region (set_region_offsets [(1, 1)] fresh_storage) (0, 0, 0) \<and>
   (\<exists>w'. add_region (0, 0, 0) (set_region_offsets [(1, 1)] fresh_storage) = Inr w' \<and>
         cache_coherent w')"
proof -
  have inv: "res_inv (set_region_offsets [(1, 1)] fresh_storage)"
    by (simp add: set_region_offsets_def res_inv_storage_new)
  have free: "\<not> has_region (set_region_offsets [(1, 1)] fresh_storage) (0, 0, 0)"
    by (simp add: set_region_offsets_def has_region_iff get_offset_from_def)
  show ?thesis using inv free add_region_recovers_coherence [OF inv free] by blast
qed

section \<open>The layer registry\<close>

text \<open>
  The registry's handlers touch only the albedo and normal caches, whose rebuild only
  allocates, so the map caches keep their coherence.
\<close>

lemma cache_coherent_lobj_layers [simp]:
  "cache_coherent (w\<lparr>lobj := h\<rparr>) = cache_coherent w"
  "cache_coherent (w\<lparr>layers := ls\<rparr>) = cache_coherent w"
  "cache_coherent (put_lobj k l w) = cache_coherent w"
  by (simp_all add: cache_coherent_def put_lobj_def)

lemma cache_coherent_layer_edit:
  assumes "layer_edit w w1"
  shows "cache_coherent w1 = cache_coherent w"
proof -
  have g: "\<forall>sl. get_gen sl w1 = get_gen sl w" using assms by blast
  have "generated_height_maps w1 = generated_height_maps w"
    "generated_control_maps w1 = generated_control_maps w"
    "generated_region_map w1 = generated_region_map w"
    using g [rule_format, of Slot_Height] g [rule_format, of Slot_Control]
      g [rule_format, of Slot_Region_Map] by simp_all
  moreover have "rs w1 = rs w" "height_maps w1 = height_maps w" "control_maps w1 = control_maps w"
    "region_offsets w1 = region_offsets w" using assms by simp_all
  ultimately show ?thesis by (simp add: cache_coherent_def)
qed

lemma cache_coherent_update_texture_slot:
  assumes inv: "res_inv w" and coh: "cache_coherent w" and sl: "sl \<in> {Slot_Albedo, Slot_Normal}"
    and ok: "update_texture_slot sl tex w = Inr w'"
  shows "cache_coherent w'"
proof -
  have g: "rs_grows (rs w) (rs w')"
  proof (cases "g_dirty (get_gen sl w)")
    case True
    obtain ks where w': "w' = create_gen_layer_opts sl (map (\<lambda>k. tex (lobj w k)) ks) w"
      using ok True by (auto simp: update_texture_slot_def split: option.splits)
    show ?thesis
      using rs_grows_create_gen_layers [OF inv True]
      by (simp add: w' create_gen_layer_opts_eq split: option.splits)
  next
    case False
    with ok show ?thesis by (simp add: update_texture_slot_def)
  qed
  note f = update_texture_slot_frame [OF ok]
  show ?thesis
    by (rule cache_coherent_grows [OF coh g])
       (use sl f(4-6) f(10) [of Slot_Height] f(10) [of Slot_Control] f(10) [of Slot_Region_Map]
        in auto)
qed

lemma cache_coherent_update_textures:
  assumes inv: "res_inv w" and coh: "cache_coherent w" and ok: "update_textures w = Inr w'"
  shows "cache_coherent w'"
proof -
  obtain w1 where a: "update_texture_slot Slot_Albedo lo_albedo_texture w = Inr w1"
    and n: "update_texture_slot Slot_Normal lo_normal_texture w1 = Inr w'"
    using ok by (auto simp: update_textures_def sbind_Inr_iff)
  have "res_inv w1" and "cache_coherent w1"
    using res_inv_update_texture_slot [OF inv a] cache_coherent_update_texture_slot [OF inv coh _ a]
    by simp_all
  then show ?thesis using cache_coherent_update_texture_slot [OF _ _ _ n] by simp
qed

lemma cache_coherent_refresh_layers:
  assumes inv: "res_inv w" and coh: "cache_coherent w" and ok: "refresh_layers w = Inr w'"
  shows "cache_coherent w'"
proof -
  let ?c = "clear_gen Slot_Normal (clear_gen Slot_Albedo w)"
  have i: "res_inv ?c" and c: "cache_coherent ?c"
    using inv coh by (simp_all add: res_inv_clear_gen cache_coherent_clear_gen)
  obtain w1 where cl: "connect_layers (layers ?c) ?c = Inr w1" and t: "update_textures w1 = Inr w'"
    using ok by (rule update_layers_Inr)
  have e: "w1 = ?c\<lparr>lobj := lobj w1\<rparr>" by (rule connect_layers_frame [OF cl])
  have "res_inv w1" and "cache_coherent w1" using i c by (subst e, simp)+
  then show ?thesis using t by (rule cache_coherent_update_textures)
qed

lemma cache_coherent_layer_handlers:
  assumes inv: "res_inv w" and coh: "cache_coherent w"
  shows "set_layer mat i w = Inr w' \<Longrightarrow> cache_coherent w'"
    and "set_layers ls w = Inr w' \<Longrightarrow> cache_coherent w'"
    and "layer_set_albedo_texture k t w = Inr w' \<Longrightarrow> cache_coherent w'"
proof -
  assume ok: "set_layer mat i w = Inr w'"
  obtain w1 where r: "refresh_layers w1 = Inr w'" and e: "layer_edit w w1"
    using set_layer_Inr [OF ok] by blast
  have "res_inv w1" using e inv by (subst res_inv_cong [of w1 w]) simp_all
  moreover have "cache_coherent w1" using cache_coherent_layer_edit [OF e] coh by simp
  ultimately show "cache_coherent w'" using r by (rule cache_coherent_refresh_layers)
next
  assume "set_layers ls w = Inr w'"
  then show "cache_coherent w'"
    using cache_coherent_refresh_layers [of "w\<lparr>layers := ls\<rparr>" w'] inv coh by (simp add: set_layers_def)
next
  assume ok: "layer_set_albedo_texture k t w = Inr w'"
  let ?w1 = "put_lobj k ((lobj w k)\<lparr>lo_albedo_texture := t\<rparr>) w"
  have "res_inv ?w1" "cache_coherent ?w1" using inv coh by simp_all
  then show "cache_coherent w'"
    using ok cache_coherent_update_textures [of ?w1 w']
    by (auto simp: layer_set_albedo_texture_def Let_def split: if_splits)
qed

lemma regions_wf_refresh_layers:
  "refresh_layers w = Inr w' \<Longrightarrow> regions_wf w' = regions_wf w"
  using update_layers_region_data(1-3) by (simp add: regions_wf_def)

lemma regions_wf_layer_handlers:
  assumes "regions_wf w"
  shows "set_layer mat i w = Inr w' \<Longrightarrow> regions_wf w'"
    and "set_layers ls w = Inr w' \<Longrightarrow> regions_wf w'"
    and "layer_set_albedo_texture k t w = Inr w' \<Longrightarrow> regions_wf w'"
proof -
  assume ok: "set_layer mat i w = Inr w'"
  obtain w1 where r: "refresh_layers w1 = Inr w'" and e: "layer_edit w w1"
    using set_layer_Inr [OF ok] by blast
  show "regions_wf w'" using assms e regions_wf_refresh_layers [OF r] by (simp add: regions_wf_def)
next
  assume "set_layers ls w = Inr w'"
  then show "regions_wf w'"
    using assms regions_wf_refresh_layers [of "w\<lparr>layers := ls\<rparr>" w']
    by (simp add: set_layers_def regions_wf_def)
next
  assume ok: "layer_set_albedo_texture k t w = Inr w'"
  let ?w1 = "put_lobj k ((lobj w k)\<lparr>lo_albedo_texture := t\<rparr>) w"
  have "update_textures ?w1 = Inr w' \<or> w' = ?w1"
    using ok by (auto simp: layer_set_albedo_texture_def Let_def split: if_splits)
  then show "regions_wf w'"
    using assms update_textures_frame(4-6) [of ?w1 w']
    by (auto simp: regions_wf_def put_lobj_def)
qed

end
