(* ===== verification/Region_Table.thy ===== *)
theory Region_Table
  imports Regions
begin

text \<open>
  The region store against its abstract specification. Spec section 3 describes the
  store as a set of regions keyed by offset, each with a height map and a control map;
  the code keeps three parallel arrays (\<open>region_offsets\<close>, \<open>height_maps\<close>,
  \<open>control_maps\<close>). The abstraction \<^term>\<open>region_table\<close> reads the arrays as a finite map
  from offset to the pair of maps; \<^term>\<open>table_add\<close> and \<^term>\<open>table_remove\<close> are the
  abstract operations (refusing an occupied, resp. an absent, key). The refinement
  lemmas show that \<open>add_region\<close>, \<open>remove_region\<close> and \<open>get_map\<close> implement them on every
  well-formed store, failures included.
\<close>

section \<open>The abstract store\<close>

type_synonym region_table = "vec2i \<rightharpoonup> image \<times> image"

definition region_table :: "'a storage_scheme \<Rightarrow> region_table" where
  "region_table w = map_of (zip (region_offsets w) (zip (height_maps w) (control_maps w)))"

text \<open>The maps of a new region: blank height and control maps of the region size.\<close>

definition blank_maps :: "int \<Rightarrow> image \<times> image" where
  "blank_maps z =
     (image_fill (Color 0 0 0 1) (image_create (nat z) (nat z) FORMAT_RH),
      image_fill (Color 0 0 0 1) (image_create (nat z) (nat z) FORMAT_RGBA8))"

definition table_add :: "vec2i \<Rightarrow> image \<times> image \<Rightarrow> region_table \<Rightarrow> region_table option" where
  "table_add k v m = (if k \<in> dom m then None else Some (m(k \<mapsto> v)))"

definition table_remove :: "vec2i \<Rightarrow> region_table \<Rightarrow> region_table option" where
  "table_remove k m = (if k \<in> dom m then Some (m(k := None)) else None)"

section \<open>The abstraction\<close>

lemma dom_region_table:
  "regions_wf w \<Longrightarrow> dom (region_table w) = set (region_offsets w)"
  by (simp add: region_table_def regions_wf_def dom_map_of_zip)

lemma add_region_lists:
  assumes "add_region p w = Inr w'"
  shows "region_offsets w' = region_offsets w @ [get_offset_from w p]"
    and "height_maps w' = height_maps w @ [fst (blank_maps (region_size w))]"
    and "control_maps w' = control_maps w @ [snd (blank_maps (region_size w))]"
  using assms by (auto simp: add_region_def blank_maps_def Let_def split: if_splits)

lemma region_table_lookup:
  assumes "regions_wf w" and "i < length (region_offsets w)"
  shows "region_table w (region_offsets w ! i) = Some (height_maps w ! i, control_maps w ! i)"
  using assms map_of_zip_nth [of "region_offsets w" "zip (height_maps w) (control_maps w)" i]
  by (simp add: region_table_def regions_wf_def)

section \<open>Refinement\<close>

text \<open>
  C28. \<open>add_region\<close> implements adding to the abstract table: on a well-formed store
  it fails exactly when the offset is taken, and otherwise the new table is the old
  one with the offset mapped to blank maps of the region size.
\<close>

theorem add_region_refines:
  assumes wf: "regions_wf w"
  shows "(case add_region p w of
            Inl _ \<Rightarrow> table_add (get_offset_from w p) (blank_maps (region_size w)) (region_table w) = None
          | Inr w' \<Rightarrow> table_add (get_offset_from w p) (blank_maps (region_size w)) (region_table w) =
                       Some (region_table w'))"
proof (cases "has_region w p")
  case True
  then show ?thesis
    using dom_region_table [OF wf] by (simp add: add_region_duplicate table_add_def has_region_iff)
next
  case False
  then obtain w' where w': "add_region p w = Inr w'" using add_region_fresh by blast
  note l = add_region_lists [OF w']
  have notin: "get_offset_from w p \<notin> set (region_offsets w)" using False by (simp add: has_region_iff)
  have len: "length (height_maps w) = length (region_offsets w)"
    "length (control_maps w) = length (region_offsets w)" using wf by (simp_all add: regions_wf_def)
  let ?b = "blank_maps (region_size w)"
  have z: "zip (height_maps w') (control_maps w') = zip (height_maps w) (control_maps w) @ [?b]"
    using len by (simp add: l(2,3))
  have lz: "length (region_offsets w) = length (zip (height_maps w) (control_maps w))"
    using len by simp
  have "region_table w' = (region_table w)(get_offset_from w p \<mapsto> ?b)"
    unfolding region_table_def z l(1) by (rule map_of_zip_snoc [OF lz notin])
  then show ?thesis
    using w' notin dom_region_table [OF wf] by (simp add: table_add_def)
qed

theorem add_region_refines_witness:
  "regions_wf fresh_storage \<and>
   (case add_region (0, 0, 0) fresh_storage of
      Inl _ \<Rightarrow> table_add (get_offset_from fresh_storage (0, 0, 0))
                 (blank_maps (region_size fresh_storage)) (region_table fresh_storage) = None
    | Inr w' \<Rightarrow> table_add (get_offset_from fresh_storage (0, 0, 0))
                 (blank_maps (region_size fresh_storage)) (region_table fresh_storage) =
               Some (region_table w'))"
proof -
  have wf: "regions_wf fresh_storage" by (rule regions_wf_fresh)
  show ?thesis using wf add_region_refines [OF wf, of "(0, 0, 0)"] by blast
qed

text \<open>
  C29. \<open>remove_region\<close> implements removal from the abstract table whenever the floor
  guard does not apply (more or fewer than one region): it fails exactly when the offset
  is absent, and otherwise the new table is the old one without that offset.
\<close>

theorem remove_region_refines:
  assumes wf: "regions_wf w" and cnt: "get_region_count w \<noteq> 1"
  shows "(case remove_region p w of
            Inl _ \<Rightarrow> table_remove (get_offset_from w p) (region_table w) = None
          | Inr w' \<Rightarrow> table_remove (get_offset_from w p) (region_table w) = Some (region_table w'))"
proof (cases "has_region w p")
  case False
  then have "remove_region p w = Inl Missing_Region"
    using cnt by (simp add: remove_region_def get_region_index_eq has_region_iff)
  with False show ?thesis using dom_region_table [OF wf] by (simp add: table_remove_def has_region_iff)
next
  case True
  let ?k = "get_offset_from w p" and ?offs = "region_offsets w"
  let ?i = "first_index ?offs ?k"
  have k: "?k \<in> set ?offs" using True by (simp add: has_region_iff)
  then have "remove_region p w \<noteq> Inl Missing_Region"
    using cnt by (simp add: remove_region_def get_region_index_eq Let_def)
  then obtain w' where w': "remove_region p w = Inr w'"
    using cnt by (auto simp: remove_region_def Let_def split: if_splits)
  note d = remove_region_drop [OF w' cnt]
  have len: "length (height_maps w) = length ?offs" "length (control_maps w) = length ?offs"
    and dist: "distinct ?offs" using wf by (simp_all add: regions_wf_def)
  have i: "?i < length ?offs" by (rule d(1))
  have "region_table w' = map_of (drop_nth ?i (zip ?offs (zip (height_maps w) (control_maps w))))"
    using i len by (simp add: region_table_def d(2-4) array_remove_at_def zip_drop_nth)
  also have "\<dots> = (region_table w)(?k := None)"
    using i len dist k by (simp add: map_of_drop_nth region_table_def)
  finally show ?thesis
    using w' k dom_region_table [OF wf] by (simp add: table_remove_def)
qed

theorem remove_region_refines_witness:
  "regions_wf fresh_storage \<and> get_region_count fresh_storage \<noteq> 1 \<and>
   remove_region (0, 0, 0) fresh_storage = Inl Missing_Region \<and>
   table_remove (get_offset_from fresh_storage (0, 0, 0)) (region_table fresh_storage) = None"
proof -
  have wf: "regions_wf fresh_storage" by (rule regions_wf_fresh)
  have c: "get_region_count fresh_storage \<noteq> 1" by (simp add: get_region_count_def)
  have r: "remove_region (0, 0, 0) fresh_storage = Inl Missing_Region"
    by (simp add: remove_region_def get_region_count_def get_region_index_eq)
  show ?thesis using wf c r remove_region_refines [OF wf c, of "(0, 0, 0)"] by simp
qed

text \<open>
  C30. \<open>get_map\<close> at the index \<open>get_region_index\<close> returns implements lookup in the
  abstract table: for a region that exists, the height and control maps it returns are
  the ones the table holds for that offset.
\<close>

theorem get_map_refines:
  assumes wf: "regions_wf w" and has: "has_region w p"
  shows "get_map (get_region_index w p) TYPE_HEIGHT w =
           Inr (map_option fst (region_table w (get_offset_from w p))) \<and>
         get_map (get_region_index w p) TYPE_CONTROL w =
           Inr (map_option snd (region_table w (get_offset_from w p)))"
proof -
  let ?k = "get_offset_from w p" and ?offs = "region_offsets w"
  let ?i = "first_index ?offs ?k"
  have k: "?k \<in> set ?offs" using has by (simp add: has_region_iff)
  have i: "?i < length ?offs" using k by simp
  have len: "length (height_maps w) = length ?offs" "length (control_maps w) = length ?offs"
    using wf by (simp_all add: regions_wf_def)
  have t: "region_table w ?k = Some (height_maps w ! ?i, control_maps w ! ?i)"
    using region_table_lookup [OF wf i] k by simp
  show ?thesis
    using k i len t by (simp add: get_map_def get_region_index_eq array_get_def)
qed

theorem get_map_refines_witness:
  "regions_wf (fresh_storage\<lparr>region_offsets := [(0, 0)], height_maps := [image_create 4 4 FORMAT_RH],
                 control_maps := [image_create 4 4 FORMAT_RGBA8]\<rparr>) \<and>
   has_region (fresh_storage\<lparr>region_offsets := [(0, 0)], height_maps := [image_create 4 4 FORMAT_RH],
                 control_maps := [image_create 4 4 FORMAT_RGBA8]\<rparr>) (0, 0, 0) \<and>
   get_map 0 TYPE_HEIGHT (fresh_storage\<lparr>region_offsets := [(0, 0)],
     height_maps := [image_create 4 4 FORMAT_RH], control_maps := [image_create 4 4 FORMAT_RGBA8]\<rparr>) =
     Inr (Some (image_create 4 4 FORMAT_RH))"
proof -
  let ?w = "fresh_storage\<lparr>region_offsets := [(0, 0)], height_maps := [image_create 4 4 FORMAT_RH],
                 control_maps := [image_create 4 4 FORMAT_RGBA8]\<rparr>"
  have wf: "regions_wf ?w" by (simp add: regions_wf_def)
  have h: "has_region ?w (0, 0, 0)" by (simp add: has_region_iff get_offset_from_def)
  have i: "get_region_index ?w (0, 0, 0) = 0" by (simp add: get_region_index_eq get_offset_from_def)
  have o: "get_offset_from ?w (0, 0, 0) = (0, 0)" by (simp add: get_offset_from_def)
  show ?thesis
    using wf h get_map_refines [OF wf h] by (simp add: i o region_table_def)
qed

end
