(* ===== verification/Region_Search.thy ===== *)
theory Region_Search
  imports Regions "HOL-Library.While_Combinator"
begin

text \<open>
  The search loop of \<open>get_region_index\<close> (lines 138--147) as the C++ writes it: an
  index \<open>i\<close> counting up while \<open>i < region_offsets.size()\<close>, a result \<open>index\<close> starting
  at \<open>-1\<close>, and a \<open>break\<close> on the first match. As a \<open>while_option\<close> loop over the
  state \<open>(i, index, stop)\<close> its termination is not structural; it is proved with a
  measure, and the loop is shown to compute the same value as the recursive
  \<^term>\<open>index_from\<close> that the region handlers use.
\<close>

section \<open>The loop\<close>

type_synonym search_state = "nat \<times> int \<times> bool"

definition search_cond :: "vec2i list \<Rightarrow> search_state \<Rightarrow> bool" where
  "search_cond offs = (\<lambda>(i, index, stop). \<not> stop \<and> i < length offs)"

definition search_body :: "vec2i list \<Rightarrow> vec2i \<Rightarrow> search_state \<Rightarrow> search_state" where
  "search_body offs k =
     (\<lambda>(i, index, stop). if offs ! i = k then (i, int i, True) else (Suc i, index, stop))"

definition search_loop :: "vec2i list \<Rightarrow> vec2i \<Rightarrow> int option" where
  "search_loop offs k =
     map_option (\<lambda>(i, index, stop). index)
       (while_option (search_cond offs) (search_body offs k) (0, -1, False))"

section \<open>Invariant and measure\<close>

definition search_inv :: "vec2i list \<Rightarrow> vec2i \<Rightarrow> search_state \<Rightarrow> bool" where
  "search_inv offs k =
     (\<lambda>(i, index, stop). i \<le> length offs \<and> k \<notin> set (take i offs) \<and>
        (if stop then i < length offs \<and> offs ! i = k \<and> index = int i else index = -1))"

definition search_measure :: "vec2i list \<Rightarrow> search_state \<Rightarrow> nat" where
  "search_measure offs = (\<lambda>(i, index, stop). length offs - i + (if stop then 0 else 1))"

lemma first_index_at:
  "i < length xs \<Longrightarrow> xs ! i = k \<Longrightarrow> k \<notin> set (take i xs) \<Longrightarrow> first_index xs k = i"
proof (induction xs arbitrary: i)
  case (Cons x xs)
  then show ?case by (cases i) auto
qed simp

lemma search_step:
  assumes "search_inv offs k s" and "search_cond offs s"
  shows "search_inv offs k (search_body offs k s) \<and>
         search_measure offs (search_body offs k s) < search_measure offs s"
  using assms
  by (auto simp: search_inv_def search_cond_def search_body_def search_measure_def
                 take_Suc_conv_app_nth split: prod.splits)

lemma search_init: "search_inv offs k (0, -1, False)"
  by (simp add: search_inv_def)

lemma search_result:
  assumes "search_inv offs k s" and "\<not> search_cond offs s"
  shows "(case s of (i, index, stop) \<Rightarrow> index) = index_from offs k 0"
  using assms
  by (auto simp: search_inv_def search_cond_def index_from_eq first_index_at
           split: prod.splits if_splits)

section \<open>Termination and agreement with the recursive search\<close>

text \<open>
  C40. The search loop of \<open>get_region_index\<close> terminates on every offset list and every
  key (each iteration either advances \<open>i\<close> towards the array size or breaks), and it
  returns what \<^term>\<open>index_from\<close> returns: the first matching index, or \<open>-1\<close>.
\<close>

theorem search_loop_terminates:
  "search_loop offs k = Some (index_from offs k 0)"
proof -
  obtain t where t: "while_option (search_cond offs) (search_body offs k) (0, -1, False) = Some t"
    using measure_while_option_Some [of "search_inv offs k" "search_cond offs" "search_body offs k"
        "search_measure offs" "(0, -1, False)"] search_step search_init by blast
  have "search_inv offs k t"
    by (rule while_option_rule [OF _ t]) (use search_step search_init in blast)+
  moreover have "\<not> search_cond offs t" by (rule while_option_stop [OF t])
  ultimately have "(case t of (i, index, stop) \<Rightarrow> index) = index_from offs k 0"
    by (rule search_result)
  then show ?thesis by (simp add: search_loop_def t split_def)
qed

end
