(* ===== verification/Shader.thy ===== *)
theory Shader
  imports Godot_Model
begin

text \<open>
  The shader source \<open>_update_material\<close> generates (\<open>terrain_storage.cpp\<close> lines
  392--504): one \<open>code +=\<close> piece per list element, in the source's order, the three
  \<open>if (use_noise)\<close> blocks included only with a noise texture. The server model stores
  the text as \<^term>\<open>Terrain_Shader use_noise\<close>; \<^term>\<open>shader_source_text\<close> is the text
  that value stands for. Reading the uniform declarations off the text gives the
  interface between the storage's parameter pushes and the shader.
\<close>

section \<open>The generated text\<close>

definition nl :: string where
  "nl = [CHR 0x0A]"

definition tab :: string where
  "tab = [CHR 0x09]"

definition shader_pieces :: "bool \<Rightarrow> string list" where
  "shader_pieces use_noise =
     [''shader_type spatial;'' @ nl,
      ''render_mode depth_draw_opaque, diffuse_burley;'' @ nl,
      nl,
      ''uniform float terrain_height = 512.0;'' @ nl,
      ''uniform float region_size = 1024.0;'' @ nl,
      ''uniform float region_pixel_size = 1.0;'' @ nl,
      ''uniform int region_map_size = 16;'' @ nl,
      nl,
      ''uniform sampler2D region_map : filter_linear, repeat_disable, hint_default_black;'' @ nl,
      ''uniform sampler2DArray height_maps : filter_linear_mipmap, repeat_enable;'' @ nl,
      ''uniform sampler2DArray control_maps : filter_linear_mipmap, repeat_enable;'' @ nl,
      nl]
   @ (if use_noise then
        [''uniform sampler2D noise : filter_linear_mipmap_anisotropic, hint_default_black;'' @ nl,
         ''uniform float noise_scale = 1.0;'' @ nl,
         ''uniform float noise_height = 0.5;'' @ nl,
         ''uniform float noise_fade = 5.0;'' @ nl]
      else [])
   @ [''uniform sampler2DArray texture_array_albedo : source_color, filter_linear_mipmap_anisotropic, repeat_enable;'' @ nl,
      ''uniform sampler2DArray texture_array_normal : hint_normal, filter_linear_mipmap_anisotropic, repeat_enable;'' @ nl,
      nl,
      ''uniform vec3 texture_uv_scale_array[256];'' @ nl,
      ''uniform vec3 texture_3d_projection_array[256];'' @ nl,
      ''uniform vec4 texture_color_array[256];'' @ nl,
      ''uniform int texture_array_normal_max;'' @ nl,
      nl,
      ''vec3 unpack_normal(vec4 rgba) {'' @ nl,
      tab @ ''vec3 n = rgba.xzy * 2.0 - vec3(1.0);'' @ nl,
      tab @ ''n.z *= -1.0;'' @ nl,
      tab @ ''return n;'' @ nl,
      ''}'' @ nl @ nl,
      ''vec4 pack_normal(vec3 n, float a) {'' @ nl,
      tab @ ''n.z *= -1.0;'' @ nl,
      tab @ ''return vec4((n.xzy + vec3(1.0)) * 0.5, a);'' @ nl,
      ''}'' @ nl @ nl,
      ''float get_height(vec2 uv) {'' @ nl,
      tab @ ''float index = floor(texelFetch(region_map, ivec2(floor(uv))+(region_map_size/2), 0).r * 255.0);'' @ nl]
   @ (if use_noise then
        [tab @ ''float weight = texture(region_map, (uv/float(region_map_size))+0.5).g;'' @ nl]
      else [])
   @ [tab @ ''float height = 0.0;'' @ nl,
      tab @ ''if (index > 0.0){'' @ nl,
      tab @ tab @ ''height = texture(height_maps, vec3(uv, index - 1.0)).r;'' @ nl,
      tab @ ''}'' @ nl]
   @ (if use_noise then
        [tab @ ''height = mix(height, texture(noise, uv * noise_scale).r * noise_height, pow(1.0-weight, noise_fade) );'' @ nl]
      else [])
   @ [tab @ ''return height * terrain_height;'' @ nl,
      ''}'' @ nl @ nl,
      ''vec3 get_normal(vec2 uv) {'' @ nl,
      tab @ ''float left = get_height(uv + vec2(-region_pixel_size, 0));'' @ nl,
      tab @ ''float right = get_height(uv + vec2(region_pixel_size, 0));'' @ nl,
      tab @ ''float back = get_height(uv + vec2(0, -region_pixel_size));'' @ nl,
      tab @ ''float fore = get_height(uv + vec2(0, region_pixel_size));'' @ nl,
      nl,
      tab @ ''vec3 horizontal = vec3(2.0, right - left, 0.0);'' @ nl,
      tab @ ''vec3 vertical = vec3(0.0, back - fore, 2.0);'' @ nl,
      tab @ ''vec3 normal = normalize(cross(vertical, horizontal));'' @ nl,
      tab @ ''normal.z *= -1.0;'' @ nl,
      tab @ ''return normal;'' @ nl,
      ''}'' @ nl @ nl,
      ''void vertex() {'' @ nl,
      tab @ ''vec3 world_vertex = (MODEL_MATRIX * vec4(VERTEX, 1.0)).xyz;'' @ nl,
      tab @ ''UV2 = (world_vertex.xz / vec2(region_size)) + vec2(0.5);'' @ nl,
      tab @ ''UV = world_vertex.xz * 0.5;'' @ nl,
      tab @ ''VERTEX.y = get_height(UV2);'' @ nl,
      nl,
      tab @ ''NORMAL = vec3(0, 1, 0);'' @ nl,
      tab @ ''TANGENT = cross(NORMAL, vec3(0, 0, 1));'' @ nl,
      tab @ ''BINORMAL = cross(NORMAL, TANGENT);'' @ nl,
      ''}'' @ nl @ nl,
      ''void fragment() {'' @ nl,
      tab @ ''vec3 normal = vec3(0.5, 0.5, 1.0);'' @ nl,
      tab @ ''vec3 color = vec3(0.0);'' @ nl,
      tab @ ''float rough = 1.0;'' @ nl,
      nl,
      tab @ ''NORMAL = mat3(VIEW_MATRIX) * get_normal(UV2);'' @ nl,
      nl,
      tab @ ''vec2 p = UV * 4.0;'' @ nl,
      tab @ ''vec2 ddx = dFdx(p);'' @ nl,
      tab @ ''vec2 ddy = dFdy(p);'' @ nl,
      tab @ ''vec2 w = max(abs(ddx), abs(ddy)) + 0.01;'' @ nl,
      tab @ ''vec2 i = 2.0 * (abs(fract((p - 0.5 * w) / 2.0) - 0.5) - abs(fract((p + 0.5 * w) / 2.0) - 0.5)) / w;'' @ nl,
      tab @ ''color = vec3((0.5 - 0.5 * i.x * i.y) * 0.2 + 0.2);'' @ nl,
      nl,
      tab @ ''ALBEDO = color;'' @ nl,
      tab @ ''ROUGHNESS = rough;'' @ nl,
      tab @ ''NORMAL_MAP = normal;'' @ nl,
      tab @ ''NORMAL_MAP_DEPTH = 1.0;'' @ nl,
      nl,
      ''}'' @ nl @ nl]"

definition shader_code :: "bool \<Rightarrow> string" where
  "shader_code use_noise = concat (shader_pieces use_noise)"

fun shader_source_text :: "shader_source \<Rightarrow> string" where
  "shader_source_text (Terrain_Shader use_noise) = shader_code use_noise"

section \<open>Uniform declarations\<close>

text \<open>
  A piece \<open>uniform <type> <name> ...\<close> declares the uniform \<open>name\<close> (up to a blank,
  a semicolon or an array bound).
\<close>

definition uniform_decl :: "string \<Rightarrow> string option" where
  "uniform_decl p =
     (if take 8 p = ''uniform '' then
      Some (takeWhile (\<lambda>c. c \<noteq> CHR '' '' \<and> c \<noteq> CHR '';'' \<and> c \<noteq> CHR ''['')
              (drop 1 (dropWhile (\<lambda>c. c \<noteq> CHR '' '') (drop 8 p))))
      else None)"

definition shader_uniforms :: "bool \<Rightarrow> string list" where
  "shader_uniforms use_noise = List.map_filter uniform_decl (shader_pieces use_noise)"

lemma shader_uniforms_eq:
  "shader_uniforms use_noise =
     [''terrain_height'', ''region_size'', ''region_pixel_size'', ''region_map_size'',
      ''region_map'', ''height_maps'', ''control_maps''] @
     (if use_noise then [''noise'', ''noise_scale'', ''noise_height'', ''noise_fade''] else []) @
     [''texture_array_albedo'', ''texture_array_normal'', ''texture_uv_scale_array'',
      ''texture_3d_projection_array'', ''texture_color_array'', ''texture_array_normal_max'']"
  by (cases use_noise) (simp_all add: shader_uniforms_def shader_pieces_def uniform_decl_def
                                    map_filter_def nl_def tab_def)

end
