(* ===== verification/Params.thy ===== *)
theory Params
  imports Coherence Shader
begin

text \<open>
  Parameter sync (spec section 4.6): which material parameters each handler sets.
  \<^term>\<open>pushed_params\<close> collects the names the code passes to \<open>material_set_param\<close>
  (lines 64--65, 74, 229, 236, 244, 252 and 372--375); every handler sets parameters
  among them only, so a uniform of the shader outside that set never receives a value.
\<close>

section \<open>The parameter names the code sets\<close>

definition region_pass_params :: "string set" where
  "region_pass_params = {''height_maps'', ''control_maps'', ''region_map'', ''region_map_size''}"

definition pushed_params :: "string set" where
  "pushed_params =
     region_pass_params \<union>
     {''region_size'', ''region_pixel_size'', ''terrain_height'',
      ''noise'', ''noise_scale'', ''noise_height'', ''noise_fade''}"

section \<open>The handlers\<close>

lemma params_kept_mono: "params_kept N s s' \<Longrightarrow> N \<subseteq> M \<Longrightarrow> params_kept M s s'"
  by (auto simp: params_kept_def)

lemma rs_params_update_regions_pre:
  "rs_params (rs (if g_dirty (generated_height_maps w)
                  then create_gen_layers Slot_Height imgs w else w)) = rs_params (rs w)"
  "rs_params (rs (if g_dirty (generated_control_maps w)
                  then create_gen_layers Slot_Control imgs w else w)) = rs_params (rs w)"
  "rs_params (rs (if g_dirty (generated_region_map w)
                  then create_gen_image Slot_Region_Map img w else w)) = rs_params (rs w)"
  by simp_all

lemma params_kept_update_regions:
  "params_kept region_pass_params (rs w) (rs (update_regions w))"
  by (simp add: update_regions_def Let_def rs_params_update_regions_pre push_region_params_def
                set_param_def material_set_param_def params_kept_def region_pass_params_def)

lemma params_kept_clear_gen [simp]: "rs_params (rs (clear_gen sl w)) = rs_params (rs w)"
  by simp

lemma params_kept_invalidate [simp]:
  "rs_params (rs (invalidate_region_caches w)) = rs_params (rs w)"
  by (simp add: invalidate_region_caches_def)

lemma params_kept_rebuild:
  "region_pass_params \<subseteq> N \<Longrightarrow>
     params_kept N (rs w) (rs (update_regions (invalidate_region_caches w)))"
  using params_kept_update_regions [of "invalidate_region_caches w"]
  by (auto simp: params_kept_def)

lemma params_kept_region_handlers:
  "add_region p w = Inr w' \<Longrightarrow> params_kept pushed_params (rs w) (rs w')"
  "remove_region p w = Inr w' \<Longrightarrow> params_kept pushed_params (rs w) (rs w')"
  "params_kept pushed_params (rs w) (rs (force_update_maps t w))"
proof -
  have sub: "region_pass_params \<subseteq> pushed_params" by (auto simp: pushed_params_def)
  show "add_region p w = Inr w' \<Longrightarrow> params_kept pushed_params (rs w) (rs w')"
  proof -
    assume "add_region p w = Inr w'"
    then obtain w1 where "w' = update_regions (invalidate_region_caches w1)" and "rs w1 = rs w"
      by (auto simp: add_region_def Let_def split: if_splits)
    then show ?thesis using params_kept_rebuild [OF sub, of w1] by simp
  qed
  show "remove_region p w = Inr w' \<Longrightarrow> params_kept pushed_params (rs w) (rs w')"
  proof -
    assume ok: "remove_region p w = Inr w'"
    show ?thesis
    proof (cases "get_region_count w = 1")
      case True
      with ok have "w' = w" by (simp add: remove_region_def)
      then show ?thesis by (simp add: params_kept_def)
    next
      case False
      with ok obtain w1 where "w' = update_regions (invalidate_region_caches w1)" and "rs w1 = rs w"
        by (auto simp: remove_region_def Let_def split: if_splits)
      then show ?thesis using params_kept_rebuild [OF sub, of w1] by simp
    qed
  qed
  have "params_kept pushed_params (rs w') (rs (update_regions w'))" for w'
    using params_kept_mono [OF params_kept_update_regions sub] .
  then show "params_kept pushed_params (rs w) (rs (force_update_maps t w))"
    by (cases t) (simp_all add: force_update_maps_def params_kept_def)
qed

lemma params_kept_other_handlers:
  "params_kept pushed_params (rs w) (rs (set_height_maps m w))"
  "params_kept pushed_params (rs w) (rs (set_control_maps m w))"
  "params_kept pushed_params (rs w) (rs (set_region_offsets offs w))"
  "set_region_size z w = Inr w' \<Longrightarrow> params_kept pushed_params (rs w) (rs w')"
  "params_kept pushed_params (rs w) (rs (set_max_height h w))"
  "params_kept pushed_params (rs w) (rs (set_shader_override sh w))"
  "params_kept pushed_params (rs w) (rs (set_noise_texture t w))"
  "params_kept pushed_params (rs w) (rs (set_noise_scale v w))"
  "params_kept pushed_params (rs w) (rs (set_noise_height v w))"
  "params_kept pushed_params (rs w) (rs (set_noise_fade v w))"
proof -
  show "params_kept pushed_params (rs w) (rs (set_height_maps m w))"
    using params_kept_region_handlers(3) [of "w\<lparr>height_maps := m\<rparr>"]
    by (simp add: set_height_maps_def)
  show "params_kept pushed_params (rs w) (rs (set_control_maps m w))"
    using params_kept_region_handlers(3) [of "w\<lparr>control_maps := m\<rparr>"]
    by (simp add: set_control_maps_def)
  show "params_kept pushed_params (rs w) (rs (set_region_offsets offs w))"
    by (simp add: set_region_offsets_def params_kept_def)
  show "set_region_size z w = Inr w' \<Longrightarrow> params_kept pushed_params (rs w) (rs w')"
    by (auto simp: set_region_size_def params_kept_def pushed_params_def set_param_def
                   material_set_param_def split: if_splits)
  show "params_kept pushed_params (rs w) (rs (set_max_height h w))"
    by (auto simp: set_max_height_def params_kept_def pushed_params_def set_param_def
                   material_set_param_def)
  show "params_kept pushed_params (rs w) (rs (set_shader_override sh w))"
    by (simp add: set_shader_override_def params_kept_def)
  let ?w1 = "set_param ''noise'' (P_Rid (case t of None \<Rightarrow> 0 | Some r \<Rightarrow> r)) (w\<lparr>noise_texture := t\<rparr>)"
  have "params_kept {''noise''} (rs w) (rs ?w1)"
    by (auto simp: params_kept_def set_param_def material_set_param_def)
  then have "params_kept pushed_params (rs w) (rs (update_material ?w1))"
    by (rule params_kept_trans [OF _ params_kept_update_material]) (auto simp: pushed_params_def)
  then show "params_kept pushed_params (rs w) (rs (set_noise_texture t w))"
    by (simp add: set_noise_texture_def)
  show "params_kept pushed_params (rs w) (rs (set_noise_scale v w))"
    by (auto simp: set_noise_scale_def params_kept_def pushed_params_def set_param_def
                   material_set_param_def)
  show "params_kept pushed_params (rs w) (rs (set_noise_height v w))"
    by (auto simp: set_noise_height_def params_kept_def pushed_params_def set_param_def
                   material_set_param_def)
  show "params_kept pushed_params (rs w) (rs (set_noise_fade v w))"
    by (auto simp: set_noise_fade_def params_kept_def pushed_params_def set_param_def
                   material_set_param_def)
qed

lemma params_kept_layer_handlers:
  "set_layer mat i w = Inr w' \<Longrightarrow> params_kept N (rs w) (rs w')"
  "set_layers ls w = Inr w' \<Longrightarrow> params_kept N (rs w) (rs w')"
  "layer_set_albedo_texture k t w = Inr w' \<Longrightarrow> params_kept N (rs w) (rs w')"
proof -
  assume ok: "set_layer mat i w = Inr w'"
  obtain w1 where r: "refresh_layers w1 = Inr w'" and e: "layer_edit w w1"
    using set_layer_Inr [OF ok] by blast
  show "params_kept N (rs w) (rs w')"
    using refresh_layers_frame(2) [OF r] e by (simp add: params_kept_def)
next
  assume "set_layers ls w = Inr w'"
  then show "params_kept N (rs w) (rs w')" by (simp add: set_layers_Inr(3) params_kept_same)
next
  assume ok: "layer_set_albedo_texture k t w = Inr w'"
  let ?w1 = "put_lobj k ((lobj w k)\<lparr>lo_albedo_texture := t\<rparr>) w"
  have "update_textures ?w1 = Inr w' \<or> w' = ?w1"
    using ok by (auto simp: layer_set_albedo_texture_def Let_def split: if_splits)
  then show "params_kept N (rs w) (rs w')"
    using update_textures_frame(3) [of ?w1 w'] by (auto simp: put_lobj_def params_kept_def)
qed

end
