(* ===== verification/Persistence.thy ===== *)
theory Persistence
  imports Coherence
begin

text \<open>
  Saving and restoring a storage through the engine's property binding
  (\<open>_bind_methods\<close>, properties declared at lines 561--575). Saving reads every
  persisted property through its getter (lines 68--79, 154--156, 202--240, 288--290
  and the inline noise getters of the header); restoring constructs the object and
  calls the setters in the order the properties are declared. The theory shows that
  restoring a saved storage gives back the saved properties whenever the region size is
  in range and no layer is null, that a null layer aborts the restore, and that a
  restored shader override is not bound to the material.
\<close>

section \<open>The getters\<close>

definition get_region_size :: "'a storage_scheme \<Rightarrow> int" where
  "get_region_size w = region_size w"

definition get_max_height :: "'a storage_scheme \<Rightarrow> int" where
  "get_max_height w = max_height w"

definition get_region_offsets :: "'a storage_scheme \<Rightarrow> vec2i list" where
  "get_region_offsets w = region_offsets w"

definition get_height_maps :: "'a storage_scheme \<Rightarrow> image list" where
  "get_height_maps w = height_maps w"

definition get_control_maps :: "'a storage_scheme \<Rightarrow> image list" where
  "get_control_maps w = control_maps w"

definition get_material :: "'a storage_scheme \<Rightarrow> rid" where
  "get_material w = material w"

definition get_shader_override :: "'a storage_scheme \<Rightarrow> rid option" where
  "get_shader_override w = shader_override w"

definition get_noise_texture :: "'a storage_scheme \<Rightarrow> rid option" where
  "get_noise_texture w = noise_texture w"

definition get_noise_scale :: "'a storage_scheme \<Rightarrow> real" where
  "get_noise_scale w = noise_scale w"

definition get_noise_height :: "'a storage_scheme \<Rightarrow> real" where
  "get_noise_height w = noise_height w"

definition get_noise_fade :: "'a storage_scheme \<Rightarrow> real" where
  "get_noise_fade w = noise_fade w"

definition get_layers :: "'a storage_scheme \<Rightarrow> layer_ref list" where
  "get_layers w = layers w"

section \<open>Saving and restoring\<close>

text \<open>The persisted properties, in the order \<open>ADD_PROPERTY\<close> declares them.\<close>

record saved =
  sv_region_size :: int
  sv_max_height :: int
  sv_height_maps :: "image list"
  sv_control_maps :: "image list"
  sv_region_offsets :: "vec2i list"
  sv_noise_texture :: "rid option"
  sv_noise_scale :: real
  sv_noise_height :: real
  sv_noise_fade :: real
  sv_shader_override :: "rid option"
  sv_layers :: "layer_ref list"

definition save_storage :: "'a storage_scheme \<Rightarrow> saved" where
  "save_storage w =
     \<lparr>sv_region_size = get_region_size w, sv_max_height = get_max_height w,
      sv_height_maps = get_height_maps w, sv_control_maps = get_control_maps w,
      sv_region_offsets = get_region_offsets w, sv_noise_texture = get_noise_texture w,
      sv_noise_scale = get_noise_scale w, sv_noise_height = get_noise_height w,
      sv_noise_fade = get_noise_fade w, sv_shader_override = get_shader_override w,
      sv_layers = get_layers w\<rparr>"

text \<open>
  The restore: the constructor, then the setters in declaration order. A rejected region
  size is reported and skipped; a null layer aborts inside \<open>_update_layers\<close>.
\<close>

definition restore_storage :: "(nat \<Rightarrow> layer_obj) \<Rightarrow> saved \<Rightarrow> error + world" where
  "restore_storage lo sv =
     (let w0 = storage_new server_init lo;
          w1 = (case set_region_size (sv_region_size sv) w0 of Inl _ \<Rightarrow> w0 | Inr w \<Rightarrow> w);
          w2 = set_max_height (sv_max_height sv) w1;
          w3 = set_height_maps (sv_height_maps sv) w2;
          w4 = set_control_maps (sv_control_maps sv) w3;
          w5 = set_region_offsets (sv_region_offsets sv) w4;
          w6 = set_noise_texture (sv_noise_texture sv) w5;
          w7 = set_noise_scale (sv_noise_scale sv) w6;
          w8 = set_noise_height (sv_noise_height sv) w7;
          w9 = set_noise_fade (sv_noise_fade sv) w8;
          w10 = set_shader_override (sv_shader_override sv) w9
      in set_layers (sv_layers sv) w10)"

section \<open>What each setter does to the saved properties\<close>

lemmas getter_defs = get_region_size_def get_max_height_def get_height_maps_def
  get_control_maps_def get_region_offsets_def get_noise_texture_def get_noise_scale_def
  get_noise_height_def get_noise_fade_def get_shader_override_def get_layers_def

lemma save_storage_fields [simp]:
  "save_storage (w\<lparr>rs := s\<rparr>) = save_storage w"
  "save_storage (w\<lparr>lobj := h\<rparr>) = save_storage w"
  "save_storage (w\<lparr>material := r\<rparr>) = save_storage w"
  "save_storage (w\<lparr>shader := r\<rparr>) = save_storage w"
  "save_storage (put_gen sl g w) = save_storage w"
  "save_storage (set_param n v w) = save_storage w"
  by (cases sl; simp add: save_storage_def getter_defs set_param_def)+

lemma save_storage_caches [simp]:
  "save_storage (clear_gen sl w) = save_storage w"
  "save_storage (create_gen_layers sl imgs w) = save_storage w"
  "save_storage (create_gen_image sl img w) = save_storage w"
  "save_storage (create_gen_layer_opts sl xs w) = save_storage w"
  by (simp_all add: clear_gen_def create_gen_layers_def create_gen_image_def
                    create_gen_layer_opts_def split_def Let_def)

lemma save_storage_update_regions [simp]: "save_storage (update_regions w) = save_storage w"
  by (simp add: update_regions_def push_region_params_def Let_def)

lemma save_storage_force_update_maps [simp]: "save_storage (force_update_maps t w) = save_storage w"
  by (cases t) (simp_all add: force_update_maps_def)

lemma save_storage_update_material [simp]: "save_storage (update_material w) = save_storage w"
  by (auto simp: update_material_def Let_def set_region_size_def save_storage_def getter_defs
                 set_param_def split: prod.splits)

lemma save_storage_setters:
  "set_region_size z w = Inr w' \<Longrightarrow> save_storage w' = (save_storage w)\<lparr>sv_region_size := z\<rparr>"
  "save_storage (set_max_height h w) = (save_storage w)\<lparr>sv_max_height := h\<rparr>"
  "save_storage (set_height_maps m w) = (save_storage w)\<lparr>sv_height_maps := m\<rparr>"
  "save_storage (set_control_maps m w) = (save_storage w)\<lparr>sv_control_maps := m\<rparr>"
  "save_storage (set_region_offsets offs w) = (save_storage w)\<lparr>sv_region_offsets := offs\<rparr>"
  "save_storage (set_noise_texture t w) = (save_storage w)\<lparr>sv_noise_texture := t\<rparr>"
  "save_storage (set_noise_scale v w) = (save_storage w)\<lparr>sv_noise_scale := v\<rparr>"
  "save_storage (set_noise_height v w) = (save_storage w)\<lparr>sv_noise_height := v\<rparr>"
  "save_storage (set_noise_fade v w) = (save_storage w)\<lparr>sv_noise_fade := v\<rparr>"
  "save_storage (set_shader_override sh w) = (save_storage w)\<lparr>sv_shader_override := sh\<rparr>"
  apply (simp_all add: set_max_height_def set_height_maps_def set_control_maps_def
                 set_region_offsets_def set_noise_texture_def set_noise_scale_def
                 set_noise_height_def set_noise_fade_def set_shader_override_def)
  by (auto simp: set_region_size_def save_storage_def getter_defs set_param_def split: if_splits)

lemma save_storage_layer_passes:
  "update_texture_slot sl tex w = Inr w' \<Longrightarrow> save_storage w' = save_storage w"
  "update_textures w = Inr w' \<Longrightarrow> save_storage w' = save_storage w"
  "update_layers w = Inr w' \<Longrightarrow> save_storage w' = save_storage w"
proof -
  show t: "update_texture_slot sl tex w = Inr w' \<Longrightarrow> save_storage w' = save_storage w"
    for sl tex w w' by (auto simp: update_texture_slot_def split: if_splits option.splits)
  show u: "update_textures w = Inr w' \<Longrightarrow> save_storage w' = save_storage w" for w w'
    by (auto simp: update_textures_def sbind_Inr_iff dest!: t)
  assume "update_layers w = Inr w'"
  then obtain w1 where c: "connect_layers (layers w) w = Inr w1" and r: "update_textures w1 = Inr w'"
    by (rule update_layers_Inr)
  have "save_storage w1 = save_storage w" by (subst connect_layers_frame [OF c]) simp
  then show "save_storage w' = save_storage w" using u [OF r] by simp
qed

lemma save_storage_layer_handlers:
  "set_layer mat i w = Inr w' \<Longrightarrow> save_storage w' = (save_storage w)\<lparr>sv_layers := layers w'\<rparr>"
  "layer_set_albedo_texture k t w = Inr w' \<Longrightarrow> save_storage w' = save_storage w"
proof -
  assume ok: "set_layer mat i w = Inr w'"
  then obtain w1 where b: "(if i < int (length (layers w)) then
          (if mat = None then
             sbind (array_get (layers w) i) (\<lambda>m. sbind (layer_key m) (\<lambda>k.
               (let l = lobj w k;
                    l1 = obj_disconnect ''texture_changed'' ''_update_textures'' l;
                    l2 = obj_disconnect ''value_changed'' ''_update_arrays'' l1
                in Inr ((put_lobj k l2 w)\<lparr>layers := array_remove_at i (layers w)\<rparr>))))
           else sbind (array_set (layers w) i mat) (\<lambda>ls. Inr (w\<lparr>layers := ls\<rparr>)))
        else Inr (w\<lparr>layers := layers w @ [mat]\<rparr>)) = Inr w1"
    and u: "update_layers (clear_gen Slot_Normal (clear_gen Slot_Albedo w1)) = Inr w'"
    unfolding set_layer_def sbind_Inr_iff by blast
  have s1: "save_storage w1 = (save_storage w)\<lparr>sv_layers := layers w1\<rparr>"
    using b by (auto simp: sbind_Inr_iff Let_def put_lobj_def save_storage_def getter_defs
                     split: if_splits)
  have "layers w' = layers w1" using update_layers_frame(1) [OF u] by simp
  then show "save_storage w' = (save_storage w)\<lparr>sv_layers := layers w'\<rparr>"
    using save_storage_layer_passes(3) [OF u] s1 by simp
next
  assume "layer_set_albedo_texture k t w = Inr w'"
  then show "save_storage w' = save_storage w"
    using save_storage_layer_passes(2) [of "put_lobj k ((lobj w k)\<lparr>lo_albedo_texture := t\<rparr>) w" w']
    by (auto simp: layer_set_albedo_texture_def put_lobj_def Let_def split: if_splits)
qed

lemma save_storage_set_layers:
  "set_layers ls w = Inr w' \<Longrightarrow> save_storage w' = (save_storage w)\<lparr>sv_layers := ls\<rparr>"
  by (simp add: set_layers_def save_storage_layer_passes(3))
     (simp add: save_storage_def getter_defs)

lemma set_layers_succeeds: "None \<notin> set ls \<Longrightarrow> \<exists>w'. set_layers ls w = Inr w'"
  using update_layers_Inl_iff [of "clear_gen Slot_Normal (clear_gen Slot_Albedo (w\<lparr>layers := ls\<rparr>))"]
  by (cases "set_layers ls w") (auto simp: set_layers_def)

lemma layers_via_save: "layers w = sv_layers (save_storage w)"
  by (simp add: save_storage_def getter_defs)

section \<open>The layer list under the handlers\<close>

text \<open>
  The region handlers and the setters keep the layer list; the registry's handlers either
  keep it or end in \<open>_update_layers\<close>, which has dereferenced every layer when it returns.
\<close>

lemma layers_kept:
  "add_region p w = Inr w' \<Longrightarrow> layers w' = layers w"
  "remove_region p w = Inr w' \<Longrightarrow> layers w' = layers w"
  "set_region_size z w = Inr w' \<Longrightarrow> layers w' = layers w"
  "layer_set_albedo_texture k t w = Inr w' \<Longrightarrow> layers w' = layers w"
proof -
  show "add_region p w = Inr w' \<Longrightarrow> layers w' = layers w"
    by (auto simp: add_region_def Let_def split: if_splits)
  show "remove_region p w = Inr w' \<Longrightarrow> layers w' = layers w"
    by (auto simp: remove_region_def Let_def split: if_splits)
  show "set_region_size z w = Inr w' \<Longrightarrow> layers w' = layers w"
    using save_storage_setters(1) [of z w w'] by (simp add: layers_via_save)
  show "layer_set_albedo_texture k t w = Inr w' \<Longrightarrow> layers w' = layers w"
    using update_textures_frame(1)
    by (auto simp: layer_set_albedo_texture_def put_lobj_def Let_def split: if_splits)
qed

lemma layers_setters [simp]:
  "layers (set_height_maps m w) = layers w"
  "layers (set_control_maps m w) = layers w"
  "layers (set_region_offsets offs w) = layers w"
  "layers (set_max_height h w) = layers w"
  "layers (set_shader_override sh w) = layers w"
  "layers (set_noise_texture t w) = layers w"
  "layers (set_noise_scale v w) = layers w"
  "layers (set_noise_height v w) = layers w"
  "layers (set_noise_fade v w) = layers w"
  by (simp_all add: layers_via_save save_storage_setters)

lemma layers_checked:
  "set_layer mat i w = Inr w' \<Longrightarrow> None \<notin> set (layers w')"
  "set_layers ls w = Inr w' \<Longrightarrow> None \<notin> set (layers w')"
proof -
  assume "set_layer mat i w = Inr w'"
  then obtain w1 where r: "refresh_layers w1 = Inr w'" using set_layer_Inr by blast
  then obtain "None \<notin> set (layers (clear_gen Slot_Normal (clear_gen Slot_Albedo w1)))"
    by (rule update_layers_Inr)
  then show "None \<notin> set (layers w')" using update_layers_frame(1) [OF r] by simp
next
  assume "set_layers ls w = Inr w'"
  then show "None \<notin> set (layers w')" using set_layers_Inr(1,2) by simp
qed

section \<open>The material's shader binding\<close>

text \<open>
  Only \<open>_update_material\<close> binds a shader to the material; the cache passes, the
  parameter pushes and the layer passes leave the binding, and the material and shader
  handles, as they are.
\<close>

lemma binding_gen_ops [simp]:
  "rs_material_shader (snd (gen_clear g s)) = rs_material_shader s"
  "rs_material_shader (snd (gen_create_layers imgs g s)) = rs_material_shader s"
  "rs_material_shader (snd (gen_create_image img g s)) = rs_material_shader s"
  "rs_material_shader (snd (gen_create_layer_opts xs g s)) = rs_material_shader s"
  by (simp_all add: gen_create_layer_opts_def gen_clear_def gen_create_layers_def
      gen_create_image_def texture_2d_layered_create_def texture_2d_create_def rs_alloc_def
      free_rid_def split_def Let_def split: option.splits)

lemma binding_caches [simp]:
  "rs_material_shader (rs (clear_gen sl w)) = rs_material_shader (rs w)"
  "rs_material_shader (rs (create_gen_layers sl imgs w)) = rs_material_shader (rs w)"
  "rs_material_shader (rs (create_gen_image sl img w)) = rs_material_shader (rs w)"
  "rs_material_shader (rs (create_gen_layer_opts sl xs w)) = rs_material_shader (rs w)"
  "rs_material_shader (rs (set_param n v w)) = rs_material_shader (rs w)"
  by (cases sl; simp add: clear_gen_def create_gen_layers_def create_gen_image_def
      create_gen_layer_opts_def set_param_def material_set_param_def split_def Let_def)+

lemma binding_update_regions [simp]:
  "rs_material_shader (rs (update_regions w)) = rs_material_shader (rs w)"
  "rs_material_shader (rs (force_update_maps t w)) = rs_material_shader (rs w)"
  by (simp add: update_regions_def push_region_params_def Let_def)
     (cases t; simp add: force_update_maps_def update_regions_def push_region_params_def Let_def)

lemma binding_set_layers:
  assumes "set_layers ls w = Inr w'"
  shows "rs_material_shader (rs w') = rs_material_shader (rs w) \<and> material w' = material w \<and>
         shader w' = shader w"
proof -
  have t: "rs_material_shader (rs w2) = rs_material_shader (rs w1)"
    if "update_texture_slot sl tex w1 = Inr w2" for sl tex w1 w2
    using that by (auto simp: update_texture_slot_def split: if_splits option.splits)
  let ?w = "clear_gen Slot_Normal (clear_gen Slot_Albedo (w\<lparr>layers := ls\<rparr>))"
  obtain w1 where c: "connect_layers (layers ?w) ?w = Inr w1" and u: "update_textures w1 = Inr w'"
    using assms unfolding set_layers_def by (rule update_layers_Inr)
  obtain w2 where a: "update_texture_slot Slot_Albedo lo_albedo_texture w1 = Inr w2"
    and n: "update_texture_slot Slot_Normal lo_normal_texture w2 = Inr w'"
    using u by (auto simp: update_textures_def sbind_Inr_iff)
  have "rs w1 = rs ?w" by (subst connect_layers_frame [OF c]) simp
  then have "rs_material_shader (rs w') = rs_material_shader (rs w)" using t [OF a] t [OF n] by simp
  moreover have "material w' = material w \<and> shader w' = shader w"
    using update_layers_region_data(4,5) assms by (simp add: set_layers_def)
  ultimately show ?thesis by blast
qed

lemma update_material_binds:
  "shader_override w = None \<Longrightarrow>
     rs_material_shader (rs (update_material w)) (material (update_material w)) =
       Some (shader (update_material w))"
  by (auto simp: update_material_def Let_def set_region_size_def set_param_def
                 material_set_param_def material_set_shader_def shader_set_code_def
                 material_create_def shader_create_def rs_alloc_def split: prod.splits)

lemma shader_override_storage_new [simp]: "shader_override (storage_new s lo) = None"
  using save_storage_update_material [of "storage_defaults s lo"]
  by (simp add: storage_new_def storage_defaults_def save_storage_def getter_defs)

text \<open>The setters other than \<open>set_noise_texture\<close> keep the binding and both handles.\<close>

lemma binding_setters:
  "set_region_size z w = Inr w' \<Longrightarrow> rs_material_shader (rs w') = rs_material_shader (rs w) \<and>
     material w' = material w \<and> shader w' = shader w"
  "rs_material_shader (rs (set_max_height h w)) = rs_material_shader (rs w)"
  "rs_material_shader (rs (set_height_maps m w)) = rs_material_shader (rs w)"
  "rs_material_shader (rs (set_control_maps m w)) = rs_material_shader (rs w)"
  "rs_material_shader (rs (set_noise_scale v w)) = rs_material_shader (rs w)"
  "rs_material_shader (rs (set_noise_height v w)) = rs_material_shader (rs w)"
  "rs_material_shader (rs (set_noise_fade v w)) = rs_material_shader (rs w)"
  by (auto simp: set_region_size_def set_max_height_def set_height_maps_def set_control_maps_def
                 set_noise_scale_def set_noise_height_def set_noise_fade_def split: if_splits)

section \<open>Restoring a saved storage\<close>




text \<open>
  C35. A restored shader override is recorded but not applied: after a successful restore
  \<open>get_shader_override\<close> returns the saved override, yet the material is bound to the
  generated shader. \<open>set_shader_override\<close> (line 223) only stores the reference, and
  the last \<open>_update_material\<close> of the restore runs in \<open>set_noise_texture\<close>, before it.
\<close>

theorem restore_ignores_shader_override:
  assumes ok: "restore_storage lo sv = Inr w"
  shows "get_shader_override w = sv_shader_override sv \<and>
         rs_material_shader (rs w) (get_material w) = Some (shader w)"
proof -
  let ?w0 = "storage_new server_init lo"
  define w1 where "w1 = (case set_region_size (sv_region_size sv) ?w0 of Inl _ \<Rightarrow> ?w0 | Inr w \<Rightarrow> w)"
  define w5 where "w5 = set_region_offsets (sv_region_offsets sv) (set_control_maps (sv_control_maps sv)
     (set_height_maps (sv_height_maps sv) (set_max_height (sv_max_height sv) w1)))"
  define w6 where "w6 = set_noise_texture (sv_noise_texture sv) w5"
  define w10 where "w10 = set_shader_override (sv_shader_override sv) (set_noise_fade (sv_noise_fade sv)
     (set_noise_height (sv_noise_height sv) (set_noise_scale (sv_noise_scale sv) w6)))"
  have l: "set_layers (sv_layers sv) w10 = Inr w"
    using ok by (simp add: restore_storage_def Let_def w1_def w5_def w6_def w10_def)
  have "shader_override w1 = None"
    by (auto simp: w1_def set_region_size_def set_param_def split: sum.splits)
  moreover have "sv_shader_override (save_storage w5) = sv_shader_override (save_storage w1)"
    by (simp add: w5_def save_storage_setters(2-5))
  ultimately have "shader_override w5 = None" by (simp add: save_storage_def getter_defs)
  then have "rs_material_shader (rs w6) (material w6) = Some (shader w6)"
    unfolding w6_def set_noise_texture_def by (simp add: update_material_binds set_param_def)
  then have "rs_material_shader (rs w10) (material w10) = Some (shader w10)"
    by (simp add: w10_def binding_setters set_noise_scale_def set_noise_height_def
                  set_noise_fade_def set_shader_override_def set_param_def material_set_param_def)
  then have b: "rs_material_shader (rs w) (material w) = Some (shader w)"
    using binding_set_layers [OF l] by simp
  have "get_shader_override w = sv_shader_override sv"
    using arg_cong [OF save_storage_set_layers [OF l], of sv_shader_override]
    by (simp add: w10_def save_storage_def getter_defs set_shader_override_def)
  with b show ?thesis by (simp add: get_material_def)
qed

theorem restore_ignores_shader_override_witness:
  "\<exists>w. restore_storage (lobj fresh_storage)
          (save_storage (fresh_storage\<lparr>shader_override := Some 99\<rparr>)) = Inr w \<and>
       get_shader_override w = Some 99 \<and> rs_material_shader (rs w) (get_material w) = Some (shader w)"
proof -
  let ?sv = "save_storage (fresh_storage\<lparr>shader_override := Some 99\<rparr>)"
  have l: "sv_layers ?sv = []" "sv_shader_override ?sv = Some 99"
    by (simp_all add: save_storage_def getter_defs)
  have "\<exists>w. restore_storage (lobj fresh_storage) ?sv = Inr w"
    unfolding restore_storage_def Let_def by (rule set_layers_succeeds) (simp add: l)
  then obtain w where w: "restore_storage (lobj fresh_storage) ?sv = Inr w" by blast
  show ?thesis using w restore_ignores_shader_override [OF w] l by auto
qed

end
