(* ===== verification/Param_Sync.thy ===== *)
theory Param_Sync
  imports Params Persistence
begin

text \<open>
  Parameter sync (spec, section 4.6): the material's parameters mirror the storage. A
  parameter the code has pushed holds the value of the field it was pushed from: the
  region size and its reciprocal always (the constructor pushes them), the height and
  noise scalars and the noise texture once their setter ran, and the three map handles
  of the region pass once the pass ran. The theory shows that every handler keeps this.
\<close>

section \<open>The mirror\<close>

definition scalar_params_mirror :: "world \<Rightarrow> bool" where
  "scalar_params_mirror w \<longleftrightarrow>
     (let P = (\<lambda>n. rs_params (rs w) (material w, n)) in
      P ''region_size'' = Some (P_Int (region_size w)) \<and>
      P ''region_pixel_size'' = Some (P_Real (1 / real_of_int (region_size w))) \<and>
      P ''terrain_height'' \<in> {None, Some (P_Int (max_height w))} \<and>
      P ''noise'' \<in> {None, Some (P_Rid (case noise_texture w of None \<Rightarrow> 0 | Some r \<Rightarrow> r))} \<and>
      P ''noise_scale'' \<in> {None, Some (P_Real (noise_scale w))} \<and>
      P ''noise_height'' \<in> {None, Some (P_Real (noise_height w))} \<and>
      P ''noise_fade'' \<in> {None, Some (P_Real (noise_fade w))})"

definition region_params_mirror :: "world \<Rightarrow> bool" where
  "region_params_mirror w \<longleftrightarrow>
     (let P = (\<lambda>n. rs_params (rs w) (material w, n)) in
      P ''height_maps'' \<in> {None, Some (P_Rid (g_rid (generated_height_maps w)))} \<and>
      P ''control_maps'' \<in> {None, Some (P_Rid (g_rid (generated_control_maps w)))} \<and>
      P ''region_map'' \<in> {None, Some (P_Rid (g_rid (generated_region_map w)))} \<and>
      P ''region_map_size'' \<in> {None, Some (P_Int region_map_size)})"

definition params_mirror :: "world \<Rightarrow> bool" where
  "params_mirror w \<longleftrightarrow>
     rid_valid (material w) \<and> scalar_params_mirror w \<and> region_params_mirror w"

section \<open>Scalar fields under the cache operations\<close>

lemma gen_ops_scalars [simp]:
  "max_height (clear_gen sl w) = max_height w"
  "noise_texture (clear_gen sl w) = noise_texture w"
  "noise_scale (clear_gen sl w) = noise_scale w"
  "noise_height (clear_gen sl w) = noise_height w"
  "noise_fade (clear_gen sl w) = noise_fade w"
  "max_height (create_gen_layers sl imgs w) = max_height w"
  "noise_texture (create_gen_layers sl imgs w) = noise_texture w"
  "noise_scale (create_gen_layers sl imgs w) = noise_scale w"
  "noise_height (create_gen_layers sl imgs w) = noise_height w"
  "noise_fade (create_gen_layers sl imgs w) = noise_fade w"
  "max_height (create_gen_image sl img w) = max_height w"
  "noise_texture (create_gen_image sl img w) = noise_texture w"
  "noise_scale (create_gen_image sl img w) = noise_scale w"
  "noise_height (create_gen_image sl img w) = noise_height w"
  "noise_fade (create_gen_image sl img w) = noise_fade w"
  "max_height (create_gen_layer_opts sl xs w) = max_height w"
  "noise_texture (create_gen_layer_opts sl xs w) = noise_texture w"
  "noise_scale (create_gen_layer_opts sl xs w) = noise_scale w"
  "noise_height (create_gen_layer_opts sl xs w) = noise_height w"
  "noise_fade (create_gen_layer_opts sl xs w) = noise_fade w"
  by (cases sl; simp add: clear_gen_def create_gen_layers_def create_gen_image_def
                          create_gen_layer_opts_def split_def Let_def)+

section \<open>The region pass\<close>

lemma region_params_mirror_update_regions: "region_params_mirror (update_regions w)"
  by (simp add: region_params_mirror_def update_regions_def push_region_params_def Let_def
                set_param_def material_set_param_def)

lemma scalar_params_mirror_update_regions [simp]:
  "scalar_params_mirror (update_regions w) = scalar_params_mirror w"
proof -
  have k: "params_kept region_pass_params (rs w) (rs (update_regions w))"
    by (rule params_kept_update_regions)
  have "rs_params (rs (update_regions w)) (material w, n) = rs_params (rs w) (material w, n)"
    if "n \<notin> region_pass_params" for n
    using k that by (simp add: params_kept_def)
  moreover have "max_height (update_regions w) = max_height w"
    "noise_texture (update_regions w) = noise_texture w" "noise_scale (update_regions w) = noise_scale w"
    "noise_height (update_regions w) = noise_height w" "noise_fade (update_regions w) = noise_fade w"
    by (simp_all add: update_regions_def push_region_params_def set_param_def Let_def)
  ultimately show ?thesis
    by (simp add: scalar_params_mirror_def region_pass_params_def)
qed

section \<open>Handlers that keep the mirrored data\<close>

lemma scalar_params_mirror_cong:
  assumes "material w' = material w" "rs_params (rs w') = rs_params (rs w)"
    and "region_size w' = region_size w" "max_height w' = max_height w"
    and "noise_texture w' = noise_texture w" "noise_scale w' = noise_scale w"
    and "noise_height w' = noise_height w" "noise_fade w' = noise_fade w"
  shows "scalar_params_mirror w' = scalar_params_mirror w"
  using assms by (simp add: scalar_params_mirror_def)

lemma region_params_mirror_cong:
  assumes "material w' = material w" "rs_params (rs w') = rs_params (rs w)"
    and "\<And>sl. sl \<in> {Slot_Height, Slot_Control, Slot_Region_Map} \<Longrightarrow> get_gen sl w' = get_gen sl w"
  shows "region_params_mirror w' = region_params_mirror w"
proof -
  have "generated_height_maps w' = generated_height_maps w"
    "generated_control_maps w' = generated_control_maps w"
    "generated_region_map w' = generated_region_map w"
    using assms(3) [of Slot_Height] assms(3) [of Slot_Control] assms(3) [of Slot_Region_Map] by simp_all
  with assms(1,2) show ?thesis by (simp add: region_params_mirror_def)
qed

lemma scalar_params_mirror_clear_gen [simp]:
  "scalar_params_mirror (clear_gen sl w) = scalar_params_mirror w"
  by (rule scalar_params_mirror_cong) simp_all

lemma scalar_params_mirror_data [simp]:
  "scalar_params_mirror (w\<lparr>height_maps := a\<rparr>) = scalar_params_mirror w"
  "scalar_params_mirror (w\<lparr>control_maps := b\<rparr>) = scalar_params_mirror w"
  "scalar_params_mirror (w\<lparr>region_offsets := c\<rparr>) = scalar_params_mirror w"
  "scalar_params_mirror (w\<lparr>layers := l\<rparr>) = scalar_params_mirror w"
  "scalar_params_mirror (w\<lparr>lobj := h\<rparr>) = scalar_params_mirror w"
  by (rule scalar_params_mirror_cong; simp)+

lemma scalar_params_mirror_invalidate [simp]:
  "scalar_params_mirror (invalidate_region_caches w) = scalar_params_mirror w"
  by (simp add: invalidate_region_caches_def)

lemma params_mirror_rebuild:
  "rid_valid (material w) \<Longrightarrow> scalar_params_mirror w \<Longrightarrow>
     params_mirror (update_regions (invalidate_region_caches w))"
  by (simp add: params_mirror_def region_params_mirror_update_regions)

lemma params_mirror_region_handlers:
  assumes pm: "params_mirror w"
  shows "add_region p w = Inr w' \<Longrightarrow> params_mirror w'"
    and "remove_region p w = Inr w' \<Longrightarrow> params_mirror w'"
    and "params_mirror (force_update_maps t w)"
    and "params_mirror (set_height_maps m w)"
    and "params_mirror (set_control_maps m w)"
    and "params_mirror (set_region_offsets offs w)"
proof -
  have v: "rid_valid (material w)" and sc: "scalar_params_mirror w"
    using pm by (simp_all add: params_mirror_def)
  show "add_region p w = Inr w' \<Longrightarrow> params_mirror w'"
    using v sc by (auto simp: add_region_def Let_def intro!: params_mirror_rebuild
                                 split: if_splits)
  show "remove_region p w = Inr w' \<Longrightarrow> params_mirror w'"
    using pm v sc by (auto simp: remove_region_def Let_def intro!: params_mirror_rebuild
                                    split: if_splits)
  have fu: "params_mirror (force_update_maps t w')" if "rid_valid (material w')"
    and "scalar_params_mirror w'" for t w'
    using that by (cases t) (simp_all add: force_update_maps_def params_mirror_def
                                            region_params_mirror_update_regions)
  show "params_mirror (force_update_maps t w)" using fu [OF v sc] .
  show "params_mirror (set_height_maps m w)" unfolding set_height_maps_def
    by (rule fu) (use v sc in simp_all)
  show "params_mirror (set_control_maps m w)" unfolding set_control_maps_def
    by (rule fu) (use v sc in simp_all)
  show "params_mirror (set_region_offsets offs w)"
    using pm unfolding set_region_offsets_def params_mirror_def
    by (simp add: region_params_mirror_def)
qed

lemma params_mirror_set_region_size:
  "params_mirror w \<Longrightarrow> set_region_size z w = Inr w' \<Longrightarrow> params_mirror w'"
proof -
  assume pm: "params_mirror w" and ok: "set_region_size z w = Inr w'"
  then have "w' = set_param ''region_pixel_size'' (P_Real (1 / real_of_int z))
                    (set_param ''region_size'' (P_Int z) (w\<lparr>region_size := z\<rparr>))"
    by (simp add: set_region_size_def split: if_splits)
  then show "params_mirror w'"
    using pm by (simp add: params_mirror_def scalar_params_mirror_def region_params_mirror_def
                           set_param_def material_set_param_def)
qed

lemma update_material_keeps_material:
  "rid_valid (material w) \<Longrightarrow> material (update_material w) = material w"
  by (auto simp: update_material_def Let_def set_region_size_def set_param_def split: prod.splits)

lemma update_material_region_size_params:
  assumes "rid_valid (material w)"
  shows "(rs_params (rs (update_material w)) (material w, ''region_size'') =
            rs_params (rs w) (material w, ''region_size'') \<and>
          rs_params (rs (update_material w)) (material w, ''region_pixel_size'') =
            rs_params (rs w) (material w, ''region_pixel_size'')) \<or>
         (rs_params (rs (update_material w)) (material w, ''region_size'') =
            Some (P_Int (region_size w)) \<and>
          rs_params (rs (update_material w)) (material w, ''region_pixel_size'') =
            Some (P_Real (1 / real_of_int (region_size w))))"
  using assms
  by (auto simp: update_material_def Let_def set_region_size_def set_param_def material_set_param_def
                 shader_create_def rs_alloc_def material_set_shader_def shader_set_code_def
           split: prod.splits)

lemma params_mirror_update_material:
  assumes pm: "params_mirror w"
  shows "params_mirror (update_material w)"
proof -
  have v: "rid_valid (material w)" using pm by (simp add: params_mirror_def)
  obtain m sh s where shape: "update_material w = w\<lparr>material := m, shader := sh, rs := s\<rparr>"
    using update_material_shape by blast
  have m: "m = material w" using update_material_keeps_material [OF v] shape by simp
  have k: "rs_params s (material w, n) = rs_params (rs w) (material w, n)"
    if "n \<notin> {''region_size'', ''region_pixel_size''}" for n
    using params_kept_update_material [of w] that shape by (simp add: params_kept_def)
  have r: "(rs_params s (material w, ''region_size'') = rs_params (rs w) (material w, ''region_size'') \<and>
            rs_params s (material w, ''region_pixel_size'') = rs_params (rs w) (material w, ''region_pixel_size'')) \<or>
           (rs_params s (material w, ''region_size'') = Some (P_Int (region_size w)) \<and>
            rs_params s (material w, ''region_pixel_size'') = Some (P_Real (1 / real_of_int (region_size w))))"
    using update_material_region_size_params [OF v] shape by simp
  show ?thesis
    using pm v r unfolding shape m params_mirror_def scalar_params_mirror_def region_params_mirror_def
    by (auto simp: k)
qed

lemma params_mirror_scalar_setters:
  assumes pm: "params_mirror w"
  shows "params_mirror (set_max_height h w)"
    and "params_mirror (set_shader_override sh w)"
    and "params_mirror (set_noise_texture t w)"
    and "params_mirror (set_noise_scale v w)"
    and "params_mirror (set_noise_height v w)"
    and "params_mirror (set_noise_fade v w)"
proof -
  note defs = params_mirror_def scalar_params_mirror_def region_params_mirror_def set_param_def
    material_set_param_def
  show "params_mirror (set_max_height h w)" using pm by (simp add: set_max_height_def defs)
  show "params_mirror (set_shader_override sh w)" using pm by (simp add: set_shader_override_def defs)
  show "params_mirror (set_noise_scale v w)" using pm by (simp add: set_noise_scale_def defs)
  show "params_mirror (set_noise_height v w)" using pm by (simp add: set_noise_height_def defs)
  show "params_mirror (set_noise_fade v w)" using pm by (simp add: set_noise_fade_def defs)
  have "params_mirror (set_param ''noise'' (P_Rid (case t of None \<Rightarrow> 0 | Some r \<Rightarrow> r))
                         (w\<lparr>noise_texture := t\<rparr>))"
    using pm by (simp add: defs)
  then show "params_mirror (set_noise_texture t w)"
    unfolding set_noise_texture_def by (rule params_mirror_update_material)
qed

lemma params_mirror_frame:
  assumes "material w' = material w" and "rs_params (rs w') = rs_params (rs w)"
    and "\<And>sl. sl \<notin> {Slot_Albedo, Slot_Normal} \<Longrightarrow> get_gen sl w' = get_gen sl w"
    and "save_storage w' = (save_storage w)\<lparr>sv_layers := l\<rparr>"
  shows "params_mirror w' = params_mirror w"
proof -
  have f: "region_size w' = region_size w" "max_height w' = max_height w"
    "noise_texture w' = noise_texture w" "noise_scale w' = noise_scale w"
    "noise_height w' = noise_height w" "noise_fade w' = noise_fade w"
    using assms(4) by (simp_all add: save_storage_def getter_defs)
  have "scalar_params_mirror w' = scalar_params_mirror w"
    using assms(1,2) f by (rule scalar_params_mirror_cong)
  moreover have "region_params_mirror w' = region_params_mirror w"
    using assms(1,2) by (rule region_params_mirror_cong) (use assms(3) in auto)
  ultimately show ?thesis using assms(1) by (simp add: params_mirror_def)
qed

lemma rs_params_layer_handlers:
  "set_layer mat i w = Inr w' \<Longrightarrow> rs_params (rs w') = rs_params (rs w)"
  "set_layers ls w = Inr w' \<Longrightarrow> rs_params (rs w') = rs_params (rs w)"
  "layer_set_albedo_texture k t w = Inr w' \<Longrightarrow> rs_params (rs w') = rs_params (rs w)"
  using params_kept_layer_handlers [where N = "{}"] by (auto simp: params_kept_def)

lemma params_mirror_layer_handlers:
  assumes pm: "params_mirror w"
  shows "set_layer mat i w = Inr w' \<Longrightarrow> params_mirror w'"
    and "set_layers ls w = Inr w' \<Longrightarrow> params_mirror w'"
    and "layer_set_albedo_texture k t w = Inr w' \<Longrightarrow> params_mirror w'"
proof -
  assume ok: "set_layer mat i w = Inr w'"
  obtain w1 where r: "refresh_layers w1 = Inr w'" and e: "layer_edit w w1"
    using set_layer_Inr [OF ok] by blast
  note d = update_layers_region_data [OF r]
  have "params_mirror w' = params_mirror w"
  proof (rule params_mirror_frame)
    show "material w' = material w" using d(4) e by simp
    show "rs_params (rs w') = rs_params (rs w)" by (rule rs_params_layer_handlers(1) [OF ok])
    show "get_gen sl w' = get_gen sl w" if "sl \<notin> {Slot_Albedo, Slot_Normal}" for sl
      using d(7) [OF that] e that by auto
    show "save_storage w' = (save_storage w)\<lparr>sv_layers := layers w'\<rparr>"
      by (rule save_storage_layer_handlers(1) [OF ok])
  qed
  with pm show "params_mirror w'" by simp
next
  assume ok: "set_layers ls w = Inr w'"
  note d = update_layers_region_data [OF ok [unfolded set_layers_def]]
  have "params_mirror w' = params_mirror w"
  proof (rule params_mirror_frame)
    show "material w' = material w" using d(4) by simp
    show "rs_params (rs w') = rs_params (rs w)" by (rule rs_params_layer_handlers(2) [OF ok])
    show "get_gen sl w' = get_gen sl w" if "sl \<notin> {Slot_Albedo, Slot_Normal}" for sl
      using d(7) [OF that] that by (auto simp: get_gen_data_updates)
    show "save_storage w' = (save_storage w)\<lparr>sv_layers := ls\<rparr>"
      by (rule save_storage_set_layers [OF ok])
  qed
  with pm show "params_mirror w'" by simp
next
  assume ok: "layer_set_albedo_texture k t w = Inr w'"
  let ?w1 = "put_lobj k ((lobj w k)\<lparr>lo_albedo_texture := t\<rparr>) w"
  have "update_textures ?w1 = Inr w' \<or> w' = ?w1"
    using ok by (auto simp: layer_set_albedo_texture_def Let_def split: if_splits)
  then have "material w' = material w \<and> (\<forall>sl. sl \<notin> {Slot_Albedo, Slot_Normal} \<longrightarrow> get_gen sl w' = get_gen sl w)"
    using update_textures_frame(7,10) [of ?w1 w'] by (auto simp: put_lobj_def)
  then have "params_mirror w' = params_mirror w"
    using rs_params_layer_handlers(3) [OF ok] save_storage_layer_handlers(2) [OF ok]
    by (intro params_mirror_frame [where l = "layers w"]) (simp_all add: save_storage_def getter_defs)
  with pm show "params_mirror w'" by simp
qed

end
