(* ===== verification/Teardown.thy ===== *)
theory Teardown
  imports Storage
begin

text \<open>
  Teardown (spec, section 5: every handle the storage owns is released exactly once on
  clear or teardown). The destructor (lines 42--46) runs \<open>_clear\<close> (lines 48--57) on an
  initialised storage: it frees the material and the shader and clears the five caches in
  the order height, control, albedo, normal, region map. The theory shows that on a
  storage owning its handles this releases each valid handle once, in that order, and
  leaves the backend with no live resource.
\<close>

section \<open>Releasing a list of handles\<close>

lemma fold_free_rid:
  "rs_objects (fold free_rid xs s) = (\<lambda>r. if r \<in> set xs then None else rs_objects s r)"
  "rs_freed (fold free_rid xs s) = rs_freed s @ xs"
  by (induction xs arbitrary: s) (auto simp: free_rid_def)

lemma dom_fold_free_rid: "dom (rs_objects (fold free_rid xs s)) = dom (rs_objects s) - set xs"
  by (auto simp: fold_free_rid(1) split: if_splits)

lemma gen_clear_fold: "snd (gen_clear g s) = fold free_rid (filter rid_valid [g_rid g]) s"
  by (simp add: gen_clear_def)

lemma distinct_filter_held:
  assumes "distinct os" and "\<forall>a b. h a \<noteq> 0 \<longrightarrow> h a = h b \<longrightarrow> a = b"
  shows "distinct (filter rid_valid (map h os))"
  using assms by (induction os) auto

section \<open>What the destructor releases\<close>

text \<open>The owners in the order \<open>_clear\<close> releases their handles.\<close>

lemma holder_clear_order:
  "map (holder w) [Own_Material, Own_Shader, Own_Gen Slot_Height, Own_Gen Slot_Control,
                   Own_Gen Slot_Albedo, Own_Gen Slot_Normal, Own_Gen Slot_Region_Map] =
   [material w, shader w, g_rid (generated_height_maps w), g_rid (generated_control_maps w),
    g_rid (generated_albedo_textures w), g_rid (generated_normal_textures w),
    g_rid (generated_region_map w)]"
  by simp

lemma range_holder:
  "range (holder w) =
     set [material w, shader w, g_rid (generated_height_maps w), g_rid (generated_control_maps w),
          g_rid (generated_albedo_textures w), g_rid (generated_normal_textures w),
          g_rid (generated_region_map w)]"
proof
  show "range (holder w) \<subseteq> set [material w, shader w, g_rid (generated_height_maps w),
          g_rid (generated_control_maps w), g_rid (generated_albedo_textures w),
          g_rid (generated_normal_textures w), g_rid (generated_region_map w)]"
  proof
    fix r assume "r \<in> range (holder w)"
    then obtain a where "r = holder w a" by blast
    then show "r \<in> set [material w, shader w, g_rid (generated_height_maps w),
          g_rid (generated_control_maps w), g_rid (generated_albedo_textures w),
          g_rid (generated_normal_textures w), g_rid (generated_region_map w)]"
    proof (cases a)
      case (Own_Gen sl)
      then show ?thesis using \<open>r = holder w a\<close> by (cases sl) simp_all
    qed (use \<open>r = holder w a\<close> in simp_all)
  qed
  show "set [material w, shader w, g_rid (generated_height_maps w),
          g_rid (generated_control_maps w), g_rid (generated_albedo_textures w),
          g_rid (generated_normal_textures w), g_rid (generated_region_map w)] \<subseteq> range (holder w)"
    using holder_clear_order [of w] by (metis image_subset_iff list.set_map rangeI)
qed

lemma storage_clear_rs:
  assumes "rid_valid (material w)" and "rid_valid (shader w)"
  shows "rs (storage_clear w) =
           fold free_rid (filter rid_valid
             [material w, shader w, g_rid (generated_height_maps w), g_rid (generated_control_maps w),
              g_rid (generated_albedo_textures w), g_rid (generated_normal_textures w),
              g_rid (generated_region_map w)]) (rs w)"
  using assms by (simp add: storage_clear_def Let_def gen_clear_fold del: fold_simps(2))


text \<open>
  C38. Destroying an initialised storage that owns its handles (a valid material and
  shader, as the constructor leaves them) releases every valid handle it holds exactly
  once, in the order of \<open>_clear\<close>, and leaves no live resource in the backend.
\<close>

theorem storage_destroy_releases_all:
  assumes inv: "res_inv w" and init: "initialized w"
    and m: "rid_valid (material w)" and sh: "rid_valid (shader w)"
  shows "rs_freed (rs (storage_destroy w)) = rs_freed (rs w) @
           filter rid_valid
             [material w, shader w, g_rid (generated_height_maps w), g_rid (generated_control_maps w),
              g_rid (generated_albedo_textures w), g_rid (generated_normal_textures w),
              g_rid (generated_region_map w)] \<and>
         distinct (rs_freed (rs (storage_destroy w))) \<and>
         dom (rs_objects (rs (storage_destroy w))) = {}"
proof -
  let ?os = "[Own_Material, Own_Shader, Own_Gen Slot_Height, Own_Gen Slot_Control,
              Own_Gen Slot_Albedo, Own_Gen Slot_Normal, Own_Gen Slot_Region_Map]"
  let ?xs = "filter rid_valid (map (holder w) ?os)"
  have own: "own_ok (holder w) (dom (rs_objects (rs w))) (rs_next (rs w))"
    and fr: "freed_ok (rs_freed (rs w)) (dom (rs_objects (rs w))) (rs_next (rs w))"
    using inv by (simp_all add: res_inv_def)
  have r: "rs (storage_destroy w) = fold free_rid ?xs (rs w)"
    using storage_clear_rs [OF m sh] init by (simp add: storage_destroy_def)
  have live: "dom (rs_objects (rs w)) = set ?xs"
    using own range_holder [of w] by (simp add: own_ok_def holder_clear_order) blast
  have dx: "distinct ?xs"
    by (rule distinct_filter_held) (use own in \<open>simp_all add: own_ok_def\<close>)
  have "distinct (rs_freed (rs w) @ ?xs)"
    using fr dx live unfolding freed_ok_def by (simp only: distinct_append)
  moreover have "dom (rs_objects (rs (storage_destroy w))) = {}"
    using live by (simp only: r dom_fold_free_rid Diff_cancel)
  ultimately show ?thesis by (simp only: r fold_free_rid(2) holder_clear_order simp_thms)
qed

theorem storage_destroy_releases_all_witness:
  "res_inv fresh_storage \<and> initialized fresh_storage \<and> rid_valid (material fresh_storage) \<and>
   rid_valid (shader fresh_storage) \<and>
   rs_freed (rs (storage_destroy fresh_storage)) = [1, 2] \<and>
   dom (rs_objects (rs (storage_destroy fresh_storage))) = {}"
proof -
  have inv: "res_inv fresh_storage" by (rule res_inv_storage_new)
  have i: "initialized fresh_storage" and m: "material fresh_storage = 1"
    and s: "shader fresh_storage = 2"
    and gs: "generated_height_maps fresh_storage = gen_init" "generated_control_maps fresh_storage = gen_init"
    "generated_albedo_textures fresh_storage = gen_init" "generated_normal_textures fresh_storage = gen_init"
    "generated_region_map fresh_storage = gen_init"
    and f: "rs_freed (rs fresh_storage) = []"
    by (simp_all add: storage_new_def storage_defaults_def update_material_def Let_def
        material_create_def shader_create_def rs_alloc_def server_init_def set_region_size_def
        set_param_def material_set_param_def shader_set_code_def material_set_shader_def)
  have v: "rid_valid (material fresh_storage)" "rid_valid (shader fresh_storage)" using m s by simp_all
  show ?thesis using storage_destroy_releases_all [OF inv i v] inv i v m s f gs
    by (simp add: gen_init_def)
qed

end
