(* ===== verification/Spec2Isabelle.thy ===== *)
theory Spec2Isabelle
  imports Coherence Layers Region_Table Region_Search Param_Sync Teardown
begin

text \<open>
  \<^bold>\<open>Terrain3D storage: a verification development.\<close>

  The program is \<open>Terrain3DStorage\<close> (\<open>src/unnamed/part_000\<close>, the class header, and
  \<open>src/src/terrain_storage.cpp\<close>): a sparse grid of terrain regions (an offset, a
  height map and a control map each), a list of material layers, and five derived GPU
  resources (the region lookup map, the height and control texture arrays, the albedo and
  normal texture arrays), each cached in a \<open>Generated\<close> entry with a dirty flag and
  rebuilt by an update pass. Handlers mutate the lists, clear the affected caches and
  run the pass; the pass rebuilds dirty caches through the \<open>RenderingServer\<close> and pushes
  the handles to a material whose shader \<open>_update_material\<close> generates.

  \<^bold>\<open>Theories.\<close>
  \<^item> \<open>Terrain_Prelude\<close>: the error type and the sequencing of fallible steps
    (\<open>sbind\<close>), removal by index (\<open>drop_nth\<close>), association lists built by zipping,
    first-match search, lists of optional values (\<open>those\<close>), and the exclusive-ownership
    lemmas on handle families (\<open>own_ok\<close>, \<open>freed_ok\<close>).
  \<^item> \<open>Godot_Model\<close>: the collaborators of spec section 6 at their interface: \<open>Color\<close>
    and \<open>Image\<close> (an 8-bit channel stores \<open>CLAMP(v * 255)\<close>; \<open>set_pixelv\<close> as a
    debug build runs it, skipping an out-of-range write), the \<open>RenderingServer\<close> as an explicit state (live resources,
    fresh-handle counter, material parameters, release log), Godot's \<open>Array\<close> accessors.
  \<^item> \<open>Generated\<close>: the cache entry (lines 9--33) and the spec's Empty/Dirty/Clean
    lifecycle as an inductive step relation the operations follow.
  \<^item> \<open>Storage\<close>: the object's fields as the record \<open>storage\<close> (header order), extended
    to \<open>world\<close> by the backend and the layer-object heap \<open>lobj\<close>; the constructor,
    \<open>_update_material\<close>, \<open>_clear\<close>, the scalar setters; the ownership invariant
    \<open>res_inv\<close>, backend growth \<open>rs_grows\<close> and the parameter frame \<open>params_kept\<close>.
  \<^item> \<open>Param_Sync\<close>: the material's parameters mirror the storage's fields
    (\<open>params_mirror\<close>), kept by every handler.
  \<^item> \<open>Teardown\<close>: the destructor and \<open>_clear\<close> release every owned handle once, in
    the source's order, and leave no live resource.
  \<^item> \<open>Regions\<close>: \<open>_get_offset_from\<close>, \<open>get_region_index\<close> (its loop as \<open>index_from\<close>),
    \<open>add_region\<close>, \<open>remove_region\<close>, \<open>get_map\<close>, \<open>force_update_maps\<close>, the bulk
    setters, the region-map encoder, \<open>_update_regions\<close>, and the shader's read of the map
    (\<open>region_map_lookup\<close>, line 439).
  \<^item> \<open>Region_Search\<close>: the search loop of \<open>get_region_index\<close> written as the C++
    writes it (counter, \<open>-1\<close> result, \<open>break\<close>) with \<open>while_option\<close>; its termination by
    a measure and its agreement with \<open>index_from\<close>.
  \<^item> \<open>Layers\<close>: \<open>set_layer\<close>, \<open>get_layer\<close>, \<open>set_layers\<close>, \<open>get_layer_count\<close>,
    \<open>_update_layers\<close> (its connect loop as \<open>connect_layers\<close>), \<open>_update_arrays\<close>,
    \<open>_update_textures\<close>; layers are nullable keys into \<open>lobj\<close>, each object carrying its
    signal connections. The texture array \<open>_update_textures\<close> hands to
    \<open>Generated::create\<close> is converted from Texture2D references to \<open>TypedArray<Image>\<close>
    (\<open>images_of_textures\<close>: empty unless every entry is null), so the pass only clears
    the two texture-array caches. A layer's own texture setter (outside the sources) emits
    \<open>texture_changed\<close>, which Godot dispatches by method name: it runs
    \<open>_update_textures\<close> only if \<open>_bind_methods\<close> registers it (\<open>bound_methods\<close>,
    lines 525--559), which it does not.
  \<^item> \<open>Region_Table\<close>: the abstract store (offset to pair of maps) and the refinement of
    \<open>add_region\<close>, \<open>remove_region\<close> and \<open>get_map\<close> to it.
  \<^item> \<open>Coherence\<close>: cache/source coherence, its preservation by every handler, its
    recovery by \<open>add_region\<close> from any owned state, and the restore of the region
    properties (\<open>load_storage\<close>, lines 561--566).
  \<^item> \<open>Persistence\<close>: the getters, the persisted properties of \<open>_bind_methods\<close>
    (lines 561--575) as the record \<open>saved\<close>, saving through the getters and restoring
    through the setters in declaration order; the round trip, the null-layer abort and the
    unapplied shader override.
  \<^item> \<open>Shader\<close>: the generated shader text (lines 392--503), piece by piece, and its
    uniform declarations. \<open>Params\<close>: which material parameters each handler sets.
  \<^item> This theory: the API as a datatype of operations with one step function
    \<open>exec_op\<close> (regions, maps, layers, scalar setters, a layer's texture edit), the
    reachable states, and the properties over whole runs (ownership, lockstep, coherence,
    region-size range, parameters only under declared uniforms, uniforms never set, no
    null layer, texture arrays never built).

  \<^bold>\<open>Modelling choices.\<close> Floats are reals (no rounding); \<open>RID\<close>s are naturals with 0
  the invalid handle; images are values (editing a map through the \<open>Ref\<close> that
  \<open>get_map\<close> returns is not modelled); \<open>Ref\<close>s to layer materials are keys into an
  explicit heap, so aliasing between list slots is modelled. Every \<open>ERR_FAIL\<close> is an
  \<open>Inl\<close> with the state unchanged, every unchecked index an \<open>Inl Index_Out_Of_Range\<close>,
  every call through a null \<open>Ref\<close> an \<open>Inl Null_Reference\<close> (aborts, state irrelevant).
  All loops walk a list (\<open>index_from\<close>, \<open>encode_regions\<close>, \<open>connect_layers\<close>, the
  comprehensions of \<open>_update_arrays\<close>/\<open>_update_textures\<close>), so they are structural
  recursions or list maps: they terminate by construction and need no fuel. This is
  faithful because each C++ loop runs \<open>for (i = 0; i < a.size(); i++)\<close> over an array its
  body never resizes (the connect loop changes only the layer objects,
  \<open>connect_layers_frame\<close>). Where success is the point, the theorems state it as such:
  the restore of a saved storage returns a state (C33), and \<open>add_region\<close> at a free
  position returns a coherent state from any owned state (C37). One loop is also kept
  in the C++ form, with its \<open>break\<close>: the region search as a \<open>while_option\<close>, whose
  termination is proved with the measure "array size minus counter, plus one before the
  break" and which computes the same index as the recursive search (C40).

  \<^bold>\<open>Not modelled.\<close> Logging (\<open>LOG\<close>), \<open>emit_changed\<close> and
  \<open>notify_property_list_changed\<close> change no modelled state; the \<open>ClassDB::bind_method\<close> and
  \<open>BIND_ENUM_CONSTANT\<close> registrations of \<open>_bind_methods\<close> matter only as the set
  of method names a signal can reach (\<open>bound_methods\<close>) and through the persisted
  properties; GPU upload and the meaning of the GLSL text beyond its uniform
  declarations and the region-map read are outside the spec. Writes of a region offset
  outside the 16x16 region map are modelled as a debug build handles them (skipped);
  a release build writes at \<open>y * width + x\<close>. The theorems on the map's content (C8,
  C9) assume every offset lies inside the map, where both builds agree.
\<close>

section \<open>The storage's API as operations\<close>

datatype op =
    Op_Add_Region vec3
  | Op_Remove_Region vec3
  | Op_Get_Map int map_type
  | Op_Force_Update_Maps map_type
  | Op_Set_Height_Maps "image list"
  | Op_Set_Control_Maps "image list"
  | Op_Set_Region_Offsets "vec2i list"
  | Op_Set_Region_Size int
  | Op_Set_Max_Height int
  | Op_Set_Shader_Override "rid option"
  | Op_Set_Noise_Texture "rid option"
  | Op_Set_Noise_Scale real
  | Op_Set_Noise_Height real
  | Op_Set_Noise_Fade real
  | Op_Set_Layer layer_ref int
  | Op_Get_Layer int
  | Op_Set_Layers "layer_ref list"
  | Op_Layer_Set_Albedo_Texture nat "image option"

fun exec_op :: "op \<Rightarrow> world \<Rightarrow> error + world" where
  "exec_op (Op_Add_Region p) w = add_region p w"
| "exec_op (Op_Remove_Region p) w = remove_region p w"
| "exec_op (Op_Get_Map i t) w = (case get_map i t w of Inl e \<Rightarrow> Inl e | Inr _ \<Rightarrow> Inr w)"
| "exec_op (Op_Force_Update_Maps t) w = Inr (force_update_maps t w)"
| "exec_op (Op_Set_Height_Maps m) w = Inr (set_height_maps m w)"
| "exec_op (Op_Set_Control_Maps m) w = Inr (set_control_maps m w)"
| "exec_op (Op_Set_Region_Offsets offs) w = Inr (set_region_offsets offs w)"
| "exec_op (Op_Set_Region_Size z) w = set_region_size z w"
| "exec_op (Op_Set_Max_Height h) w = Inr (set_max_height h w)"
| "exec_op (Op_Set_Shader_Override sh) w = Inr (set_shader_override sh w)"
| "exec_op (Op_Set_Noise_Texture t) w = Inr (set_noise_texture t w)"
| "exec_op (Op_Set_Noise_Scale v) w = Inr (set_noise_scale v w)"
| "exec_op (Op_Set_Noise_Height v) w = Inr (set_noise_height v w)"
| "exec_op (Op_Set_Noise_Fade v) w = Inr (set_noise_fade v w)"
| "exec_op (Op_Set_Layer mat i) w = set_layer mat i w"
| "exec_op (Op_Get_Layer i) w = (case get_layer i w of Inl e \<Rightarrow> Inl e | Inr _ \<Rightarrow> Inr w)"
| "exec_op (Op_Set_Layers ls) w = set_layers ls w"
| "exec_op (Op_Layer_Set_Albedo_Texture k t) w = layer_set_albedo_texture k t w"

text \<open>
  The states a storage can reach: the constructor in a fresh backend, then any
  successful operation. A reported failure leaves the state as it was, so following
  only the successful steps loses no state.
\<close>

inductive reachable :: "world \<Rightarrow> bool" where
  init: "reachable (storage_new server_init lo)"
| step: "reachable w \<Longrightarrow> exec_op op w = Inr w' \<Longrightarrow> reachable w'"

text \<open>
  The editing API: every operation but the three bulk setters, which the engine calls
  when it loads a saved storage and which replace a list wholesale without any check.
\<close>

fun edit_op :: "op \<Rightarrow> bool" where
  "edit_op (Op_Set_Height_Maps _) = False"
| "edit_op (Op_Set_Control_Maps _) = False"
| "edit_op (Op_Set_Region_Offsets _) = False"
| "edit_op _ = True"

inductive reachable_by_edits :: "world \<Rightarrow> bool" where
  init: "reachable_by_edits (storage_new server_init lo)"
| step: "reachable_by_edits w \<Longrightarrow> edit_op op \<Longrightarrow> exec_op op w = Inr w' \<Longrightarrow>
         reachable_by_edits w'"

section \<open>Ownership of backend resources over runs\<close>

lemma exec_op_res_inv:
  assumes "res_inv w" and "exec_op op w = Inr w'"
  shows "res_inv w'"
proof (cases op)
  case (Op_Add_Region p)
  with assms show ?thesis by (simp add: res_inv_add_region)
next
  case (Op_Remove_Region p)
  with assms show ?thesis by (simp add: res_inv_remove_region)
next
  case (Op_Get_Map i t)
  with assms show ?thesis by (simp split: sum.splits)
next
  case (Op_Force_Update_Maps t)
  with assms show ?thesis by (auto intro: res_inv_force_update_maps)
next
  case (Op_Set_Height_Maps m)
  with assms show ?thesis by (auto intro: res_inv_set_maps)
next
  case (Op_Set_Control_Maps m)
  with assms show ?thesis by (auto intro: res_inv_set_maps)
next
  case (Op_Set_Region_Offsets offs)
  with assms show ?thesis by (auto intro: res_inv_set_maps)
next
  case (Op_Set_Region_Size z)
  with assms show ?thesis by (simp add: res_inv_set_region_size)
next
  case (Op_Set_Layer mat i)
  with assms show ?thesis by (simp add: res_inv_set_layer)
next
  case (Op_Get_Layer i)
  with assms show ?thesis by (simp split: sum.splits)
next
  case (Op_Set_Layers ls)
  with assms show ?thesis by (simp add: res_inv_set_layers)
next
  case (Op_Layer_Set_Albedo_Texture k t)
  with assms show ?thesis by (simp add: res_inv_layer_set_albedo_texture)
qed (use assms in \<open>auto intro: res_inv_scalar_setters\<close>)

text \<open>
  C15. In every reachable state the storage owns its backend resources exclusively:
  the live resources are exactly the valid handles it holds (nothing leaks), no two of
  its handles coincide, every handle it released was released once and is not live (no
  double free), and a dirty cache holds no handle (spec, section 5).
\<close>

theorem reachable_res_inv:
  assumes "reachable w"
  shows "res_inv w"
  using assms
proof (induction rule: reachable.induct)
  case (init lo)
  show ?case by (rule res_inv_storage_new)
next
  case (step w op w')
  then show ?case by (blast intro: exec_op_res_inv)
qed

theorem reachable_res_inv_witness: "reachable fresh_storage \<and> res_inv fresh_storage"
proof -
  have r: "reachable fresh_storage" by (rule reachable.init)
  show ?thesis using r reachable_res_inv [OF r] by blast
qed

section \<open>The region store over runs\<close>

lemma regions_wf_frame:
  assumes "region_offsets w' = region_offsets w" "height_maps w' = height_maps w"
    "control_maps w' = control_maps w"
  shows "regions_wf w' = regions_wf w"
  using assms by (simp add: regions_wf_def)

lemma set_region_size_frame:
  "set_region_size z w = Inr w' \<Longrightarrow>
     region_offsets w' = region_offsets w \<and> height_maps w' = height_maps w \<and>
     control_maps w' = control_maps w"
  by (auto simp: set_region_size_def split: if_splits)

lemma update_material_regions_wf [simp]: "regions_wf (update_material w) = regions_wf w"
  by (simp add: regions_wf_def)

lemma exec_edit_op_regions_wf:
  assumes "regions_wf w" and "edit_op op" and "exec_op op w = Inr w'"
  shows "regions_wf w'"
proof (cases op)
  case (Op_Add_Region p)
  with assms show ?thesis by (simp add: regions_wf_add_region)
next
  case (Op_Remove_Region p)
  with assms show ?thesis by (simp add: regions_wf_remove_region)
next
  case (Op_Get_Map i t)
  with assms show ?thesis by (simp split: sum.splits)
next
  case (Op_Set_Region_Size z)
  with assms show ?thesis using set_region_size_frame [of z w w'] by (simp add: regions_wf_def)
next
  case (Op_Set_Layer mat i)
  then show ?thesis using assms(3) regions_wf_layer_handlers(1) [OF assms(1)] by simp
next
  case (Op_Get_Layer i)
  with assms show ?thesis by (simp split: sum.splits)
next
  case (Op_Set_Layers ls)
  then show ?thesis using assms(3) regions_wf_layer_handlers(2) [OF assms(1)] by simp
next
  case (Op_Layer_Set_Albedo_Texture k t)
  then show ?thesis using assms(3) regions_wf_layer_handlers(3) [OF assms(1)] by simp
qed (use assms in \<open>auto simp: regions_wf_def set_max_height_def set_shader_override_def
                       set_noise_texture_def set_noise_scale_def set_noise_height_def
                       set_noise_fade_def\<close>)

text \<open>
  C16. Through the editing API the region store stays well formed: the offsets stay
  pairwise distinct and the three region lists stay in lockstep, in every reachable
  state (spec, sections 3 and 4.2).
\<close>

theorem reachable_by_edits_regions_wf:
  assumes "reachable_by_edits w"
  shows "regions_wf w"
  using assms
proof (induction rule: reachable_by_edits.induct)
  case (init lo)
  show ?case by (rule regions_wf_fresh)
next
  case (step w op w')
  then show ?case by (blast intro: exec_edit_op_regions_wf)
qed

theorem reachable_by_edits_regions_wf_witness:
  "reachable_by_edits fresh_storage \<and> regions_wf fresh_storage"
proof -
  have r: "reachable_by_edits fresh_storage" by (rule reachable_by_edits.init)
  show ?thesis using r reachable_by_edits_regions_wf [OF r] by blast
qed

section \<open>Coherence of the caches over runs\<close>

lemma reachable_by_edits_res_inv: "reachable_by_edits w \<Longrightarrow> res_inv w"
  by (induction rule: reachable_by_edits.induct)
     (simp_all add: res_inv_storage_new exec_op_res_inv)

lemma exec_edit_op_coherent:
  assumes inv: "res_inv w" and coh: "cache_coherent w" and ed: "edit_op op"
    and ex: "exec_op op w = Inr w'"
  shows "cache_coherent w'"
proof (cases op)
  case (Op_Add_Region p)
  with inv ex show ?thesis by (simp add: cache_coherent_add_region)
next
  case (Op_Remove_Region p)
  with inv coh ex show ?thesis by (simp add: cache_coherent_remove_region)
next
  case (Op_Get_Map i t)
  with coh ex show ?thesis by (simp split: sum.splits)
next
  case (Op_Force_Update_Maps t)
  with inv coh ex show ?thesis by (auto intro: cache_coherent_force_update_maps)
next
  case (Op_Set_Region_Size z)
  with coh ex show ?thesis by (simp add: cache_coherent_set_region_size)
next
  case (Op_Set_Layer mat i)
  then show ?thesis using ex cache_coherent_layer_handlers(1) [OF inv coh] by simp
next
  case (Op_Get_Layer i)
  with coh ex show ?thesis by (simp split: sum.splits)
next
  case (Op_Set_Layers ls)
  then show ?thesis using ex cache_coherent_layer_handlers(2) [OF inv coh] by simp
next
  case (Op_Layer_Set_Albedo_Texture k t)
  then show ?thesis using ex cache_coherent_layer_handlers(3) [OF inv coh] by simp
qed (use inv coh ed ex in \<open>auto intro: cache_coherent_scalar_setters\<close>)

text \<open>
  C17. Through the editing API every cache is coherent with its source in every
  reachable state: a clean height or control cache holding a handle holds the texture
  array built from the current height or control maps, and a clean region map holding
  a handle holds the texture of the encoding of the current offsets (spec, sections 4.3
  and 5).
\<close>

theorem reachable_by_edits_coherent:
  assumes "reachable_by_edits w"
  shows "cache_coherent w"
  using assms
proof (induction rule: reachable_by_edits.induct)
  case (init lo)
  show ?case by simp
next
  case (step w op w')
  then show ?case
    using reachable_by_edits_res_inv [OF step.hyps(1)] by (blast intro: exec_edit_op_coherent)
qed

theorem reachable_by_edits_coherent_witness:
  "reachable_by_edits fresh_storage \<and> cache_coherent fresh_storage"
proof -
  have r: "reachable_by_edits fresh_storage" by (rule reachable_by_edits.init)
  show ?thesis using r reachable_by_edits_coherent [OF r] by blast
qed

section \<open>Null layers over runs\<close>

lemma exec_op_layers_nonnull:
  assumes "exec_op op w = Inr w'" and nn: "None \<notin> set (layers w)"
  shows "None \<notin> set (layers w')"
proof (cases op)
  case (Op_Get_Map i t)
  with assms show ?thesis by (simp split: sum.splits)
next
  case (Op_Get_Layer i)
  with assms show ?thesis by (simp split: sum.splits)
qed (use assms in \<open>auto dest: layers_kept layers_checked\<close>)

text \<open>
  C36. No reachable state holds a null layer: every handler that changes the layer list
  ends in \<open>_update_layers\<close>, which dereferences each layer, so a null layer never
  survives a step that returns. Hence every reachable storage can be saved and restored.
\<close>

theorem reachable_layers_nonnull:
  assumes "reachable w"
  shows "None \<notin> set (get_layers w)"
  using assms
proof (induction rule: reachable.induct)
  case (init lo)
  show ?case using save_storage_update_material [of "storage_defaults server_init lo"]
    by (simp add: layers_via_save get_layers_def storage_new_def)
       (simp add: save_storage_def getter_defs storage_defaults_def)
next
  case (step w op w')
  then show ?case using exec_op_layers_nonnull by (simp add: get_layers_def)
qed

theorem reachable_layers_nonnull_witness:
  "reachable fresh_storage \<and> None \<notin> set (get_layers fresh_storage)"
proof -
  have r: "reachable fresh_storage" by (rule reachable.init)
  show ?thesis using r reachable_layers_nonnull [OF r] by blast
qed

section \<open>Parameter sync over runs\<close>

lemma exec_op_params_mirror:
  assumes "exec_op op w = Inr w'" and pm: "params_mirror w"
  shows "params_mirror w'"
proof (cases op)
  case (Op_Get_Map i t)
  with assms show ?thesis by (simp split: sum.splits)
next
  case (Op_Get_Layer i)
  with assms show ?thesis by (simp split: sum.splits)
qed (use assms in \<open>auto intro: params_mirror_region_handlers params_mirror_scalar_setters
                     params_mirror_set_region_size params_mirror_layer_handlers\<close>)

lemma params_mirror_storage_new: "params_mirror (storage_new server_init lo)"
  by (simp add: params_mirror_def scalar_params_mirror_def region_params_mirror_def storage_new_def
      storage_defaults_def update_material_def Let_def material_create_def shader_create_def
      rs_alloc_def server_init_def set_region_size_def set_param_def material_set_param_def
      shader_set_code_def material_set_shader_def)

text \<open>
  C39. In every reachable state the material's parameters mirror the storage: the region
  size and its reciprocal always hold the current region size, and the height, noise and
  map-handle parameters, once pushed, hold the current value of their field (spec,
  section 4.6). No handler changes a field without pushing it, or pushes a stale value.
\<close>

theorem reachable_params_mirror:
  assumes "reachable w"
  shows "params_mirror w"
  using assms
proof (induction rule: reachable.induct)
  case (init lo)
  show ?case by (rule params_mirror_storage_new)
next
  case (step w op w')
  then show ?case using exec_op_params_mirror by blast
qed

theorem reachable_params_mirror_witness:
  "reachable fresh_storage \<and> params_mirror fresh_storage"
proof -
  have r: "reachable fresh_storage" by (rule reachable.init)
  show ?thesis using r reachable_params_mirror [OF r] by blast
qed

section \<open>The region size over runs\<close>

lemma exec_op_region_size:
  assumes "exec_op op w = Inr w'"
  shows "region_size w' = region_size w \<or> (64 \<le> region_size w' \<and> region_size w' \<le> 2048)"
proof (cases op)
  case (Op_Add_Region p)
  with assms show ?thesis using add_region_Inr(4) by simp
next
  case (Op_Remove_Region p)
  with assms show ?thesis using remove_region_Inr(3) [of p w w']
    by (cases "get_region_count w = 1") (simp_all add: remove_region_def)
next
  case (Op_Get_Map i t)
  with assms show ?thesis by (simp split: sum.splits)
next
  case (Op_Set_Height_Maps m)
  with assms show ?thesis by (auto simp: set_height_maps_def)
next
  case (Op_Set_Control_Maps m)
  with assms show ?thesis by (auto simp: set_control_maps_def)
next
  case (Op_Set_Region_Offsets offs)
  with assms show ?thesis by (auto simp: set_region_offsets_def)
next
  case (Op_Set_Region_Size z)
  with assms show ?thesis by (auto simp: set_region_size_def split: if_splits)
next
  case (Op_Set_Layer mat i)
  with assms show ?thesis using region_size_layer_handlers(1) by simp
next
  case (Op_Get_Layer i)
  with assms show ?thesis by (simp split: sum.splits)
next
  case (Op_Set_Layers ls)
  with assms show ?thesis using region_size_layer_handlers(2) by simp
next
  case (Op_Layer_Set_Albedo_Texture k t)
  with assms show ?thesis using region_size_layer_handlers(3) by simp
qed (use assms in \<open>auto simp: set_max_height_def set_shader_override_def set_noise_texture_def
                     set_noise_scale_def set_noise_height_def set_noise_fade_def\<close>)

text \<open>
  C26. In every reachable state the region size lies in the range
  \<open>set_region_size\<close> checks, 64 to 2048 (spec, section 6: the region-size domain).
\<close>

theorem reachable_region_size_range:
  assumes "reachable w"
  shows "64 \<le> region_size w \<and> region_size w \<le> 2048"
  using assms
proof (induction rule: reachable.induct)
  case (init lo)
  show ?case by simp
next
  case (step w op w')
  then show ?case using exec_op_region_size [OF step.hyps(2)] by auto
qed

theorem reachable_region_size_range_witness:
  "reachable fresh_storage \<and> 64 \<le> region_size fresh_storage \<and> region_size fresh_storage \<le> 2048"
proof -
  have r: "reachable fresh_storage" by (rule reachable.init)
  show ?thesis using r reachable_region_size_range [OF r] by blast
qed

text \<open>
  C27. The range check is weaker than the type: \<open>set_region_size\<close> accepts any value
  between 64 and 2048, so a reachable storage can hold a region size that is none of the
  \<open>RegionSize\<close> values (spec, section 6: the domain is {64, 128, 256, 512, 1024, 2048}).
\<close>

theorem region_size_outside_enum:
  "\<exists>w. reachable w \<and> region_size w = 100 \<and> region_size w \<notin> set region_sizes"
proof -
  have r: "reachable fresh_storage" by (rule reachable.init)
  obtain w where w: "set_region_size 100 fresh_storage = Inr w" and z: "region_size w = 100"
    by (simp add: set_region_size_def)
  have "reachable w"
    by (rule reachable.step [OF r, of "Op_Set_Region_Size 100"]) (simp add: w)
  with z show ?thesis by (auto simp: region_sizes_def)
qed

section \<open>The material's parameters over runs\<close>

lemma exec_op_params_kept:
  assumes "exec_op op w = Inr w'"
  shows "params_kept pushed_params (rs w) (rs w')"
proof (cases op)
  case (Op_Add_Region p)
  with assms show ?thesis by (simp add: params_kept_region_handlers(1))
next
  case (Op_Remove_Region p)
  with assms show ?thesis by (simp add: params_kept_region_handlers(2))
next
  case (Op_Get_Map i t)
  with assms show ?thesis by (auto simp: params_kept_def split: sum.splits)
next
  case (Op_Force_Update_Maps t)
  with assms show ?thesis using params_kept_region_handlers(3) by auto
next
  case (Op_Set_Region_Size z)
  with assms show ?thesis by (simp add: params_kept_other_handlers(4))
next
  case (Op_Set_Layer mat i)
  with assms show ?thesis by (simp add: params_kept_layer_handlers(1))
next
  case (Op_Get_Layer i)
  with assms show ?thesis by (auto simp: params_kept_def split: sum.splits)
next
  case (Op_Set_Layers ls)
  with assms show ?thesis by (simp add: params_kept_layer_handlers(2))
next
  case (Op_Layer_Set_Albedo_Texture k t)
  with assms show ?thesis by (simp add: params_kept_layer_handlers(3))
qed (use assms params_kept_other_handlers in auto)

lemma storage_new_params:
  "n \<notin> pushed_params \<Longrightarrow> rs_params (rs (storage_new server_init lo)) (m, n) = None"
  by (auto simp: storage_new_eq set_param_def material_set_param_def pushed_params_def)

text \<open>
  Over any run the material only ever holds parameters under the names some handler
  pushes: the constructor pushes two of them, and every operation keeps the others.
\<close>

lemma reachable_param_names:
  assumes "reachable w"
  shows "rs_params (rs w) (m, n) \<noteq> None \<Longrightarrow> n \<in> pushed_params"
  using assms
proof (induction rule: reachable.induct)
  case (init lo)
  then show ?case using storage_new_params [of n lo m] by (cases "n \<in> pushed_params") simp_all
next
  case (step w op w')
  then show ?case using exec_op_params_kept [OF step.hyps(2)]
    by (cases "n \<in> pushed_params") (simp_all add: params_kept_def)
qed

text \<open>
  C31. A uniform of the generated shader that no handler pushes keeps no value in any
  reachable state: whatever sequence of operations ran, the material holds no parameter
  under that name.
\<close>

theorem reachable_unpushed_uniform_unset:
  assumes "reachable w" and "n \<in> set (shader_uniforms b)" and "n \<notin> pushed_params"
  shows "rs_params (rs w) (m, n) = None"
  using reachable_param_names [OF assms(1)] assms(3) by blast

theorem reachable_unpushed_uniform_unset_witness:
  "reachable fresh_storage \<and> ''texture_array_albedo'' \<in> set (shader_uniforms False) \<and>
   ''texture_array_albedo'' \<notin> pushed_params \<and>
   rs_params (rs fresh_storage) (1, ''texture_array_albedo'') = None"
proof -
  have r: "reachable fresh_storage" by (rule reachable.init)
  have u: "''texture_array_albedo'' \<in> set (shader_uniforms False)" by (simp add: shader_uniforms_eq)
  have p: "''texture_array_albedo'' \<notin> pushed_params" by (simp add: pushed_params_def region_pass_params_def)
  show ?thesis using r u p reachable_unpushed_uniform_unset [OF r u p] by blast
qed

text \<open>
  C32. Every parameter the material holds in a reachable state is a uniform the shader
  declares: a name is declared by the shader generated with a noise texture, and every
  name outside the four noise uniforms is declared by the shader without one too. So no
  handler pushes a name the shader text misspells or lacks.
\<close>

theorem reachable_params_declared:
  assumes "reachable w" and "rs_params (rs w) (m, n) \<noteq> None"
  shows "n \<in> set (shader_uniforms True) \<and>
         (n \<notin> {''noise'', ''noise_scale'', ''noise_height'', ''noise_fade''} \<longrightarrow>
            n \<in> set (shader_uniforms False))"
proof -
  have "n \<in> pushed_params" by (rule reachable_param_names [OF assms])
  then show ?thesis by (auto simp: pushed_params_def region_pass_params_def shader_uniforms_eq)
qed

theorem reachable_params_declared_witness:
  "reachable fresh_storage \<and> rs_params (rs fresh_storage) (1, ''region_size'') \<noteq> None \<and>
   ''region_size'' \<in> set (shader_uniforms False)"
proof -
  have r: "reachable fresh_storage" by (rule reachable.init)
  have p: "rs_params (rs fresh_storage) (1, ''region_size'') \<noteq> None"
    by (simp add: storage_new_eq set_param_def material_set_param_def)
  show ?thesis using r p reachable_params_declared [OF r p] by simp
qed

section \<open>The texture arrays over runs\<close>

lemma exec_op_texture_rids:
  assumes "exec_op op w = Inr w'"
    and "g_rid (generated_albedo_textures w) = 0" and "g_rid (generated_normal_textures w) = 0"
  shows "g_rid (generated_albedo_textures w') = 0 \<and> g_rid (generated_normal_textures w') = 0"
proof (cases op)
  case (Op_Add_Region p)
  with assms show ?thesis by (auto simp: add_region_def Let_def split: if_splits)
next
  case (Op_Remove_Region p)
  with assms show ?thesis by (auto simp: remove_region_def Let_def split: if_splits)
next
  case (Op_Get_Map i t)
  with assms show ?thesis by (simp split: sum.splits)
next
  case (Op_Set_Region_Size z)
  with assms show ?thesis by (auto simp: set_region_size_def split: if_splits)
next
  case (Op_Set_Layer mat i)
  with assms show ?thesis using layer_handlers_no_texture_handles(1) by simp
next
  case (Op_Get_Layer i)
  with assms show ?thesis by (simp split: sum.splits)
next
  case (Op_Set_Layers ls)
  with assms show ?thesis using layer_handlers_no_texture_handles(2) by simp
next
  case (Op_Layer_Set_Albedo_Texture k t)
  with assms show ?thesis
    by (auto simp: layer_set_albedo_texture_def Let_def put_lobj_def split: if_splits
             dest!: update_textures_no_handles)
qed (use assms in \<open>auto simp: set_height_maps_def set_control_maps_def set_region_offsets_def
       force_update_maps_def set_max_height_def set_shader_override_def set_noise_texture_def
       set_noise_scale_def set_noise_height_def set_noise_fade_def split: map_type.splits\<close>)

text \<open>
  C10. In no reachable state does either texture-array cache hold a backend handle: the
  array handed to \<open>Generated::create\<close> in \<open>_update_textures\<close> is converted from the
  layers' Texture2D references to \<open>TypedArray<Image>\<close>, the conversion yields an empty
  array whenever a layer carries a texture, and an empty array only clears the cache; the
  handler meant to rebuild the arrays on a texture change is never bound. So the albedo and
  normal texture arrays are never built.
\<close>

theorem reachable_texture_arrays_never_built:
  assumes "reachable w"
  shows "g_rid (generated_albedo_textures w) = 0 \<and> g_rid (generated_normal_textures w) = 0"
  using assms
proof (induction rule: reachable.induct)
  case (init lo)
  show ?case by (simp add: gen_init_def)
next
  case (step w op w')
  then show ?case using exec_op_texture_rids by blast
qed

theorem reachable_texture_arrays_never_built_witness:
  "\<exists>w. reachable w \<and> set_layers [Some 0] fresh_storage = Inr w \<and>
     g_rid (generated_albedo_textures w) = 0 \<and> g_rid (generated_normal_textures w) = 0"
proof -
  have r: "reachable fresh_storage" by (rule reachable.init)
  have "\<not> (\<exists>e. set_layers [Some 0] fresh_storage = Inl e)"
    by (simp add: set_layers_def update_layers_Inl_iff)
  then obtain w where s: "set_layers [Some 0] fresh_storage = Inr w" by (cases "set_layers [Some 0] fresh_storage") auto
  have rw: "reachable w" by (rule reachable.step [OF r, of "Op_Set_Layers [Some 0]"]) (simp add: s)
  show ?thesis using rw s reachable_texture_arrays_never_built [OF rw] by blast
qed

end
